theory Spec2Isabelle
  imports Complex_Main
begin

section \<open>JavaScript primitives used by the tour finalization service\<close>

text \<open>
  Strings are byte lists: a character outside ASCII (the arrow of one error message, the
  pictographs of the guide headings, a no-break space) is written as its UTF-8 bytes.
  Numbers that the service prints are small naturals; \<open>toString\<close> is their decimal form.
\<close>

definition digitChar :: "nat \<Rightarrow> char" where
  "digitChar d = ''0123456789'' ! d"

fun toString :: "nat \<Rightarrow> string" where
  "toString n = (if n < 10 then [digitChar n] else toString (n div 10) @ [digitChar (n mod 10)])"

declare toString.simps [simp del]

text \<open>\<open>a || d\<close> on strings: the empty string is falsy.\<close>

definition orElse :: "string \<Rightarrow> string \<Rightarrow> string" where
  "orElse a d = (if a = [] then d else a)"

text \<open>\<open>a || d\<close> where \<open>a\<close> may be undefined or null.\<close>

definition orDefault :: "string option \<Rightarrow> string \<Rightarrow> string" where
  "orDefault a d = (case a of None \<Rightarrow> d | Some v \<Rightarrow> orElse v d)"

text \<open>
  The characters that \<open>\s\<close> matches and \<open>trim()\<close> strips are the white space and line
  terminator code points of ECMAScript: U+0009 to U+000D, U+0020, U+00A0, U+1680, U+2000 to
  U+200A, U+2028, U+2029, U+202F, U+205F, U+3000 and U+FEFF, here in UTF-8.
\<close>

definition whiteSpaceCodes :: "string list" where
  "whiteSpaceCodes =
     [[CHR 0x09], [CHR 0x0A], [CHR 0x0B], [CHR 0x0C], [CHR 0x0D], [CHR 0x20],
      [CHR 0xC2, CHR 0xA0],
      [CHR 0xE1, CHR 0x9A, CHR 0x80],
      [CHR 0xE2, CHR 0x80, CHR 0x80], [CHR 0xE2, CHR 0x80, CHR 0x81],
      [CHR 0xE2, CHR 0x80, CHR 0x82], [CHR 0xE2, CHR 0x80, CHR 0x83],
      [CHR 0xE2, CHR 0x80, CHR 0x84], [CHR 0xE2, CHR 0x80, CHR 0x85],
      [CHR 0xE2, CHR 0x80, CHR 0x86], [CHR 0xE2, CHR 0x80, CHR 0x87],
      [CHR 0xE2, CHR 0x80, CHR 0x88], [CHR 0xE2, CHR 0x80, CHR 0x89],
      [CHR 0xE2, CHR 0x80, CHR 0x8A],
      [CHR 0xE2, CHR 0x80, CHR 0xA8], [CHR 0xE2, CHR 0x80, CHR 0xA9],
      [CHR 0xE2, CHR 0x80, CHR 0xAF],
      [CHR 0xE2, CHR 0x81, CHR 0x9F],
      [CHR 0xE3, CHR 0x80, CHR 0x80],
      [CHR 0xEF, CHR 0xBB, CHR 0xBF]]"

definition startsWith :: "string \<Rightarrow> string \<Rightarrow> bool" where
  "startsWith s w = (take (length w) s = w)"

text \<open>Every occurrence of one of the codes is removed; the codes at the start are removed.\<close>

fun removeCodes :: "string list \<Rightarrow> string \<Rightarrow> string" where
  "removeCodes codes [] = []"
| "removeCodes codes (c # cs) =
     (case find (startsWith (c # cs)) codes of
        None \<Rightarrow> c # removeCodes codes cs
      | Some w \<Rightarrow> removeCodes codes (drop (length w - 1) cs))"

fun dropLeadingCodes :: "string list \<Rightarrow> string \<Rightarrow> string" where
  "dropLeadingCodes codes [] = []"
| "dropLeadingCodes codes (c # cs) =
     (case find (startsWith (c # cs)) codes of
        None \<Rightarrow> c # cs
      | Some w \<Rightarrow> dropLeadingCodes codes (drop (length w - 1) cs))"

text \<open>\<open>s.replace(/\s/g, '')\<close>\<close>

definition removeWhitespace :: "string \<Rightarrow> string" where
  "removeWhitespace s = removeCodes whiteSpaceCodes s"

text \<open>\<open>s.trim()\<close>: the white space at the start and, read backwards, at the end.\<close>

definition trim :: "string \<Rightarrow> string" where
  "trim s =
     rev (dropLeadingCodes (map rev whiteSpaceCodes) (rev (dropLeadingCodes whiteSpaceCodes s)))"

fun join :: "string \<Rightarrow> string list \<Rightarrow> string" where
  "join sep [] = []"
| "join sep [x] = x"
| "join sep (x # y # ys) = x @ sep @ join sep (y # ys)"

text \<open>
  \<open>Math.random()\<close> returns an IEEE 754 double in [0, 1). Such a number is \<open>m / 2 ^ e\<close>
  for naturals \<open>m < 2 ^ 53\<close> and \<open>e \<le> 1074\<close> with \<open>m < 2 ^ e\<close>, and every such quotient is one;
  the pair \<open>(m, e)\<close> stands for it.
\<close>

definition isDraw :: "nat \<times> nat \<Rightarrow> bool" where
  "isDraw u = (case u of (m, e) \<Rightarrow> m < 2 ^ 53 \<and> e \<le> 1074 \<and> m < 2 ^ e)"

text \<open>
  The product of a double and an integer is rounded to 53 significant bits, to nearest and
  ties to even. \<open>excessBits p\<close> is the number of bits that \<open>p\<close> has beyond 53, and
  \<open>roundToDouble p / 2 ^ e\<close> is the double nearest to \<open>p / 2 ^ e\<close>.
\<close>

fun excessBits :: "nat \<Rightarrow> nat" where
  "excessBits p = (if p < 2 ^ 53 then 0 else Suc (excessBits (p div 2)))"

declare excessBits.simps [simp del]

definition roundToDouble :: "nat \<Rightarrow> nat" where
  "roundToDouble p =
     (let k = excessBits p; q = p div 2 ^ k; r = p mod 2 ^ k in
      if 2 ^ k < 2 * r \<or> (2 * r = 2 ^ k \<and> odd q) then (q + 1) * 2 ^ k else q * 2 ^ k)"

text \<open>
  \<open>Math.floor(Math.random() * n)\<close> for a draw \<open>u\<close> of \<open>Math.random()\<close> and a small
  integer \<open>n\<close>: the floor of the rounded product.
\<close>

definition floorTimes :: "nat \<times> nat \<Rightarrow> nat \<Rightarrow> nat" where
  "floorTimes u n = (case u of (m, e) \<Rightarrow> roundToDouble (m * n) div 2 ^ e)"


section \<open>Data model\<close>

datatype WorkflowOption =
    receive_to_light
  | pack_to_light
  | standard_receiving
  | bulk_shipping
  | single_item_batch
  | multi_item_batch

record Host =
  host_id :: string
  host_name :: string
  host_first_name :: string
  host_last_name :: string

record Participant =
  p_id :: string
  p_name :: string
  p_first_name :: string
  p_last_name :: string
  p_email :: string
  p_company :: string
  p_title :: string

text \<open>The warehouse address is untyped in the source (\<open>any\<close>): every field may be missing.\<close>

record Address =
  addr_address1 :: "string option"
  addr_address :: "string option"
  addr_address2 :: "string option"
  addr_city :: "string option"
  addr_state :: "string option"
  addr_zip :: "string option"
  addr_country :: "string option"
  addr_phone :: "string option"

record Warehouse =
  wh_id :: string
  wh_name :: string
  wh_address :: "Address option"
  wh_shiphero_warehouse_id :: string

record TourData =
  tour_id :: string
  host :: Host
  participants :: "Participant list"
  warehouse :: Warehouse
  selected_workflows :: "string list"
  selected_skus :: "string list"

text \<open>The row of table \<open>tours\<close> as selected by \<open>getTourDetails\<close>.\<close>

record TourRow =
  row_id :: string
  row_warehouse_id :: string
  row_host_id :: string
  row_selected_workflows :: "string list option"
  row_selected_skus :: "string list option"

text \<open>Readings of \<open>new Date()\<close>: ISO timestamp, ISO timestamp seven days later, locale forms.\<close>

record Clock =
  toISOString :: string
  toISOString_plus7days :: string
  toLocaleDateString :: string
  toLocaleString :: string


section \<open>Order requests\<close>

record LineItem =
  li_sku :: string
  li_quantity :: nat
  li_price :: string
  li_product_name :: string
  li_partner_line_item_id :: string
  li_fulfillment_status :: string
  li_quantity_pending_fulfillment :: nat
  li_warehouse_id :: string

record ShippingLines =
  sl_title :: string
  sl_price :: string
  sl_carrier :: string
  sl_method :: string

record OrderAddress =
  oa_first_name :: string
  oa_last_name :: string
  oa_company :: string
  oa_address1 :: string
  oa_address2 :: string
  oa_city :: string
  oa_state :: string
  oa_state_code :: "string option"
  oa_zip :: string
  oa_country :: string
  oa_country_code :: "string option"
  oa_phone :: string
  oa_email :: string

record SalesOrder =
  so_order_number :: string
  so_shop_name :: string
  so_fulfillment_status :: string
  so_order_date :: string
  so_total_tax :: string
  so_subtotal :: string
  so_total_discounts :: string
  so_total_price :: string
  so_shipping_lines :: ShippingLines
  so_shipping_address :: OrderAddress
  so_billing_address :: OrderAddress
  so_line_items :: "LineItem list"
  so_required_ship_date :: string
  so_tags :: "string list"

record POLineItem =
  pli_sku :: string
  pli_quantity :: nat
  pli_expected_weight_in_lbs :: string
  pli_vendor_id :: string
  pli_quantity_received :: nat
  pli_quantity_rejected :: nat
  pli_price :: string
  pli_product_name :: string
  pli_fulfillment_status :: string
  pli_sell_ahead :: nat

record PurchaseOrder =
  po_po_number :: string
  po_po_date :: string
  po_vendor_id :: string
  po_warehouse_id :: string
  po_subtotal :: string
  po_tax :: string
  po_shipping_price :: string
  po_total_price :: string
  po_fulfillment_status :: string
  po_discount :: string
  po_line_items :: "POLineItem list"

text \<open>The \<open>{sku, quantity}\<close> pairs that \<open>createStandardReceivingPO\<close> draws first.\<close>

record SkuQuantity =
  sq_sku :: string
  sq_quantity :: nat


section \<open>External collaborators\<close>

text \<open>
  What the service reads of the JSON body answered by \<open>/api/shiphero/orders\<close>:
  \<open>data?.order_create?.order\<close>, \<open>data?.purchase_order_create?.purchase_order\<close> and
  \<open>errors?.[0]?.message\<close>.
\<close>

record ApiBody =
  body_order :: "string option"
  body_purchase_order :: "string option"
  body_error_message :: "string option"

text \<open>\<open>NotOk status text\<close> is a response with \<open>response.ok\<close> false.\<close>

datatype HttpResponse = NotOk nat string | Ok ApiBody

datatype ApiRequest = SalesOrderRequest SalesOrder | PurchaseOrderRequest PurchaseOrder

datatype TokenResponse = TokenNotOk | TokenOk string

text \<open>
  The collaborators are oracles. Each answer may depend on the moment of the request, the
  number of interactions before it, so that the same request can be answered differently
  when it is repeated. The order API answers with the response and the time at which the
  promise of the submission settles. \<open>Math_random k\<close> is the value of the call number \<open>k\<close>
  that the service makes of \<open>Math.random()\<close>. \<open>toLowerCase\<close> is the method of
  \<open>String.prototype\<close>; the service applies it to names that the environment supplies, and
  it is left uninterpreted.
\<close>

record Environment =
  window_defined :: bool
  localStorage_getItem :: "string option"
  refresh_token_api :: "nat \<Rightarrow> string \<Rightarrow> TokenResponse"
  orders_api :: "nat \<Rightarrow> string \<Rightarrow> ApiRequest \<Rightarrow> nat \<times> HttpResponse"
  tours_table :: "nat \<Rightarrow> string \<Rightarrow> string + TourRow"
  warehouses_table :: "nat \<Rightarrow> string \<Rightarrow> string + Warehouse"
  team_members_table :: "nat \<Rightarrow> string \<Rightarrow> string + Host"
  tour_participants_table :: "nat \<Rightarrow> string \<Rightarrow> string + Participant list option"
  tours_update :: "nat \<Rightarrow> string \<Rightarrow> string \<Rightarrow> string option"
  Math_random :: "nat \<Rightarrow> nat \<times> nat"
  getCelebrityNames :: "nat \<Rightarrow> nat \<Rightarrow> (string \<times> string) list"
  toLowerCase :: "string \<Rightarrow> string"
  clock :: Clock


section \<open>Request builders\<close>

record ShippingAddress =
  wsa_first_name :: string
  wsa_last_name :: string
  wsa_address1 :: string
  wsa_address2 :: string
  wsa_city :: string
  wsa_state :: string
  wsa_zip :: string
  wsa_country :: string
  wsa_phone :: string

text \<open>\<open>address?.f\<close>\<close>

definition field :: "Address option \<Rightarrow> (Address \<Rightarrow> string option) \<Rightarrow> string option" where
  "field a f = (case a of None \<Rightarrow> None | Some r \<Rightarrow> f r)"

definition getWarehouseShippingAddress :: "TourData \<Rightarrow> ShippingAddress" where
  "getWarehouseShippingAddress tourData =
     (let address = wh_address (warehouse tourData) in
      \<lparr> wsa_first_name = ''Warehouse'',
        wsa_last_name = ''Demo'',
        wsa_address1 = orDefault (field address addr_address1)
                         (orDefault (field address addr_address) ''123 Warehouse St''),
        wsa_address2 = orDefault (field address addr_address2) '''',
        wsa_city = orDefault (field address addr_city) ''Demo City'',
        wsa_state = orDefault (field address addr_state) ''CA'',
        wsa_zip = orDefault (field address addr_zip) ''90210'',
        wsa_country = orDefault (field address addr_country) ''US'',
        wsa_phone = orDefault (field address addr_phone) ''555-0123'' \<rparr>)"

text \<open>
  The shipping and the billing block of a sales order are the same literal in every builder.
  \<open>warehouseAddress.state_code\<close> and \<open>warehouseAddress.country_code\<close> read fields that
  \<open>getWarehouseShippingAddress\<close> does not return: they are undefined.
\<close>

definition customerAddress ::
  "ShippingAddress \<Rightarrow> string \<Rightarrow> string \<Rightarrow> string \<Rightarrow> string \<Rightarrow> OrderAddress" where
  "customerAddress warehouseAddress firstName lastName company email =
     \<lparr> oa_first_name = firstName,
       oa_last_name = lastName,
       oa_company = company,
       oa_address1 = wsa_address1 warehouseAddress,
       oa_address2 = wsa_address2 warehouseAddress,
       oa_city = wsa_city warehouseAddress,
       oa_state = wsa_state warehouseAddress,
       oa_state_code = None,
       oa_zip = wsa_zip warehouseAddress,
       oa_country = wsa_country warehouseAddress,
       oa_country_code = None,
       oa_phone = wsa_phone warehouseAddress,
       oa_email = email \<rparr>"

definition standardShipping :: ShippingLines where
  "standardShipping =
     \<lparr> sl_title = ''Standard Shipping'', sl_price = ''0.00'',
       sl_carrier = ''Demo Carrier'', sl_method = ''Standard'' \<rparr>"

subsection \<open>Purchase order of \<open>createStandardReceivingPO\<close>\<close>

definition poData :: "Clock \<Rightarrow> TourData \<Rightarrow> string \<Rightarrow> SkuQuantity list \<Rightarrow> PurchaseOrder" where
  "poData now tourData workflowName poLineItems =
     \<lparr> po_po_number =
         workflowName @ ''-'' @ host_name (host tourData) @ ''-'' @ take 10 (toISOString now),
       po_po_date = take 10 (toISOString now),
       po_vendor_id = ''1076735'',
       po_warehouse_id = wh_shiphero_warehouse_id (warehouse tourData),
       po_subtotal = ''0.00'',
       po_tax = ''0.00'',
       po_shipping_price = ''0.00'',
       po_total_price = ''0.00'',
       po_fulfillment_status = ''pending'',
       po_discount = ''0.00'',
       po_line_items = map (\<lambda>item.
         \<lparr> pli_sku = sq_sku item,
           pli_quantity = sq_quantity item,
           pli_expected_weight_in_lbs = ''1'',
           pli_vendor_id = ''1076735'',
           pli_quantity_received = 0,
           pli_quantity_rejected = 0,
           pli_price = ''0.00'',
           pli_product_name = sq_sku item,
           pli_fulfillment_status = ''pending'',
           pli_sell_ahead = 0 \<rparr>) poLineItems \<rparr>"

subsection \<open>Participant orders of \<open>createParticipantOrders\<close>\<close>

text \<open>\<open>selected_skus.slice(0, 3).map((sku, index) => ...)\<close> for participant \<open>i\<close>.\<close>

definition participantLineItems :: "TourData \<Rightarrow> nat \<Rightarrow> LineItem list" where
  "participantLineItems tourData i =
     map (\<lambda>(index, sku).
       \<lparr> li_sku = sku,
         li_quantity = 1,
         li_price = ''10.00'',
         li_product_name = ''Product '' @ sku,
         li_partner_line_item_id =
           ''participant-line-'' @ toString (i + 1) @ ''-'' @ toString (index + 1),
         li_fulfillment_status = ''pending'',
         li_quantity_pending_fulfillment = 1,
         li_warehouse_id = wh_shiphero_warehouse_id (warehouse tourData) \<rparr>)
       (enumerate 0 (take 3 (selected_skus tourData)))"

definition participantOrderData :: "Clock \<Rightarrow> TourData \<Rightarrow> string \<Rightarrow> nat \<Rightarrow> SalesOrder" where
  "participantOrderData now tourData orderPrefix i =
     (let participant = participants tourData ! i;
          warehouseAddress = getWarehouseShippingAddress tourData;
          lineItems = participantLineItems tourData i;
          customer = customerAddress warehouseAddress
            (orElse (p_first_name participant) ''Participant'')
            (orElse (p_last_name participant) (toString (i + 1)))
            (orElse (p_company participant) '''')
            (orElse (p_email participant) (''participant'' @ toString (i + 1) @ ''@demo.com''))
      in
      \<lparr> so_order_number = orderPrefix @ ''-PARTICIPANT-'' @ toString (i + 1),
        so_shop_name = ''Touring App'',
        so_fulfillment_status = ''pending'',
        so_order_date = toISOString now,
        so_total_tax = ''0.00'',
        so_subtotal = toString (length lineItems * 10),
        so_total_discounts = ''0.00'',
        so_total_price = toString (length lineItems * 10),
        so_shipping_lines = standardShipping,
        so_shipping_address = customer,
        so_billing_address = customer,
        so_line_items = lineItems,
        so_required_ship_date = take 10 (toISOString_plus7days now),
        so_tags = [''participant'', ''tour''] \<rparr>)"

subsection \<open>Single-line demo orders\<close>

text \<open>
  The line item of \<open>createDemoOrders\<close>, \<open>createSimpleDemoOrders\<close> and
  \<open>createHostDemoOrders\<close>; they differ in the prefix of \<open>partner_line_item_id\<close>.
  \<open>quantity\<close> and \<open>pending\<close> are the values of the two draws, in the order of the literal.
\<close>

definition demoLineItem :: "TourData \<Rightarrow> string \<Rightarrow> nat \<Rightarrow> nat \<Rightarrow> nat \<Rightarrow> LineItem" where
  "demoLineItem tourData linePrefix i quantity pending =
     (let selectedSkuIndex = i mod length (selected_skus tourData) in
      \<lparr> li_sku = selected_skus tourData ! selectedSkuIndex,
        li_quantity = quantity,
        li_price = ''15.00'',
        li_product_name = ''Product '' @ selected_skus tourData ! selectedSkuIndex,
        li_partner_line_item_id = linePrefix @ toString (i + 1),
        li_fulfillment_status = ''pending'',
        li_quantity_pending_fulfillment = pending,
        li_warehouse_id = wh_shiphero_warehouse_id (warehouse tourData) \<rparr>)"

text \<open>
  The order literal shared by the three single-line builders: customer block and tags are
  the builder's own; \<open>lineItems\<close> is the one-element array, whose first element prices the
  order.
\<close>

definition singleLineOrderData ::
  "Clock \<Rightarrow> string \<Rightarrow> nat \<Rightarrow> OrderAddress \<Rightarrow> LineItem list \<Rightarrow> string list \<Rightarrow> SalesOrder" where
  "singleLineOrderData now orderPrefix i customer lineItems tags =
     \<lparr> so_order_number = orderPrefix @ ''-'' @ toString (i + 1),
       so_shop_name = ''Touring App'',
       so_fulfillment_status = ''pending'',
       so_order_date = toISOString now,
       so_total_tax = ''0.00'',
       so_subtotal = toString (li_quantity (lineItems ! 0) * 15),
       so_total_discounts = ''0.00'',
       so_total_price = toString (li_quantity (lineItems ! 0) * 15),
       so_shipping_lines = standardShipping,
       so_shipping_address = customer,
       so_billing_address = customer,
       so_line_items = lineItems,
       so_required_ship_date = take 10 (toISOString_plus7days now),
       so_tags = tags \<rparr>"

text \<open>\<open>celebrities[i] || { first: "Demo", last: `Customer ${i + 1}` }\<close>\<close>

definition celebrityAt :: "(string \<times> string) list \<Rightarrow> nat \<Rightarrow> string \<times> string" where
  "celebrityAt celebrities i =
     (if i < length celebrities then celebrities ! i else (''Demo'', ''Customer '' @ toString (i + 1)))"

text \<open>
  \<open>`${celebrity.first.toLowerCase()}.${celebrity.last.toLowerCase().replace(/\s/g, '')}@demo.com`\<close>
\<close>

definition celebrityEmail :: "Environment \<Rightarrow> string \<times> string \<Rightarrow> string" where
  "celebrityEmail env celebrity =
     toLowerCase env (fst celebrity) @ ''.''
       @ removeWhitespace (toLowerCase env (snd celebrity)) @ ''@demo.com''"

definition celebrityCustomer :: "Environment \<Rightarrow> TourData \<Rightarrow> string \<times> string \<Rightarrow> OrderAddress" where
  "celebrityCustomer env tourData celebrity =
     customerAddress (getWarehouseShippingAddress tourData)
       (fst celebrity) (snd celebrity) '''' (celebrityEmail env celebrity)"

definition demoOrderData ::
  "Environment \<Rightarrow> TourData \<Rightarrow> string \<Rightarrow> (string \<times> string) list \<Rightarrow> nat \<Rightarrow> nat \<Rightarrow> nat
     \<Rightarrow> SalesOrder" where
  "demoOrderData env tourData orderPrefix celebrities i quantity pending =
     singleLineOrderData (clock env) orderPrefix i
       (celebrityCustomer env tourData (celebrityAt celebrities i))
       [demoLineItem tourData ''line-'' i quantity pending]
       [''demo'', ''celebrity'', ''tour'']"

definition simpleDemoOrderData ::
  "Clock \<Rightarrow> TourData \<Rightarrow> string \<Rightarrow> nat \<Rightarrow> nat \<Rightarrow> nat \<Rightarrow> SalesOrder" where
  "simpleDemoOrderData now tourData orderPrefix i quantity pending =
     singleLineOrderData now orderPrefix i
       (customerAddress (getWarehouseShippingAddress tourData)
          ''Demo'' (''Customer '' @ toString (i + 1)) ''''
          (''demo.customer'' @ toString (i + 1) @ ''@example.com''))
       [demoLineItem tourData ''line-'' i quantity pending]
       [''demo'', ''simple'', ''tour'']"

definition hostDemoOrderData ::
  "Clock \<Rightarrow> TourData \<Rightarrow> string \<Rightarrow> nat \<Rightarrow> nat \<Rightarrow> nat \<Rightarrow> SalesOrder" where
  "hostDemoOrderData now tourData orderPrefix i quantity pending =
     singleLineOrderData now orderPrefix i
       (customerAddress (getWarehouseShippingAddress tourData)
          (orElse (host_first_name (host tourData)) ''Host'')
          (orElse (host_last_name (host tourData)) (orElse (host_name (host tourData)) ''Demo''))
          ''''
          (''host.demo'' @ toString (i + 1) @ ''@example.com''))
       [demoLineItem tourData ''host-line-'' i quantity pending]
       [''demo'', ''host'', ''tour'']"

subsection \<open>Multi-item demo orders of \<open>createMultiItemDemoOrders\<close>\<close>

definition multiLineItem :: "TourData \<Rightarrow> nat \<Rightarrow> nat \<Rightarrow> nat \<Rightarrow> nat \<Rightarrow> LineItem" where
  "multiLineItem tourData i j quantity pending =
     (let skuIndex = (i + j) mod length (selected_skus tourData) in
      \<lparr> li_sku = selected_skus tourData ! skuIndex,
        li_quantity = quantity,
        li_price = ''12.00'',
        li_product_name = ''Product '' @ selected_skus tourData ! skuIndex,
        li_partner_line_item_id = ''multi-line-'' @ toString (i + 1) @ ''-'' @ toString (j + 1),
        li_fulfillment_status = ''pending'',
        li_quantity_pending_fulfillment = pending,
        li_warehouse_id = wh_shiphero_warehouse_id (warehouse tourData) \<rparr>)"

text \<open>\<open>lineItems.reduce((sum, item) => sum + (item.quantity * 12), 0)\<close>\<close>

definition reduceTimes12 :: "LineItem list \<Rightarrow> nat" where
  "reduceTimes12 lineItems = foldl (\<lambda>sum item. sum + li_quantity item * 12) 0 lineItems"

definition multiItemOrderData ::
  "Environment \<Rightarrow> TourData \<Rightarrow> string \<Rightarrow> (string \<times> string) list \<Rightarrow> nat \<Rightarrow> LineItem list
     \<Rightarrow> SalesOrder" where
  "multiItemOrderData env tourData orderPrefix celebrities i lineItems =
     (let now = clock env;
          customer = celebrityCustomer env tourData (celebrityAt celebrities i) in
      \<lparr> so_order_number = orderPrefix @ ''-'' @ toString (i + 1),
        so_shop_name = ''Touring App'',
        so_fulfillment_status = ''pending'',
        so_order_date = toISOString now,
        so_total_tax = ''0.00'',
        so_subtotal = toString (reduceTimes12 lineItems),
        so_total_discounts = ''0.00'',
        so_total_price = toString (reduceTimes12 lineItems),
        so_shipping_lines = standardShipping,
        so_shipping_address = customer,
        so_billing_address = customer,
        so_line_items = lineItems,
        so_required_ship_date = take 10 (toISOString_plus7days now),
        so_tags = [''multi-item'', ''celebrity'', ''tour''] \<rparr>)"

section \<open>The trace of a call\<close>

text \<open>
  Every interaction with a collaborator is appended to the trace of the call: the token
  request, the queries and the status update on the datastore, each order submission with
  the bearer token, the request and the answer it received (the time at which the promise
  settles, and the response). \<open>HandlerCall\<close> records that the orchestrator invokes the
  handler of a workflow.
\<close>

datatype event =
    TokenCall string
  | DbSelect string string
  | DbUpdate string string
  | OrderCall string ApiRequest "nat \<times> HttpResponse"
  | HandlerCall WorkflowOption

text \<open>
  The state threaded through the service: the trace, the number of \<open>Math.random()\<close> draws
  made so far, and the field \<open>this.shipHero\<close> (the access token once initialised).
\<close>

record world =
  events :: "event list"
  draws :: nat
  shipHero :: "string option"

definition record_event :: "event \<Rightarrow> world \<Rightarrow> world" where
  "record_event e s = s\<lparr>events := events s @ [e]\<rparr>"

definition moment :: "world \<Rightarrow> nat" where
  "moment s = length (events s)"

text \<open>\<open>Math.floor(Math.random() * n) + base\<close>\<close>

definition randomInt :: "Environment \<Rightarrow> nat \<Rightarrow> nat \<Rightarrow> world \<Rightarrow> nat \<times> world" where
  "randomInt env n base s =
     (floorTimes (Math_random env (draws s)) n + base, s\<lparr>draws := Suc (draws s)\<rparr>)"


section \<open>Session and data loading\<close>

definition refreshTokenRequired :: string where
  "refreshTokenRequired =
     ''ShipHero refresh token is required. Please configure it in Settings ''
       @ [CHR 0xE2, CHR 0x86, CHR 0x92] @ '' ShipHero tab.''"

definition initializeShipHero :: "Environment \<Rightarrow> world \<Rightarrow> (string + unit) \<times> world" where
  "initializeShipHero env s =
     (if \<not> window_defined env then
        (Inl ''Tour finalization service must be used in browser environment.'', s)
      else case localStorage_getItem env of
        None \<Rightarrow> (Inl refreshTokenRequired, s)
      | Some refreshToken \<Rightarrow>
          if refreshToken = [] then (Inl refreshTokenRequired, s)
          else (let tokenResponse = refresh_token_api env (moment s) refreshToken;
                    s1 = record_event (TokenCall refreshToken) s
                in case tokenResponse of
                     TokenNotOk \<Rightarrow>
                       (Inl ''Failed to get ShipHero access token. Please check your refresh token in Settings.'', s1)
                   | TokenOk access_token \<Rightarrow> (Inr (), s1\<lparr>shipHero := Some access_token\<rparr>)))"

text \<open>\<open>POST /api/shiphero/orders\<close> with the bearer token of \<open>this.shipHero\<close>.\<close>

definition accessTokenOfUndefined :: string where
  "accessTokenOfUndefined = ''Cannot read properties of undefined (reading 'accessToken')''"

text \<open>
  A promise that has settled: the time at which it settled and its outcome, a rejection
  with the message of the error or a value.
\<close>

type_synonym 'a promise = "nat \<times> (string + 'a)"

text \<open>
  Without a session, reading \<open>this.shipHero.accessToken\<close> throws before the request is
  sent: the promise is rejected at once.
\<close>

definition createSalesOrderViaAPI ::
  "Environment \<Rightarrow> SalesOrder \<Rightarrow> world \<Rightarrow> ApiBody promise \<times> world" where
  "createSalesOrderViaAPI env orderData s =
     (case shipHero s of
        None \<Rightarrow> ((0, Inl accessTokenOfUndefined), s)
      | Some accessToken \<Rightarrow>
          (let answer = orders_api env (moment s) accessToken (SalesOrderRequest orderData);
               s1 = record_event (OrderCall accessToken (SalesOrderRequest orderData) answer) s
           in case snd answer of
                NotOk status errorText \<Rightarrow>
                  ((fst answer,
                    Inl (''Failed to create sales order: '' @ toString status @ '' '' @ errorText)), s1)
              | Ok body \<Rightarrow> ((fst answer, Inr body), s1)))"

text \<open>The purchase order is awaited where it is submitted: the model returns the outcome.\<close>

definition createPurchaseOrderViaAPI ::
  "Environment \<Rightarrow> PurchaseOrder \<Rightarrow> world \<Rightarrow> (string + ApiBody) \<times> world" where
  "createPurchaseOrderViaAPI env purchaseOrder s =
     (case shipHero s of
        None \<Rightarrow> (Inl accessTokenOfUndefined, s)
      | Some accessToken \<Rightarrow>
          (let answer = orders_api env (moment s) accessToken (PurchaseOrderRequest purchaseOrder);
               s1 = record_event (OrderCall accessToken (PurchaseOrderRequest purchaseOrder) answer) s
           in case snd answer of
                NotOk status errorText \<Rightarrow>
                  (Inl (''Failed to create purchase order: '' @ toString status @ '' '' @ errorText), s1)
              | Ok body \<Rightarrow> (Inr body, s1)))"

definition getTourDetails :: "Environment \<Rightarrow> string \<Rightarrow> world \<Rightarrow> (string + TourData) \<times> world" where
  "getTourDetails env tourId s =
     (let s1 = record_event (DbSelect ''tours'' tourId) s in
      case tours_table env (moment s) tourId of
        Inl tourError \<Rightarrow> (Inl (''Failed to fetch tour: '' @ tourError), s1)
      | Inr tour \<Rightarrow>
     (let s2 = record_event (DbSelect ''warehouses'' (row_warehouse_id tour)) s1 in
      case warehouses_table env (moment s1) (row_warehouse_id tour) of
        Inl warehouseError \<Rightarrow> (Inl (''Failed to fetch warehouse: '' @ warehouseError), s2)
      | Inr warehouseRow \<Rightarrow>
     (let s3 = record_event (DbSelect ''team_members'' (row_host_id tour)) s2 in
      case team_members_table env (moment s2) (row_host_id tour) of
        Inl hostError \<Rightarrow> (Inl (''Failed to fetch host: '' @ hostError), s3)
      | Inr hostRow \<Rightarrow>
     (let s4 = record_event (DbSelect ''tour_participants'' tourId) s3 in
      case tour_participants_table env (moment s3) tourId of
        Inl participantsError \<Rightarrow>
          (Inl (''Failed to fetch participants: '' @ participantsError), s4)
      | Inr participantRows \<Rightarrow>
          (Inr \<lparr> tour_id = row_id tour,
                 host = hostRow,
                 participants = (case participantRows of None \<Rightarrow> [] | Some ps \<Rightarrow> ps),
                 warehouse = warehouseRow,
                 selected_workflows =
                   (case row_selected_workflows tour of None \<Rightarrow> [] | Some ws \<Rightarrow> ws),
                 selected_skus =
                   (case row_selected_skus tour of None \<Rightarrow> [] | Some ks \<Rightarrow> ks) \<rparr>, s4)))))"

definition updateTourStatus ::
  "Environment \<Rightarrow> string \<Rightarrow> string \<Rightarrow> world \<Rightarrow> (string + unit) \<times> world" where
  "updateTourStatus env tourId status s =
     (let s1 = record_event (DbUpdate tourId status) s in
      case tours_update env (moment s) tourId status of
        Some error_message \<Rightarrow> (Inl (''Failed to update tour status: '' @ error_message), s1)
      | None \<Rightarrow> (Inr (), s1))"


section \<open>Batches of order submissions\<close>

text \<open>
  \<open>for (let i = start; i < start + n; i++)\<close>: the body runs for each index in turn and
  the results are collected in order. In the batch builders the body builds a request and
  starts its submission; the collected results are the settled promises of the batch.
\<close>

primrec forLoop :: "nat \<Rightarrow> nat \<Rightarrow> (nat \<Rightarrow> 's \<Rightarrow> 'a \<times> 's) \<Rightarrow> 's \<Rightarrow> 'a list \<times> 's" where
  "forLoop i 0 body s = ([], s)"
| "forLoop i (Suc n) body s =
     (case body i s of (x, s1) \<Rightarrow>
        (case forLoop (Suc i) n body s1 of (xs, s2) \<Rightarrow> (x # xs, s2)))"

text \<open>
  \<open>await Promise.all(promises)\<close>: when every promise is fulfilled, the values in the order
  of the array; otherwise the rejection of the promise that is rejected first in time (of
  two that are rejected at the same time, the one that comes first in the array).
\<close>

fun rejections :: "'a promise list \<Rightarrow> (nat \<times> string) list" where
  "rejections [] = []"
| "rejections ((t, Inl e) # promises) = (t, e) # rejections promises"
| "rejections ((t, Inr x) # promises) = rejections promises"

fun fulfilments :: "'a promise list \<Rightarrow> 'a list" where
  "fulfilments [] = []"
| "fulfilments ((t, Inl e) # promises) = fulfilments promises"
| "fulfilments ((t, Inr x) # promises) = x # fulfilments promises"

definition promiseAll :: "'a promise list \<Rightarrow> string + 'a list" where
  "promiseAll promises =
     (case rejections promises of
        [] \<Rightarrow> Inr (fulfilments promises)
      | r # rs \<Rightarrow> Inl (snd (arg_min_list fst (r # rs))))"

text \<open>
  \<open>results.filter(result => result.data?.order_create?.order)
     .map(result => result.data.order_create.order)\<close>
\<close>

definition successful :: "ApiBody list \<Rightarrow> string list" where
  "successful results = map (\<lambda>result. the (body_order result))
                           (filter (\<lambda>result. body_order result \<noteq> None) results)"

definition awaitOrders :: "ApiBody promise list \<Rightarrow> string + string list" where
  "awaitOrders orderPromises =
     (case promiseAll orderPromises of Inl e \<Rightarrow> Inl e | Inr results \<Rightarrow> Inr (successful results))"

definition noSkusForOrders :: string where
  "noSkusForOrders = ''No SKUs selected for orders. Please select SKUs when creating the tour.''"

definition createParticipantOrders ::
  "Environment \<Rightarrow> TourData \<Rightarrow> string \<Rightarrow> world \<Rightarrow> (string + string list) \<times> world" where
  "createParticipantOrders env tourData orderPrefix s =
     (if length (participants tourData) = 0 then (Inr [], s)
      else if length (selected_skus tourData) = 0 then (Inl noSkusForOrders, s)
      else case forLoop 0 (length (participants tourData))
                  (\<lambda>i. createSalesOrderViaAPI env
                          (participantOrderData (clock env) tourData orderPrefix i)) s of
             (orderPromises, s') \<Rightarrow> (awaitOrders orderPromises, s'))"

text \<open>One iteration of a single-line demo loop: two draws, then the submission.\<close>

definition submitSingleLine ::
  "Environment \<Rightarrow> (nat \<Rightarrow> nat \<Rightarrow> nat \<Rightarrow> SalesOrder) \<Rightarrow> nat \<Rightarrow> world
     \<Rightarrow> ApiBody promise \<times> world" where
  "submitSingleLine env orderData i s =
     (case randomInt env 3 1 s of (quantity, s1) \<Rightarrow>
        (case randomInt env 3 1 s1 of (pending, s2) \<Rightarrow>
           createSalesOrderViaAPI env (orderData i quantity pending) s2))"

definition createDemoOrders ::
  "Environment \<Rightarrow> TourData \<Rightarrow> string \<Rightarrow> nat \<Rightarrow> world \<Rightarrow> (string + string list) \<times> world" where
  "createDemoOrders env tourData orderPrefix count s =
     (if length (selected_skus tourData) = 0 then (Inl noSkusForOrders, s)
      else (let celebrities = getCelebrityNames env (moment s) count in
            case forLoop 0 count
                   (submitSingleLine env
                      (demoOrderData env tourData orderPrefix celebrities)) s of
              (orderPromises, s') \<Rightarrow> (awaitOrders orderPromises, s')))"

definition createSimpleDemoOrders ::
  "Environment \<Rightarrow> TourData \<Rightarrow> string \<Rightarrow> nat \<Rightarrow> world \<Rightarrow> (string + string list) \<times> world" where
  "createSimpleDemoOrders env tourData orderPrefix count s =
     (if length (selected_skus tourData) = 0 then (Inl noSkusForOrders, s)
      else case forLoop 0 count
                  (submitSingleLine env (simpleDemoOrderData (clock env) tourData orderPrefix)) s of
             (orderPromises, s') \<Rightarrow> (awaitOrders orderPromises, s'))"

definition createHostDemoOrders ::
  "Environment \<Rightarrow> TourData \<Rightarrow> string \<Rightarrow> nat \<Rightarrow> world \<Rightarrow> (string + string list) \<times> world" where
  "createHostDemoOrders env tourData orderPrefix count s =
     (if length (selected_skus tourData) = 0 then (Inl noSkusForOrders, s)
      else case forLoop 0 count
                  (submitSingleLine env (hostDemoOrderData (clock env) tourData orderPrefix)) s of
             (orderPromises, s') \<Rightarrow> (awaitOrders orderPromises, s'))"

text \<open>The inner loop of \<open>createMultiItemDemoOrders\<close>: line item \<open>j\<close> of order \<open>i\<close>.\<close>

definition drawMultiLineItem ::
  "Environment \<Rightarrow> TourData \<Rightarrow> nat \<Rightarrow> nat \<Rightarrow> world \<Rightarrow> LineItem \<times> world" where
  "drawMultiLineItem env tourData i j s =
     (case randomInt env 3 1 s of (quantity, s1) \<Rightarrow>
        (case randomInt env 3 1 s1 of (pending, s2) \<Rightarrow>
           (multiLineItem tourData i j quantity pending, s2)))"

definition submitMultiItem ::
  "Environment \<Rightarrow> TourData \<Rightarrow> string \<Rightarrow> (string \<times> string) list \<Rightarrow> nat \<Rightarrow> world
     \<Rightarrow> ApiBody promise \<times> world" where
  "submitMultiItem env tourData orderPrefix celebrities i s =
     (case randomInt env 3 2 s of (drawn, s1) \<Rightarrow>
        (let numItems = min drawn (length (selected_skus tourData)) in
         case forLoop 0 numItems (drawMultiLineItem env tourData i) s1 of (lineItems, s2) \<Rightarrow>
           createSalesOrderViaAPI env
             (multiItemOrderData env tourData orderPrefix celebrities i lineItems) s2))"

definition createMultiItemDemoOrders ::
  "Environment \<Rightarrow> TourData \<Rightarrow> string \<Rightarrow> nat \<Rightarrow> world \<Rightarrow> (string + string list) \<times> world" where
  "createMultiItemDemoOrders env tourData orderPrefix count s =
     (if length (selected_skus tourData) = 0 then
        (Inl ''No SKUs selected for Multi-Item Demo Orders. Please select SKUs when creating the tour.'', s)
      else (let celebrities = getCelebrityNames env (moment s) count in
            case forLoop 0 count (submitMultiItem env tourData orderPrefix celebrities) s of
              (orderPromises, s') \<Rightarrow> (awaitOrders orderPromises, s')))"

text \<open>\<open>skusToUse.map((sku, index) => ({ sku, quantity: Math.floor(Math.random() * 10) + 5 }))\<close>\<close>

primrec drawQuantities :: "Environment \<Rightarrow> string list \<Rightarrow> world \<Rightarrow> SkuQuantity list \<times> world" where
  "drawQuantities env [] s = ([], s)"
| "drawQuantities env (sku # skus) s =
     (case randomInt env 10 5 s of (quantity, s1) \<Rightarrow>
        (case drawQuantities env skus s1 of (items, s2) \<Rightarrow>
           (\<lparr> sq_sku = sku, sq_quantity = quantity \<rparr> # items, s2)))"

definition createStandardReceivingPO ::
  "Environment \<Rightarrow> TourData \<Rightarrow> string \<Rightarrow> world \<Rightarrow> (string + unit) \<times> world" where
  "createStandardReceivingPO env tourData workflowName s =
     (if length (selected_skus tourData) = 0 then
        (Inl (''No SKUs selected for '' @ workflowName
                @ '' PO. Please select SKUs when creating the tour.''), s)
      else (let skusToUse = take 6 (selected_skus tourData) in
            case drawQuantities env skusToUse s of (poLineItems, s1) \<Rightarrow>
              (case createPurchaseOrderViaAPI env
                      (poData (clock env) tourData workflowName poLineItems) s1 of
                 (Inl e, s2) \<Rightarrow> (Inl e, s2)
               | (Inr data, s2) \<Rightarrow>
                   if body_purchase_order data \<noteq> None then (Inr (), s2)
                   else (Inl (''Failed to create '' @ workflowName @ '' PO: ''
                                @ orDefault (body_error_message data) ''Unknown error''), s2))))"


section \<open>Workflow handlers\<close>

definition createReceiveToLightWorkflowOrders ::
  "Environment \<Rightarrow> TourData \<Rightarrow> world \<Rightarrow> (string + unit) \<times> world" where
  "createReceiveToLightWorkflowOrders env tourData s =
     createStandardReceivingPO env tourData ''R2L'' s"

definition createPackToLightWorkflowOrders ::
  "Environment \<Rightarrow> TourData \<Rightarrow> world \<Rightarrow> (string + unit) \<times> world" where
  "createPackToLightWorkflowOrders env tourData s =
     (case createParticipantOrders env tourData ''P2L'' s of
        (Inl e, s1) \<Rightarrow> (Inl e, s1)
      | (Inr participantOrders, s1) \<Rightarrow>
          if length participantOrders = 0 then
            (case createHostDemoOrders env tourData ''P2L-HOST'' 3 s1 of
               (Inl e, s2) \<Rightarrow> (Inl e, s2)
             | (Inr hostOrders, s2) \<Rightarrow> createStandardReceivingPO env tourData ''P2L'' s2)
          else createStandardReceivingPO env tourData ''P2L'' s1)"

definition createBulkShippingSOs ::
  "Environment \<Rightarrow> TourData \<Rightarrow> world \<Rightarrow> (string + unit) \<times> world" where
  "createBulkShippingSOs env tourData s =
     (case createParticipantOrders env tourData ''BULK'' s of
        (Inl e, s1) \<Rightarrow> (Inl e, s1)
      | (Inr participantOrders, s1) \<Rightarrow>
          (case createDemoOrders env tourData ''BULK-DEMO'' 10 s1 of
             (Inl e, s2) \<Rightarrow> (Inl e, s2)
           | (Inr demoOrders, s2) \<Rightarrow> (Inr (), s2)))"

definition createSingleItemBatchSOs ::
  "Environment \<Rightarrow> TourData \<Rightarrow> world \<Rightarrow> (string + unit) \<times> world" where
  "createSingleItemBatchSOs env tourData s =
     (case createParticipantOrders env tourData ''SINGLE'' s of
        (Inl e, s1) \<Rightarrow> (Inl e, s1)
      | (Inr participantOrders, s1) \<Rightarrow>
          (case createDemoOrders env tourData ''SINGLE-DEMO'' 5 s1 of
             (Inl e, s2) \<Rightarrow> (Inl e, s2)
           | (Inr demoOrders, s2) \<Rightarrow> (Inr (), s2)))"

definition createMultiItemBatchSOs ::
  "Environment \<Rightarrow> TourData \<Rightarrow> world \<Rightarrow> (string + unit) \<times> world" where
  "createMultiItemBatchSOs env tourData s =
     (case createParticipantOrders env tourData ''MULTI'' s of
        (Inl e, s1) \<Rightarrow> (Inl e, s1)
      | (Inr participantOrders, s1) \<Rightarrow>
          (case createMultiItemDemoOrders env tourData ''MULTI-DEMO'' 5 s1 of
             (Inl e, s2) \<Rightarrow> (Inl e, s2)
           | (Inr demoOrders, s2) \<Rightarrow> (Inr (), s2)))"


section \<open>Instruction guide\<close>

text \<open>
  The guide is built by appending to a string. The model keeps the appended pieces as a
  list, one element for each \<open>guide +=\<close> of the source; the guide is their concatenation.
\<close>

definition guideOpening :: "Clock \<Rightarrow> TourData \<Rightarrow> string list" where
  "guideOpening now tourData =
     [''# '' @ [CHR 0xF0, CHR 0x9F, CHR 0x8E, CHR 0xAF] @ '' WAREHOUSE TOUR GUIDE\<newline>\<newline>'',
      ''## '' @ [CHR 0xF0, CHR 0x9F, CHR 0x93, CHR 0x8B] @ '' Tour Overview\<newline>'',
      ''**Date:** '' @ toLocaleDateString now @ ''\<newline>'',
      ''**Warehouse:** '' @ wh_name (warehouse tourData) @ ''\<newline>'',
      ''**Host:** '' @ host_name (host tourData) @ ''\<newline>'',
      ''**Participants:** '' @ toString (length (participants tourData)) @ ''\<newline>'',
      ''**Duration:** Approximately 45-60 minutes\<newline>\<newline>'',
      ''## '' @ [CHR 0xF0, CHR 0x9F, CHR 0x9A, CHR 0x80] @ '' WELCOME & INTRODUCTION (5 minutes)\<newline>'',
      ''1. **Welcome participants** and introduce yourself\<newline>'',
      ''2. **Safety briefing** - warehouse safety rules and procedures\<newline>'',
      ''3. **Tour overview** - explain what they'll see and experience\<newline>'',
      ''4. **Q&A expectations** - encourage questions throughout\<newline>\<newline>'',
      ''## '' @ [CHR 0xF0, CHR 0x9F, CHR 0x8F, CHR 0xA2] @ '' WAREHOUSE OVERVIEW (10 minutes)\<newline>'',
      ''1. **Facility tour** - show the physical layout\<newline>'',
      ''2. **Technology stack** - introduce ShipHero and warehouse systems\<newline>'',
      ''3. **Daily operations** - explain typical workflow and volume\<newline>'',
      ''4. **Team structure** - roles and responsibilities\<newline>\<newline>'']"

definition receiveToLightSection :: "nat \<Rightarrow> string list" where
  "receiveToLightSection workflowCounter =
     [''## '' @ [CHR 0xF0, CHR 0x9F, CHR 0x93, CHR 0xA6] @ '' DEMONSTRATION '' @ toString workflowCounter @ '': RECEIVE-TO-LIGHT (R2L)\<newline>'',
      ''**Time:** 10 minutes | **Location:** Receiving area\<newline>\<newline>'',
      ''### What to show:\<newline>'',
      ''- **Light-guided receiving** - how lights direct workers to correct locations\<newline>'',
      ''- **Accuracy improvements** - reduced errors with visual guidance\<newline>'',
      ''- **Speed benefits** - faster putaway with directed workflows\<newline>'',
      ''- **Real-time updates** - inventory updates as items are received\<newline>\<newline>'',
      ''### Key talking points:\<newline>'',
      ''- \"This system eliminates guesswork in receiving\"\<newline>'',
      ''- \"Lights guide workers to exact locations, reducing training time\"\<newline>'',
      ''- \"Real-time inventory updates prevent stock discrepancies\"\<newline>\<newline>'']"

definition packToLightSection :: "nat \<Rightarrow> string list" where
  "packToLightSection workflowCounter =
     [''## '' @ [CHR 0xF0, CHR 0x9F, CHR 0x93, CHR 0x8B] @ '' DEMONSTRATION '' @ toString workflowCounter @ '': PACK-TO-LIGHT (P2L)\<newline>'',
      ''**Time:** 12 minutes | **Location:** Packing stations\<newline>\<newline>'',
      ''### What to show:\<newline>'',
      ''- **Order picking process** - how orders are selected and routed\<newline>'',
      ''- **Light-guided packing** - lights indicate items and quantities\<newline>'',
      ''- **Quality control** - built-in verification steps\<newline>'',
      ''- **Shipping integration** - automatic label generation\<newline>\<newline>'',
      ''### Key talking points:\<newline>'',
      ''- \"Pack-to-Light reduces picking errors by up to 99.9%\"\<newline>'',
      ''- \"Workers can focus on speed while lights ensure accuracy\"\<newline>'',
      ''- \"Orders are automatically verified before shipping\"\<newline>\<newline>'']"

definition multiItemBatchSection :: "nat \<Rightarrow> string list" where
  "multiItemBatchSection workflowCounter =
     [''## '' @ [CHR 0xF0, CHR 0x9F, CHR 0x9B, CHR 0x92] @ '' DEMONSTRATION '' @ toString workflowCounter @ '': MULTI-ITEM BATCH PICKING\<newline>'',
      ''**Time:** 10 minutes | **Location:** Pick zones\<newline>\<newline>'',
      ''### What to show:\<newline>'',
      ''- **Batch optimization** - multiple orders picked simultaneously\<newline>'',
      ''- **Route efficiency** - optimal path through warehouse\<newline>'',
      ''- **Order consolidation** - how items are sorted by destination\<newline>'',
      ''- **Productivity metrics** - real-time performance tracking\<newline>'',
      ''- **Random demonstration orders** - use system-generated sample orders\<newline>\<newline>'',
      ''### Key talking points:\<newline>'',
      ''- \"Batch picking increases productivity by 3-5x\"\<newline>'',
      ''- \"Smart routing reduces travel time by up to 50%\"\<newline>'',
      ''- \"System optimizes batches based on item locations\"\<newline>'',
      ''- \"Demonstration orders show real-world batch scenarios\"\<newline>\<newline>'']"

definition singleItemBatchSection :: "nat \<Rightarrow> string list" where
  "singleItemBatchSection workflowCounter =
     [''## '' @ [CHR 0xF0, CHR 0x9F, CHR 0x93, CHR 0xA6] @ '' DEMONSTRATION '' @ toString workflowCounter @ '': SINGLE-ITEM BATCH PICKING\<newline>'',
      ''**Time:** 8 minutes | **Location:** High-volume pick area\<newline>\<newline>'',
      ''### What to show:\<newline>'',
      ''- **High-volume items** - how popular products are handled\<newline>'',
      ''- **Dedicated workflows** - specialized processes for single SKUs\<newline>'',
      ''- **Bulk handling** - efficient processing of large quantities\<newline>'',
      ''- **Quality assurance** - verification for high-value items\<newline>'',
      ''- **Random demonstration orders** - use system-generated sample orders\<newline>\<newline>'',
      ''### Key talking points:\<newline>'',
      ''- \"Single-item batching perfect for high-volume SKUs\"\<newline>'',
      ''- \"Reduces handling time for popular products\"\<newline>'',
      ''- \"Specialized workflow ensures consistency\"\<newline>'',
      ''- \"Sample orders demonstrate real batching scenarios\"\<newline>\<newline>'']"

definition bulkShippingSection :: "nat \<Rightarrow> string list" where
  "bulkShippingSection workflowCounter =
     [''## '' @ [CHR 0xF0, CHR 0x9F, CHR 0x9A, CHR 0x9B] @ '' DEMONSTRATION '' @ toString workflowCounter @ '': BULK SHIPPING\<newline>'',
      ''**Time:** 10 minutes | **Location:** Shipping dock\<newline>\<newline>'',
      ''### What to show:\<newline>'',
      ''- **Large order processing** - how big shipments are handled\<newline>'',
      ''- **Carrier integration** - automatic shipping calculations\<newline>'',
      ''- **Loading optimization** - efficient truck loading\<newline>'',
      ''- **Tracking systems** - real-time shipment visibility\<newline>'',
      ''- **Random demonstration orders** - use system-generated sample orders\<newline>\<newline>'',
      ''### Key talking points:\<newline>'',
      ''- \"Bulk shipping optimizes for large B2B orders\"\<newline>'',
      ''- \"System calculates best shipping methods automatically\"\<newline>'',
      ''- \"Real-time tracking keeps customers informed\"\<newline>'',
      ''- \"Sample orders show various shipping scenarios\"\<newline>\<newline>'']"

definition guideClosing :: "Clock \<Rightarrow> TourData \<Rightarrow> string list" where
  "guideClosing now tourData =
     [''## '' @ [CHR 0xF0, CHR 0x9F, CHR 0x92, CHR 0xBB] @ '' SHIPHERO DASHBOARD DEMO (8 minutes)\<newline>'',
      ''**Location:** Office area or mobile device\<newline>\<newline>'',
      ''### What to show:\<newline>'',
      ''- **Real-time inventory** - live stock levels and locations\<newline>'',
      ''- **Order management** - from receipt to fulfillment\<newline>'',
      ''- **Analytics dashboard** - performance metrics and insights\<newline>'',
      ''- **Mobile integration** - warehouse operations on mobile devices\<newline>\<newline>'',
      ''### Key talking points:\<newline>'',
      ''- \"Complete visibility into all warehouse operations\"\<newline>'',
      ''- \"Data-driven decisions with real-time analytics\"\<newline>'',
      ''- \"Mobile-first design for modern workforce\"\<newline>\<newline>'',
      ''## '' @ [CHR 0xF0, CHR 0x9F, CHR 0xA4, CHR 0x9D] @ '' Q&A AND WRAP-UP (5-10 minutes)\<newline>'',
      ''1. **Open discussion** - answer specific questions\<newline>'',
      ''2. **Next steps** - how to get started with ShipHero\<newline>'',
      ''3. **Contact information** - provide follow-up resources\<newline>'',
      ''4. **Thank participants** - appreciate their time\<newline>\<newline>'',
      ''## '' @ [CHR 0xF0, CHR 0x9F, CHR 0x93, CHR 0x9E] @ '' FOLLOW-UP ACTIONS\<newline>'',
      ''- [ ] Send thank you email with tour summary\<newline>'',
      ''- [ ] Provide pricing and implementation timeline\<newline>'',
      ''- [ ] Schedule follow-up demo if requested\<newline>'',
      ''- [ ] Connect with technical team for detailed questions\<newline>\<newline>'',
      ''## '' @ [CHR 0xF0, CHR 0x9F, CHR 0x8E, CHR 0xAF] @ '' KEY SUCCESS METRICS TO HIGHLIGHT\<newline>'',
      ''- **99.9% accuracy** with light-guided systems\<newline>'',
      ''- **50% reduction** in training time for new workers\<newline>'',
      ''- **3-5x productivity** increase with batch picking\<newline>'',
      ''- **Real-time visibility** into all operations\<newline>'',
      ''- **Seamless integration** with existing systems\<newline>\<newline>'',
      ''## '' @ [CHR 0xF0, CHR 0x9F, CHR 0x93, CHR 0xA6] @ '' PRODUCTS FOR DEMONSTRATION\<newline>'',
      ''**Selected SKUs:** '' @ join '', '' (selected_skus tourData) @ ''\<newline>'',
      ''*Use these products throughout all demonstrations for consistency*\<newline>\<newline>'',
      ''---\<newline>'',
      ''*Generated on: '' @ toLocaleString now @ ''*\<newline>'',
      ''*Tour ID: '' @ tour_id tourData @ ''*\<newline>'']"

text \<open>
  \<open>if (selectedWorkflows.includes(key)) { guide += ...; workflowCounter++ }\<close> on the pair
  of the pieces so far and the counter.
\<close>

definition addSection ::
  "string list \<Rightarrow> string \<Rightarrow> (nat \<Rightarrow> string list) \<Rightarrow> string list \<times> nat \<Rightarrow> string list \<times> nat" where
  "addSection selectedWorkflows key section st =
     (case st of (guide, workflowCounter) \<Rightarrow>
        if key \<in> set selectedWorkflows
        then (guide @ section workflowCounter, workflowCounter + 1)
        else (guide, workflowCounter))"

definition guidePieces :: "Clock \<Rightarrow> TourData \<Rightarrow> string list" where
  "guidePieces now tourData =
     (let selectedWorkflows = selected_workflows tourData in
      fst (addSection selectedWorkflows ''bulk_shipping'' bulkShippingSection
          (addSection selectedWorkflows ''single_item_batch'' singleItemBatchSection
          (addSection selectedWorkflows ''multi_item_batch'' multiItemBatchSection
          (addSection selectedWorkflows ''pack_to_light'' packToLightSection
          (addSection selectedWorkflows ''receive_to_light'' receiveToLightSection
             (guideOpening now tourData, 1))))))
        @ guideClosing now tourData)"

definition generateInstructionGuide ::
  "Environment \<Rightarrow> string \<Rightarrow> world \<Rightarrow> (string + string) \<times> world" where
  "generateInstructionGuide env tourId s =
     (case getTourDetails env tourId s of
        (Inl e, s1) \<Rightarrow> (Inl e, s1)
      | (Inr tourData, s1) \<Rightarrow> (Inr (concat (guidePieces (clock env) tourData)), s1))"


section \<open>The orchestrator\<close>

record FinalizationResult =
  fr_tourId :: string
  fr_tourDate :: string
  fr_tourTime :: string
  fr_warehouseName :: string
  fr_warehouseAddress :: string
  fr_hostName :: string
  fr_selectedWorkflows :: "WorkflowOption list"
  fr_selectedSkus :: "string list"
  fr_participantCount :: nat
  fr_sales_orders :: "(string \<times> string \<times> string \<times> (string \<times> nat) list) list"
  fr_purchase_orders :: "(string \<times> string \<times> (string \<times> nat) list) list"
  fr_instructions :: string

record FinalizeOutcome =
  success :: bool
  message :: string
  errors :: "string list"
  instructionGuide :: "string option"
  finalizationResult :: "FinalizationResult option"

text \<open>
  One logic block of \<open>finalizeTour\<close>: if the option is selected, the handler runs inside
  its own try/catch and a failure is pushed to \<open>errors\<close>.
\<close>

definition logicBlock ::
  "WorkflowOption list \<Rightarrow> WorkflowOption \<Rightarrow> string \<Rightarrow> (world \<Rightarrow> (string + unit) \<times> world)
     \<Rightarrow> string list \<times> world \<Rightarrow> string list \<times> world" where
  "logicBlock selectedOptions opt label handler st =
     (case st of (errs, s) \<Rightarrow>
        if opt \<in> set selectedOptions then
          (case handler (record_event (HandlerCall opt) s) of
             (Inl error_message, s1) \<Rightarrow> (errs @ [label @ '' failed: '' @ error_message], s1)
           | (Inr u, s1) \<Rightarrow> (errs, s1))
        else (errs, s))"

definition logicBlocks ::
  "Environment \<Rightarrow> TourData \<Rightarrow> WorkflowOption list \<Rightarrow> world \<Rightarrow> string list \<times> world" where
  "logicBlocks env tourData selectedOptions s =
     logicBlock selectedOptions multi_item_batch ''Multi-Item Batch SOs''
       (createMultiItemBatchSOs env tourData)
    (logicBlock selectedOptions single_item_batch ''Single-Item Batch SOs''
       (createSingleItemBatchSOs env tourData)
    (logicBlock selectedOptions bulk_shipping ''Bulk Shipping SOs''
       (createBulkShippingSOs env tourData)
    (logicBlock selectedOptions standard_receiving ''Standard Receiving PO''
       (createStandardReceivingPO env tourData ''STANDARD-RECEIVING'')
    (logicBlock selectedOptions pack_to_light ''Pack-to-Light Workflow''
       (createPackToLightWorkflowOrders env tourData)
    (logicBlock selectedOptions receive_to_light ''Receive-to-Light Workflow''
       (createReceiveToLightWorkflowOrders env tourData)
       ([], s))))))"

text \<open>The outer catch of \<open>finalizeTour\<close>.\<close>

definition finalizationFailed :: "string \<Rightarrow> string list \<Rightarrow> FinalizeOutcome" where
  "finalizationFailed error_message errs =
     (let errorMsg = ''Tour finalization failed: '' @ error_message in
      \<lparr> success = False,
        message = errorMsg,
        errors = errorMsg # errs,
        instructionGuide = None,
        finalizationResult = None \<rparr>)"

text \<open>
  The return of the try block. \<open>TourData\<close> has no \<open>date\<close> and no \<open>time\<close>: the defaults are
  taken. Nothing is ever pushed to \<open>salesOrders\<close> and \<open>purchaseOrders\<close>.
\<close>

definition finalized ::
  "Clock \<Rightarrow> TourData \<Rightarrow> WorkflowOption list \<Rightarrow> string list \<Rightarrow> string \<Rightarrow> FinalizeOutcome" where
  "finalized now tourData selectedOptions errs guide =
     (let successMessage =
            (if length errs > 0
             then ''Tour finalized with '' @ toString (length errs)
                    @ '' workflow error(s). Instruction guide generated.''
             else ''Tour finalized successfully with all selected workflows. Instruction guide generated.'');
          address = wh_address (warehouse tourData)
      in
      \<lparr> success = (length errs = 0),
        message = successMessage,
        errors = errs,
        instructionGuide = Some guide,
        finalizationResult = Some
          \<lparr> fr_tourId = tour_id tourData,
            fr_tourDate = takeWhile (\<lambda>c. c \<noteq> CHR ''T'') (toISOString now),
            fr_tourTime = ''10:00'',
            fr_warehouseName = wh_name (warehouse tourData),
            fr_warehouseAddress =
              orElse (trim (orDefault (field address addr_address1) '''' @ '' ''
                              @ orDefault (field address addr_city) '''' @ '' ''
                              @ orDefault (field address addr_state) '''' @ '' ''
                              @ orDefault (field address addr_zip) ''''))
                ''Address not available'',
            fr_hostName = host_first_name (host tourData) @ '' '' @ host_last_name (host tourData),
            fr_selectedWorkflows = selectedOptions,
            fr_selectedSkus = selected_skus tourData,
            fr_participantCount = length (participants tourData),
            fr_sales_orders = [],
            fr_purchase_orders = [],
            fr_instructions = guide \<rparr> \<rparr>)"

definition finalizeTour ::
  "Environment \<Rightarrow> string \<Rightarrow> WorkflowOption list \<Rightarrow> world \<Rightarrow> FinalizeOutcome \<times> world" where
  "finalizeTour env tourId selectedOptions s =
     (case initializeShipHero env s of
        (Inl e, s1) \<Rightarrow> (finalizationFailed e [], s1)
      | (Inr u, s1) \<Rightarrow>
     (case getTourDetails env tourId s1 of
        (Inl e, s2) \<Rightarrow> (finalizationFailed e [], s2)
      | (Inr tourData, s2) \<Rightarrow>
     (case logicBlocks env tourData selectedOptions s2 of (errs, s3) \<Rightarrow>
     (case generateInstructionGuide env tourId s3 of
        (Inl e, s4) \<Rightarrow> (finalizationFailed e errs, s4)
      | (Inr guide, s4) \<Rightarrow>
     (case updateTourStatus env tourId ''finalized'' s4 of
        (Inl e, s5) \<Rightarrow> (finalizationFailed e errs, s5)
      | (Inr u, s5) \<Rightarrow>
          (finalized (clock env) tourData selectedOptions errs guide, s5))))))"


section \<open>Vocabulary of the properties\<close>

subsection \<open>Amounts\<close>

text \<open>
  The totals of a request are strings (\<open>"45"\<close>, \<open>"0.00"\<close>) and so are the unit prices
  (\<open>"15.00"\<close>). \<open>decimalValue\<close> reads a decimal numeral; a string that is not one has no
  value.
\<close>

definition digitValue :: "char \<Rightarrow> nat option" where
  "digitValue c = (let n = (of_char c :: nat) in if 48 \<le> n \<and> n \<le> 57 then Some (n - 48) else None)"

definition digitStep :: "nat option \<Rightarrow> char \<Rightarrow> nat option" where
  "digitStep acc c =
     (case acc of
        None \<Rightarrow> None
      | Some a \<Rightarrow> (case digitValue c of None \<Rightarrow> None | Some d \<Rightarrow> Some (10 * a + d)))"

definition digitsValue :: "string \<Rightarrow> nat option" where
  "digitsValue s = (if s = [] then None else foldl digitStep (Some 0) s)"

definition decimalValue :: "string \<Rightarrow> rat option" where
  "decimalValue s =
     (let whole = takeWhile (\<lambda>c. c \<noteq> CHR ''.'') s;
          rest = dropWhile (\<lambda>c. c \<noteq> CHR ''.'') s
      in case digitsValue whole of
           None \<Rightarrow> None
         | Some w \<Rightarrow>
             if rest = [] then Some (of_nat w)
             else (case digitsValue (tl rest) of
                     None \<Rightarrow> None
                   | Some f \<Rightarrow> Some (of_nat w + of_nat f / 10 ^ length (tl rest))))"

fun sumAmounts :: "rat option list \<Rightarrow> rat option" where
  "sumAmounts [] = Some 0"
| "sumAmounts (x # xs) =
     (case x of None \<Rightarrow> None
      | Some a \<Rightarrow> (case sumAmounts xs of None \<Rightarrow> None | Some b \<Rightarrow> Some (a + b)))"

definition lineAmount :: "nat \<Rightarrow> string \<Rightarrow> rat option" where
  "lineAmount quantity price = map_option (\<lambda>p. of_nat quantity * p) (decimalValue price)"

definition salesLinesTotal :: "LineItem list \<Rightarrow> rat option" where
  "salesLinesTotal items = sumAmounts (map (\<lambda>item. lineAmount (li_quantity item) (li_price item)) items)"

definition purchaseLinesTotal :: "POLineItem list \<Rightarrow> rat option" where
  "purchaseLinesTotal items = sumAmounts (map (\<lambda>item. lineAmount (pli_quantity item) (pli_price item)) items)"

text \<open>
  Subtotal and total price are the same string, and it denotes the sum over the line items
  of quantity times unit price.
\<close>

definition totalsAgree :: "string \<Rightarrow> string \<Rightarrow> rat option \<Rightarrow> bool" where
  "totalsAgree subtotal total_price linesTotal =
     (subtotal = total_price \<and> linesTotal \<noteq> None \<and> decimalValue subtotal = linesTotal
        \<and> decimalValue total_price = linesTotal)"

definition salesTotalsAgree :: "SalesOrder \<Rightarrow> bool" where
  "salesTotalsAgree orderData =
     totalsAgree (so_subtotal orderData) (so_total_price orderData)
       (salesLinesTotal (so_line_items orderData))"

definition purchaseTotalsAgree :: "PurchaseOrder \<Rightarrow> bool" where
  "purchaseTotalsAgree po =
     totalsAgree (po_subtotal po) (po_total_price po) (purchaseLinesTotal (po_line_items po))"

text \<open>The fields of a purchase order that do not depend on the tour.\<close>

definition fixedPurchaseFields :: "PurchaseOrder \<Rightarrow> bool" where
  "fixedPurchaseFields po =
     (po_subtotal po = ''0.00'' \<and> po_tax po = ''0.00'' \<and> po_shipping_price po = ''0.00''
      \<and> po_total_price po = ''0.00'' \<and> po_discount po = ''0.00''
      \<and> po_vendor_id po = ''1076735''
      \<and> list_all (\<lambda>item. pli_price item = ''0.00'' \<and> pli_product_name item = pli_sku item
                            \<and> pli_quantity_received item = 0 \<and> pli_quantity_rejected item = 0)
           (po_line_items po))"

subsection \<open>Reading the trace\<close>

text \<open>The events that a run appends to the trace of its initial state.\<close>

definition newEvents :: "world \<Rightarrow> world \<Rightarrow> event list" where
  "newEvents s s' = drop (length (events s)) (events s')"

text \<open>The handlers invoked, the status updates issued and the orders submitted, in order.\<close>

primrec handlerCalls :: "event list \<Rightarrow> WorkflowOption list" where
  "handlerCalls [] = []"
| "handlerCalls (e # es) = (case e of HandlerCall w \<Rightarrow> w # handlerCalls es | _ \<Rightarrow> handlerCalls es)"

primrec statusUpdates :: "event list \<Rightarrow> (string \<times> string) list" where
  "statusUpdates [] = []"
| "statusUpdates (e # es) =
     (case e of DbUpdate tourId status \<Rightarrow> (tourId, status) # statusUpdates es | _ \<Rightarrow> statusUpdates es)"

primrec orderCalls :: "event list \<Rightarrow> (ApiRequest \<times> nat \<times> HttpResponse) list" where
  "orderCalls [] = []"
| "orderCalls (e # es) =
     (case e of OrderCall token request response \<Rightarrow> (request, response) # orderCalls es
      | _ \<Rightarrow> orderCalls es)"

primrec salesRequests :: "event list \<Rightarrow> SalesOrder list" where
  "salesRequests [] = []"
| "salesRequests (e # es) =
     (case e of OrderCall token (SalesOrderRequest orderData) response \<Rightarrow> orderData # salesRequests es
      | _ \<Rightarrow> salesRequests es)"

primrec purchaseRequests :: "event list \<Rightarrow> PurchaseOrder list" where
  "purchaseRequests [] = []"
| "purchaseRequests (e # es) =
     (case e of OrderCall token (PurchaseOrderRequest po) response \<Rightarrow> po # purchaseRequests es
      | _ \<Rightarrow> purchaseRequests es)"

text \<open>The order in which \<open>finalizeTour\<close> lists its logic blocks.\<close>

definition executionOrder :: "WorkflowOption list" where
  "executionOrder =
     [receive_to_light, pack_to_light, standard_receiving, bulk_shipping, single_item_batch,
      multi_item_batch]"

text \<open>
  Session setup and the first data loading succeed: the logic blocks are reached.
\<close>

definition handlersAllowed :: "Environment \<Rightarrow> string \<Rightarrow> world \<Rightarrow> bool" where
  "handlersAllowed env tourId s =
     (case initializeShipHero env s of
        (Inl e, s1) \<Rightarrow> False
      | (Inr u, s1) \<Rightarrow>
          (case getTourDetails env tourId s1 of (Inl e, s2) \<Rightarrow> False | (Inr tourData, s2) \<Rightarrow> True))"

text \<open>The message of a normal return with \<open>n\<close> collected errors.\<close>

definition errorCountMessage :: "nat \<Rightarrow> string" where
  "errorCountMessage n =
     ''Tour finalized with '' @ toString n @ '' workflow error(s). Instruction guide generated.''"

subsection \<open>Frames\<close>

text \<open>
  \<open>extendsWith P s s'\<close>: the trace of \<open>s'\<close> is the trace of \<open>s\<close> followed by events that all
  satisfy \<open>P\<close>. An order submission is well formed when its totals agree and, for a purchase
  order, its fixed fields are in place.
\<close>

definition wellFormedRequest :: "ApiRequest \<Rightarrow> bool" where
  "wellFormedRequest request =
     (case request of
        SalesOrderRequest orderData \<Rightarrow> salesTotalsAgree orderData
      | PurchaseOrderRequest po \<Rightarrow> purchaseTotalsAgree po \<and> fixedPurchaseFields po)"

definition wellFormedCall :: "event \<Rightarrow> bool" where
  "wellFormedCall e =
     (case e of OrderCall token request response \<Rightarrow> wellFormedRequest request | _ \<Rightarrow> False)"

definition extendsWith :: "(event \<Rightarrow> bool) \<Rightarrow> world \<Rightarrow> world \<Rightarrow> bool" where
  "extendsWith P s s' =
     (take (length (events s)) (events s') = events s \<and> list_all P (newEvents s s'))"

definition quietEvent :: "event \<Rightarrow> bool" where
  "quietEvent e =
     (case e of
        TokenCall refreshToken \<Rightarrow> True
      | DbSelect table key \<Rightarrow> True
      | OrderCall token request response \<Rightarrow> wellFormedRequest request
      | _ \<Rightarrow> False)"

definition blockEvent :: "event \<Rightarrow> bool" where
  "blockEvent e = (case e of HandlerCall w \<Rightarrow> True | _ \<Rightarrow> quietEvent e)"

definition blocksFrame :: "world \<Rightarrow> world \<Rightarrow> WorkflowOption list \<Rightarrow> bool" where
  "blocksFrame s s' calls = (extendsWith blockEvent s s' \<and> handlerCalls (newEvents s s') = calls)"

subsection \<open>Submissions and their answers\<close>

text \<open>
  The answers of the order API, in the order of the submissions: each is the time at which
  the promise of the submission settles, and the response.
\<close>

definition responses :: "event list \<Rightarrow> (nat \<times> HttpResponse) list" where
  "responses es = map snd (orderCalls es)"

text \<open>An answer with \<open>response.ok\<close>; an answer that carries a created sales order.\<close>

definition httpOk :: "nat \<times> HttpResponse \<Rightarrow> bool" where
  "httpOk answer = (case snd answer of Ok body \<Rightarrow> True | NotOk status errorText \<Rightarrow> False)"

definition carriesOrder :: "nat \<times> HttpResponse \<Rightarrow> bool" where
  "carriesOrder answer =
     (case snd answer of Ok body \<Rightarrow> body_order body \<noteq> None | NotOk status errorText \<Rightarrow> False)"

text \<open>The orders created by a batch: one for each answer that carries an order.\<close>

fun createdOrders :: "(nat \<times> HttpResponse) list \<Rightarrow> string list" where
  "createdOrders [] = []"
| "createdOrders ((t, Ok body) # rs) =
     (case body_order body of None \<Rightarrow> createdOrders rs | Some createdOrder \<Rightarrow> createdOrder # createdOrders rs)"
| "createdOrders ((t, NotOk status errorText) # rs) = createdOrders rs"

text \<open>The error raised for a rejected sales-order submission.\<close>

definition salesRejection :: "nat \<times> HttpResponse \<Rightarrow> string" where
  "salesRejection answer =
     (case snd answer of
        NotOk status errorText \<Rightarrow>
          ''Failed to create sales order: '' @ toString status @ '' '' @ errorText
      | Ok body \<Rightarrow> [])"

text \<open>
  Of the rejected submissions of a batch, the one whose promise settles first (of two that
  settle at the same time, the one submitted first).
\<close>

definition firstRejected :: "(nat \<times> HttpResponse) list \<Rightarrow> nat \<times> HttpResponse" where
  "firstRejected rs = arg_min_list fst (filter (\<lambda>r. \<not> httpOk r) rs)"

text \<open>
  What a batch of sales-order submissions returns for the answers \<open>rs\<close>: the created orders
  when every answer is ok, the error of the rejected submission that settles first
  otherwise.
\<close>

definition settledSalesBatch :: "(nat \<times> HttpResponse) list \<Rightarrow> string + string list" where
  "settledSalesBatch rs =
     (if list_all httpOk rs then Inr (createdOrders rs)
      else Inl (salesRejection (firstRejected rs)))"

text \<open>
  The rule of a batch of \<open>n\<close> sales-order submissions, read on the trace: it raises exactly
  when a submission is rejected, with the error of the rejected submission that settles
  first; answers without an order only lower the number of created orders.
\<close>

definition salesBatchRule :: "nat \<Rightarrow> world \<Rightarrow> (string + string list) \<times> world \<Rightarrow> bool" where
  "salesBatchRule n s outcome =
     (let rs = responses (newEvents s (snd outcome)) in
      length rs = n \<and>
      (if list_all httpOk rs
       then fst outcome = Inr (createdOrders rs)
            \<and> length (createdOrders rs) + length (filter (\<lambda>r. \<not> carriesOrder r) rs) = n
       else fst outcome = Inl (salesRejection (firstRejected rs))))"

text \<open>
  The purchase-order handler submits one request; it raises when the submission is rejected
  and when the answer carries no purchase order.
\<close>

definition purchaseOutcome :: "string \<Rightarrow> nat \<times> HttpResponse \<Rightarrow> string + unit" where
  "purchaseOutcome workflowName answer =
     (case snd answer of
        NotOk status errorText \<Rightarrow>
          Inl (''Failed to create purchase order: '' @ toString status @ '' '' @ errorText)
      | Ok body \<Rightarrow>
          if body_purchase_order body \<noteq> None then Inr ()
          else Inl (''Failed to create '' @ workflowName @ '' PO: ''
                      @ orDefault (body_error_message body) ''Unknown error''))"

definition purchaseOrderRule :: "string \<Rightarrow> world \<Rightarrow> (string + unit) \<times> world \<Rightarrow> bool" where
  "purchaseOrderRule workflowName s outcome =
     (case responses (newEvents s (snd outcome)) of
        [answer] \<Rightarrow> fst outcome = purchaseOutcome workflowName answer
      | _ \<Rightarrow> False)"

text \<open>
  Orders are submitted in a session that has been initialised, for a tour with selected
  SKUs.
\<close>

definition submits :: "world \<Rightarrow> TourData \<Rightarrow> bool" where
  "submits s tourData = (shipHero s \<noteq> None \<and> selected_skus tourData \<noteq> [])"

text \<open>
  A submission is accepted when its response is ok and, for a purchase order, carries the
  created purchase order. The rule of a handler, read on the trace: it returns normally
  exactly when the session is initialised, the tour has selected SKUs and every submission
  it made was accepted; without a session or without SKUs it submits nothing.
\<close>

definition acceptedCall :: "ApiRequest \<times> nat \<times> HttpResponse \<Rightarrow> bool" where
  "acceptedCall call =
     (case snd (snd call) of
        NotOk status errorText \<Rightarrow> False
      | Ok body \<Rightarrow>
          (case fst call of
             SalesOrderRequest orderData \<Rightarrow> True
           | PurchaseOrderRequest po \<Rightarrow> body_purchase_order body \<noteq> None))"

definition returnsNormally :: "string + 'a \<Rightarrow> bool" where
  "returnsNormally r = (case r of Inl e \<Rightarrow> False | Inr x \<Rightarrow> True)"

definition handlerRule :: "TourData \<Rightarrow> world \<Rightarrow> (string + 'a) \<times> world \<Rightarrow> bool" where
  "handlerRule tourData s outcome =
     (let calls = orderCalls (newEvents s (snd outcome)) in
      (returnsNormally (fst outcome) = (submits s tourData \<and> list_all acceptedCall calls))
      \<and> (\<not> submits s tourData \<longrightarrow> calls = []))"

text \<open>The settled promise of one submission, and the event that records it.\<close>

definition salesOutcome :: "nat \<times> HttpResponse \<Rightarrow> ApiBody promise" where
  "salesOutcome answer =
     (fst answer,
      case snd answer of
        NotOk status errorText \<Rightarrow>
          Inl (''Failed to create sales order: '' @ toString status @ '' '' @ errorText)
      | Ok body \<Rightarrow> Inr body)"

definition salesCall :: "string \<Rightarrow> SalesOrder \<times> nat \<times> HttpResponse \<Rightarrow> event" where
  "salesCall token call = OrderCall token (SalesOrderRequest (fst call)) (snd call)"

text \<open>
  The shape of a batch in the trace: \<open>n\<close> submissions, each with a request that satisfies
  \<open>P\<close>, and the result of the batch settled from their answers.
\<close>

definition batchShape ::
  "string \<Rightarrow> (SalesOrder \<Rightarrow> bool) \<Rightarrow> nat \<Rightarrow> world \<Rightarrow> (string + string list) \<times> world \<Rightarrow> bool" where
  "batchShape token P n s outcome =
     (\<exists>calls. length calls = n
        \<and> events (snd outcome) = events s @ map (salesCall token) calls
        \<and> fst outcome = settledSalesBatch (map snd calls)
        \<and> shipHero (snd outcome) = Some token
        \<and> list_all P (map fst calls))"

text \<open>
  A step of a handler in a session with SKUs: it keeps the session, extends the trace and
  returns normally exactly when every submission it made was accepted.
\<close>

definition stepRule :: "string \<Rightarrow> world \<Rightarrow> (string + 'a) \<times> world \<Rightarrow> bool" where
  "stepRule token s outcome =
     (shipHero (snd outcome) = Some token
      \<and> take (length (events s)) (events (snd outcome)) = events s
      \<and> returnsNormally (fst outcome)
          = list_all acceptedCall (orderCalls (newEvents s (snd outcome))))"

text \<open>A step that raises and leaves the trace as it is.\<close>

definition raisesUnsubmitted :: "world \<Rightarrow> (string + 'a) \<times> world \<Rightarrow> bool" where
  "raisesUnsubmitted s outcome =
     (\<not> returnsNormally (fst outcome) \<and> events (snd outcome) = events s
      \<and> shipHero (snd outcome) = shipHero s)"

subsection \<open>The two draws of a single-line demo order\<close>

text \<open>\<open>Math.floor(Math.random() * 3) + 1\<close> at the draw number \<open>k\<close>.\<close>

definition drawnQuantity :: "Environment \<Rightarrow> nat \<Rightarrow> nat" where
  "drawnQuantity env k = floorTimes (Math_random env k) 3 + 1"

text \<open>
  What the property reads of an order: the quantities and the pending quantities of its line
  items, its subtotal and its total price.
\<close>

definition quantitiesOf :: "SalesOrder \<Rightarrow> nat list \<times> nat list \<times> string \<times> string" where
  "quantitiesOf orderData =
     (map li_quantity (so_line_items orderData),
      map li_quantity_pending_fulfillment (so_line_items orderData),
      so_subtotal orderData, so_total_price orderData)"

text \<open>
  The same for the orders of a loop of \<open>count\<close> iterations that starts after \<open>d\<close> draws:
  order \<open>i\<close> has one line item, with the quantity of draw \<open>d + 2i\<close> and the pending
  quantity of draw \<open>d + 2i + 1\<close>; subtotal and total price are 15 times the quantity.
\<close>

definition twoDraws ::
  "Environment \<Rightarrow> nat \<Rightarrow> nat \<Rightarrow> (nat list \<times> nat list \<times> string \<times> string) list" where
  "twoDraws env d count =
     map (\<lambda>i. ([drawnQuantity env (d + 2 * i)], [drawnQuantity env (d + 2 * i + 1)],
               toString (drawnQuantity env (d + 2 * i) * 15),
               toString (drawnQuantity env (d + 2 * i) * 15)))
       [0..<count]"

subsection \<open>Demonstration sections of the guide\<close>

text \<open>
  A demonstration heading is \<open>## <pictograph> DEMONSTRATION <number>: <title>\<close>; the
  pictograph is four bytes. The titles are those of the five sections that the generator
  can append.
\<close>

definition demonstrationTitles :: "(string \<times> string) list" where
  "demonstrationTitles =
     [(''RECEIVE-TO-LIGHT (R2L)'', ''receive_to_light''),
      (''PACK-TO-LIGHT (P2L)'', ''pack_to_light''),
      (''MULTI-ITEM BATCH PICKING'', ''multi_item_batch''),
      (''SINGLE-ITEM BATCH PICKING'', ''single_item_batch''),
      (''BULK SHIPPING'', ''bulk_shipping'')]"

definition demonstrationOf :: "string \<Rightarrow> (nat \<times> string) option" where
  "demonstrationOf piece =
     (if take 3 piece = ''## '' \<and> take 15 (drop 7 piece) = '' DEMONSTRATION '' then
        (let rest = drop 22 piece;
             number = takeWhile (\<lambda>c. c \<noteq> CHR '':'') rest;
             title = takeWhile (\<lambda>c. c \<noteq> CHR 0x0A) (drop 2 (dropWhile (\<lambda>c. c \<noteq> CHR '':'') rest))
         in case digitsValue number of
              None \<Rightarrow> None
            | Some n \<Rightarrow> map_option (\<lambda>key. (n, key)) (map_of demonstrationTitles title))
      else None)"

text \<open>The demonstration sections of a guide, in order: number and workflow.\<close>

primrec demonstrations :: "string list \<Rightarrow> (nat \<times> string) list" where
  "demonstrations [] = []"
| "demonstrations (piece # pieces) =
     (case demonstrationOf piece of
        None \<Rightarrow> demonstrations pieces
      | Some d \<Rightarrow> d # demonstrations pieces)"

text \<open>The order of the sections in the generator, and the execution order of the workflows.\<close>

definition guideOrder :: "string list" where
  "guideOrder =
     [''receive_to_light'', ''pack_to_light'', ''multi_item_batch'', ''single_item_batch'',
      ''bulk_shipping'']"

definition canonicalOrder :: "string list" where
  "canonicalOrder =
     [''receive_to_light'', ''pack_to_light'', ''standard_receiving'', ''bulk_shipping'',
      ''single_item_batch'', ''multi_item_batch'']"

section \<open>An example tour\<close>

definition exampleClock :: Clock where
  "exampleClock =
     \<lparr> toISOString = ''2025-09-14T17:30:00.000Z'',
       toISOString_plus7days = ''2025-09-21T17:30:00.000Z'',
       toLocaleDateString = ''9/14/2025'',
       toLocaleString = ''9/14/2025, 5:30:00 PM'' \<rparr>"

definition exampleHost :: Host where
  "exampleHost =
     \<lparr> host_id = ''host-1'', host_name = ''Ada Host'', host_first_name = ''Ada'',
       host_last_name = ''Host'' \<rparr>"

definition exampleWarehouse :: Warehouse where
  "exampleWarehouse =
     \<lparr> wh_id = ''wh-1'', wh_name = ''Main Warehouse'', wh_address = None,
       wh_shiphero_warehouse_id = ''V2FyZWhvdXNl'' \<rparr>"

definition exampleParticipant :: "string \<Rightarrow> Participant" where
  "exampleParticipant name =
     \<lparr> p_id = name, p_name = name, p_first_name = name, p_last_name = ''Guest'',
       p_email = '''', p_company = '''', p_title = '''' \<rparr>"

definition exampleTour :: "string list \<Rightarrow> Participant list \<Rightarrow> string list \<Rightarrow> TourData" where
  "exampleTour workflows people skus =
     \<lparr> tour_id = ''tour-1'', host = exampleHost, participants = people,
       warehouse = exampleWarehouse, selected_workflows = workflows, selected_skus = skus \<rparr>"

text \<open>Answers of the order API: an order was created; no order was created; the request was rejected.\<close>

definition answerCreated :: HttpResponse where
  "answerCreated =
     Ok \<lparr> body_order = Some ''order'', body_purchase_order = Some ''purchase order'',
          body_error_message = None \<rparr>"

definition answerWithoutOrder :: HttpResponse where
  "answerWithoutOrder =
     Ok \<lparr> body_order = None, body_purchase_order = None,
          body_error_message = Some ''Insufficient inventory'' \<rparr>"

definition answerRejected :: HttpResponse where
  "answerRejected = NotOk 500 ''Internal Server Error''"

text \<open>The names of the example are ASCII; on ASCII \<open>toLowerCase\<close> maps A-Z to a-z.\<close>

definition lowerAscii :: "char \<Rightarrow> char" where
  "lowerAscii c =
     (let n = (of_char c :: nat) in if 65 \<le> n \<and> n \<le> 90 then char_of (n + 32) else c)"

text \<open>
  An environment whose datastore holds the example tour: the refresh token in local storage,
  the workflows, participants and SKUs of the tour, the response of the order API at each
  moment, and the error of the status update, if any. The promises of the submissions
  settle in the order of the submissions. Every second draw of \<open>Math.random()\<close> is 0, the
  others are 3/4.
\<close>

definition exampleEnv ::
  "string option \<Rightarrow> string list \<Rightarrow> Participant list \<Rightarrow> string list \<Rightarrow> (nat \<Rightarrow> HttpResponse)
     \<Rightarrow> string option \<Rightarrow> Environment" where
  "exampleEnv refreshToken workflows people skus api updateError =
     \<lparr> window_defined = True,
       localStorage_getItem = refreshToken,
       refresh_token_api = (\<lambda>t token. TokenOk ''access-1''),
       orders_api = (\<lambda>t token request. (t, api t)),
       tours_table = (\<lambda>t key. Inr \<lparr> row_id = ''tour-1'', row_warehouse_id = ''wh-1'',
                                     row_host_id = ''host-1'',
                                     row_selected_workflows = Some workflows,
                                     row_selected_skus = Some skus \<rparr>),
       warehouses_table = (\<lambda>t key. Inr exampleWarehouse),
       team_members_table = (\<lambda>t key. Inr exampleHost),
       tour_participants_table = (\<lambda>t key. Inr (Some people)),
       tours_update = (\<lambda>t key status. updateError),
       Math_random = (\<lambda>k. if even k then (0, 0) else (3, 2)),
       getCelebrityNames = (\<lambda>t n. []),
       toLowerCase = map lowerAscii,
       clock = exampleClock \<rparr>"

text \<open>
  An environment whose datastore answers while fewer than \<open>k\<close> interactions have taken
  place, and then no longer returns the tour.
\<close>

definition tourLostAfter :: "nat \<Rightarrow> Environment \<Rightarrow> Environment" where
  "tourLostAfter k env =
     env\<lparr>tours_table :=
           (\<lambda>t key. if t < k then tours_table env t key else Inl ''connection lost'')\<rparr>"

text \<open>
  The same environment with the promises of the submissions settling in the reverse order:
  the later the submission, the earlier its promise settles.
\<close>

definition settlingBackwards :: "Environment \<Rightarrow> Environment" where
  "settlingBackwards env =
     env\<lparr>orders_api := (\<lambda>t token request. (100 - t, snd (orders_api env t token request)))\<rparr>"

text \<open>The service before and after session initialization.\<close>

definition newService :: world where
  "newService = \<lparr> events = [], draws = 0, shipHero = None \<rparr>"

definition initialised :: world where
  "initialised = \<lparr> events = [], draws = 0, shipHero = Some ''access-1'' \<rparr>"

text \<open>The state after \<open>getTourDetails\<close> in the example environment.\<close>

definition loaded :: "string \<Rightarrow> world \<Rightarrow> world" where
  "loaded tourId s =
     record_event (DbSelect ''tour_participants'' tourId)
       (record_event (DbSelect ''team_members'' ''host-1'')
          (record_event (DbSelect ''warehouses'' ''wh-1'')
             (record_event (DbSelect ''tours'' tourId) s)))"

text \<open>The error of the standard-receiving block when the tour has no selected SKU.\<close>

definition noSkusForStandardReceiving :: string where
  "noSkusForStandardReceiving =
     ''Standard Receiving PO failed: No SKUs selected for STANDARD-RECEIVING PO. Please select SKUs when creating the tour.''"



section \<open>Decimal numerals\<close>

lemmas decimal_defs = decimalValue_def digitsValue_def digitValue_def digitStep_def

lemma decimalValue_15: "decimalValue ''15.00'' = Some 15"
  by (simp add: decimal_defs)
lemma decimalValue_0: "decimalValue ''0.00'' = Some 0"
  by (simp add: decimal_defs)
lemma decimalValue_12: "decimalValue ''12.00'' = Some 12"
  by (simp add: decimal_defs)
lemma decimalValue_10: "decimalValue ''10.00'' = Some 10"
  by (simp add: decimal_defs)

lemma digit_cases: "d < 10 \<Longrightarrow> d = 0 \<or> d = 1 \<or> d = 2 \<or> d = 3 \<or> d = 4 \<or> d = 5 \<or> d = 6 \<or> d = 7 \<or> d = 8 \<or> d = (9::nat)"
  by arith

lemma digitValue_digitChar: "d < 10 \<Longrightarrow> digitValue (digitChar d) = Some d"
  using digit_cases [of d] by (auto simp: digitChar_def digitValue_def)

lemma digitChar_not_dot: "d < 10 \<Longrightarrow> digitChar d \<noteq> CHR ''.''"
  using digit_cases [of d] by (auto simp: digitChar_def)

lemma toString_small: "n < 10 \<Longrightarrow> toString n = [digitChar n]"
  using toString.simps [of n] by simp

lemma toString_big: "\<not> n < 10 \<Longrightarrow> toString n = toString (n div 10) @ [digitChar (n mod 10)]"
  using toString.simps [of n] by simp

lemma toString_ne: "toString n \<noteq> []"
  by (cases "n < 10") (simp_all add: toString_small toString_big)

lemma toString_digits: "c \<in> set (toString n) \<Longrightarrow> \<exists>d < 10. c = digitChar d"
proof (induction n rule: toString.induct)
  case (1 n)
  show ?case
  proof (cases "n < 10")
    case True
    with 1(2) show ?thesis by (auto simp: toString_small)
  next
    case False
    have m: "n mod 10 < 10" by simp
    from False have eq: "toString n = toString (n div 10) @ [digitChar (n mod 10)]"
      by (rule toString_big)
    from 1(2) have "c \<in> set (toString (n div 10)) \<or> c = digitChar (n mod 10)"
      unfolding eq by auto
    then show ?thesis
    proof
      assume "c \<in> set (toString (n div 10))"
      with 1(1) False show ?thesis by blast
    next
      assume "c = digitChar (n mod 10)"
      with m show ?thesis by blast
    qed
  qed
qed

lemma foldl_toString: "foldl digitStep (Some 0) (toString n) = Some n"
proof (induction n rule: toString.induct)
  case (1 n)
  show ?case
  proof (cases "n < 10")
    case True
    then show ?thesis by (simp add: toString_small digitValue_digitChar digitStep_def)
  next
    case False
    then have eq: "toString n = toString (n div 10) @ [digitChar (n mod 10)]"
      by (rule toString_big)
    have m: "n mod 10 < 10" by simp
    from 1 False show ?thesis
      unfolding eq by (simp add: digitValue_digitChar [OF m] digitStep_def)
  qed
qed

lemma digitsValue_toString: "digitsValue (toString n) = Some n"
  by (simp add: digitsValue_def toString_ne foldl_toString)

lemma decimalValue_toString: "decimalValue (toString n) = Some (of_nat n)"
proof -
  have nd: "\<forall>c \<in> set (toString n). c \<noteq> CHR ''.''"
  proof
    fix c assume "c \<in> set (toString n)"
    then obtain d where "d < 10" "c = digitChar d" using toString_digits by blast
    then show "c \<noteq> CHR ''.''" by (simp add: digitChar_not_dot)
  qed
  then have tw: "takeWhile (\<lambda>c. c \<noteq> CHR ''.'') (toString n) = toString n"
    by simp
  from nd have dw: "dropWhile (\<lambda>c. c \<noteq> CHR ''.'') (toString n) = []"
    by simp
  show ?thesis
    unfolding decimalValue_def tw dw by (simp add: digitsValue_toString)
qed

section \<open>Totals of the built requests\<close>

lemma sumAmounts_const:
  "sumAmounts (map (\<lambda>item. Some (of_nat (q item) * k)) items) = Some (of_nat (sum_list (map q items)) * k)"
  by (induction items) (simp_all add: algebra_simps)

lemma salesLinesTotal_fixed_price:
  assumes "\<And>item. item \<in> set items \<Longrightarrow> li_price item = price" "decimalValue price = Some k"
  shows "salesLinesTotal items = Some (of_nat (sum_list (map li_quantity items)) * k)"
proof -
  have eq: "map (\<lambda>item. lineAmount (li_quantity item) (li_price item)) items
        = map (\<lambda>item. Some (of_nat (li_quantity item) * k)) items"
    using assms by (simp add: lineAmount_def)
  show ?thesis
    unfolding salesLinesTotal_def eq by (rule sumAmounts_const)
qed

lemma participant_totals: "salesTotalsAgree (participantOrderData now tourData orderPrefix i)"
proof -
  let ?items = "participantLineItems tourData i"
  have p: "\<And>item. item \<in> set ?items \<Longrightarrow> li_price item = ''10.00''"
    by (auto simp: participantLineItems_def)
  have q: "map li_quantity ?items = replicate (length ?items) 1"
    by (simp add: participantLineItems_def case_prod_beta comp_def map_replicate_const)
  have "salesLinesTotal ?items = Some (of_nat (length ?items) * 10)"
    using salesLinesTotal_fixed_price [OF p decimalValue_10] by (simp add: q sum_list_replicate)
  then show ?thesis
    by (simp add: salesTotalsAgree_def totalsAgree_def participantOrderData_def Let_def
          decimalValue_toString)
qed

lemma singleLine_totals:
  "li_price item = ''15.00'' \<Longrightarrow>
   salesTotalsAgree (singleLineOrderData now orderPrefix i customer [item] tags)"
  using salesLinesTotal_fixed_price [of "[item]" "''15.00''" 15]
  by (simp add: salesTotalsAgree_def totalsAgree_def singleLineOrderData_def decimalValue_toString
        decimalValue_15)

lemma demo_totals:
  "salesTotalsAgree (demoOrderData env tourData orderPrefix celebrities i quantity pending)"
  "salesTotalsAgree (simpleDemoOrderData now tourData orderPrefix i quantity pending)"
  "salesTotalsAgree (hostDemoOrderData now tourData orderPrefix i quantity pending)"
  by (simp_all add: demoOrderData_def simpleDemoOrderData_def hostDemoOrderData_def
        singleLine_totals demoLineItem_def Let_def)

lemma reduceTimes12_sum: "foldl (\<lambda>sum item. sum + li_quantity item * 12) a items = a + sum_list (map li_quantity items) * 12"
  by (induction items arbitrary: a) (simp_all add: algebra_simps)

lemma multi_totals:
  assumes "\<And>item. item \<in> set lineItems \<Longrightarrow> li_price item = ''12.00''"
  shows "salesTotalsAgree (multiItemOrderData env tourData orderPrefix celebrities i lineItems)"
  using salesLinesTotal_fixed_price [OF assms decimalValue_12]
  by (simp add: salesTotalsAgree_def totalsAgree_def multiItemOrderData_def Let_def
        decimalValue_toString reduceTimes12_def reduceTimes12_sum)

lemma forLoop_all:
  assumes "\<And>j s. P (fst (body j s))"
  shows "\<forall>x \<in> set (fst (forLoop i n body s)). P x"
  using assms
proof (induction n arbitrary: i s)
  case 0
  then show ?case by simp
next
  case (Suc n)
  have "P (fst (body i s))" by (rule Suc.prems)
  moreover have "\<forall>x \<in> set (fst (forLoop (Suc i) n body (snd (body i s)))). P x"
    by (rule Suc.IH) (rule Suc.prems)
  ultimately show ?case by (simp add: split_beta)
qed

lemma drawn_multi_price:
  "item \<in> set (fst (forLoop 0 n (drawMultiLineItem env tourData i) s)) \<Longrightarrow> li_price item = ''12.00''"
  using forLoop_all [of "\<lambda>item. li_price item = ''12.00''" "drawMultiLineItem env tourData i" 0 n s]
  by (simp add: drawMultiLineItem_def multiLineItem_def randomInt_def Let_def)

lemma po_totals: "purchaseTotalsAgree (poData now tourData workflowName poLineItems)"
proof -
  have "purchaseLinesTotal (po_line_items (poData now tourData workflowName poLineItems))
        = sumAmounts (map (\<lambda>item. Some (of_nat (sq_quantity item) * 0)) poLineItems)"
    by (simp add: purchaseLinesTotal_def poData_def lineAmount_def decimalValue_0 comp_def)
  also have "\<dots> = Some 0" by (simp only: sumAmounts_const) simp
  finally show ?thesis
    by (simp add: purchaseTotalsAgree_def totalsAgree_def poData_def decimalValue_0)
qed

section \<open>Traces\<close>

lemma extendsWithI: "events s' = events s @ new \<Longrightarrow> list_all P new \<Longrightarrow> extendsWith P s s'"
  by (simp add: extendsWith_def newEvents_def)

lemma extendsWithD:
  "extendsWith P s s' \<Longrightarrow> events s' = events s @ newEvents s s' \<and> list_all P (newEvents s s')"
  unfolding extendsWith_def newEvents_def
  by (metis append_take_drop_id)

lemma extendsWith_refl: "extendsWith P s s"
  by (rule extendsWithI [where new = "[]"]) simp_all

lemma extendsWith_same: "events s' = events s \<Longrightarrow> extendsWith P s s'"
  by (rule extendsWithI [where new = "[]"]) simp_all

lemma extendsWith_trans:
  assumes "extendsWith P s s1" "extendsWith P s1 s2"
  shows "extendsWith P s s2"
proof -
  from assms(1) have a: "events s1 = events s @ newEvents s s1" "list_all P (newEvents s s1)"
    by (auto dest: extendsWithD)
  from assms(2) have b: "events s2 = events s1 @ newEvents s1 s2" "list_all P (newEvents s1 s2)"
    by (auto dest: extendsWithD)
  show ?thesis
    by (rule extendsWithI [where new = "newEvents s s1 @ newEvents s1 s2"])
       (use a b in simp_all)
qed

lemma extendsWith_mono:
  assumes "extendsWith P s s'" "\<And>e. P e \<Longrightarrow> Q e"
  shows "extendsWith Q s s'"
  using assms unfolding extendsWith_def by (auto simp: list_all_iff)

lemma newEvents_trans:
  assumes "extendsWith P s s1" "extendsWith Q s1 s2"
  shows "newEvents s s2 = newEvents s s1 @ newEvents s1 s2"
proof -
  from assms(1) have a: "events s1 = events s @ newEvents s s1" by (auto dest: extendsWithD)
  from assms(2) have b: "events s2 = events s1 @ newEvents s1 s2" by (auto dest: extendsWithD)
  have "events s2 = events s @ (newEvents s s1 @ newEvents s1 s2)" using a b by simp
  then show ?thesis by (simp add: newEvents_def [of s s2])
qed

lemma events_record_event [simp]: "events (record_event e s) = events s @ [e]"
  by (simp add: record_event_def)

lemma shipHero_record_event [simp]: "shipHero (record_event e s) = shipHero s"
  by (simp add: record_event_def)

lemma draws_record_event [simp]: "draws (record_event e s) = draws s"
  by (simp add: record_event_def)

lemma newEvents_record_event [simp]: "newEvents s (record_event e s) = [e]"
  by (simp add: newEvents_def)

lemma extendsWith_record: "P e \<Longrightarrow> extendsWith P s (record_event e s)"
  by (rule extendsWithI [where new = "[e]"]) simp_all

lemma handlerCalls_append [simp]: "handlerCalls (xs @ ys) = handlerCalls xs @ handlerCalls ys"
  by (induction xs) (simp_all split: event.splits)

lemma statusUpdates_append [simp]: "statusUpdates (xs @ ys) = statusUpdates xs @ statusUpdates ys"
  by (induction xs) (simp_all split: event.splits)

lemma orderCalls_append [simp]: "orderCalls (xs @ ys) = orderCalls xs @ orderCalls ys"
  by (induction xs) (simp_all split: event.splits)

lemma wellFormed_no_handlerCalls: "list_all wellFormedCall es \<Longrightarrow> handlerCalls es = []"
  by (induction es) (auto simp: wellFormedCall_def split: event.splits)

lemma wellFormed_no_statusUpdates: "list_all wellFormedCall es \<Longrightarrow> statusUpdates es = []"
  by (induction es) (auto simp: wellFormedCall_def split: event.splits)

subsection \<open>What the batch builders append\<close>

lemma randomInt_events [simp]: "events (snd (randomInt env n base s)) = events s"
  by (simp add: randomInt_def)

lemma randomInt_shipHero [simp]: "shipHero (snd (randomInt env n base s)) = shipHero s"
  by (simp add: randomInt_def)

lemma createSalesOrderViaAPI_extends:
  "salesTotalsAgree orderData \<Longrightarrow>
   extendsWith wellFormedCall s (snd (createSalesOrderViaAPI env orderData s))"
  by (auto simp: createSalesOrderViaAPI_def Let_def wellFormedCall_def wellFormedRequest_def
        intro!: extendsWith_record extendsWith_refl split: option.splits HttpResponse.splits)

lemma forLoop_extends:
  assumes "\<And>i s. extendsWith P s (snd (body i s))"
  shows "extendsWith P s (snd (forLoop i n body s))"
proof (induction n arbitrary: i s)
  case 0
  show ?case by (simp add: extendsWith_refl)
next
  case (Suc n)
  have "extendsWith P s (snd (body i s))" by (rule assms)
  moreover have "extendsWith P (snd (body i s)) (snd (forLoop (Suc i) n body (snd (body i s))))"
    by (rule Suc.IH)
  ultimately show ?case by (auto simp: split_beta intro: extendsWith_trans)
qed

lemma forLoop_events_same:
  assumes "\<And>i s. events (snd (body i s)) = events s"
  shows "events (snd (forLoop i n body s)) = events s"
  by (induction n arbitrary: i s) (simp_all add: split_beta assms)

lemma forLoop_shipHero_same:
  assumes "\<And>i s. shipHero (snd (body i s)) = shipHero s"
  shows "shipHero (snd (forLoop i n body s)) = shipHero s"
  by (induction n arbitrary: i s) (simp_all add: split_beta assms)

lemma submitSingleLine_extends:
  assumes "\<And>i q p. salesTotalsAgree (orderData i q p)"
  shows "extendsWith wellFormedCall s (snd (submitSingleLine env orderData i s))"
proof -
  have "extendsWith wellFormedCall s (snd (randomInt env 3 1 (snd (randomInt env 3 1 s))))"
    by (rule extendsWith_same) simp
  then show ?thesis
    unfolding submitSingleLine_def split_beta
    by (rule extendsWith_trans) (rule createSalesOrderViaAPI_extends, rule assms)
qed

lemma drawMultiLineItem_events [simp]:
  "events (snd (drawMultiLineItem env tourData i j s)) = events s"
  by (simp add: drawMultiLineItem_def split_beta)

lemma drawMultiLineItem_shipHero [simp]:
  "shipHero (snd (drawMultiLineItem env tourData i j s)) = shipHero s"
  by (simp add: drawMultiLineItem_def split_beta)

lemma submitMultiItem_extends:
  "extendsWith wellFormedCall s (snd (submitMultiItem env tourData orderPrefix celebrities i s))"
proof -
  let ?s1 = "snd (randomInt env 3 2 s)"
  let ?n = "min (fst (randomInt env 3 2 s)) (length (selected_skus tourData))"
  let ?loop = "forLoop 0 ?n (drawMultiLineItem env tourData i) ?s1"
  have "events (snd ?loop) = events s"
    by (simp add: forLoop_events_same)
  then have "extendsWith wellFormedCall s (snd ?loop)" by (rule extendsWith_same)
  moreover have "salesTotalsAgree
      (multiItemOrderData env tourData orderPrefix celebrities i (fst ?loop))"
    by (rule multi_totals) (rule drawn_multi_price)
  ultimately show ?thesis
    unfolding submitMultiItem_def split_beta Let_def
    by (auto intro: extendsWith_trans createSalesOrderViaAPI_extends)
qed

lemma createParticipantOrders_extends:
  "extendsWith wellFormedCall s (snd (createParticipantOrders env tourData orderPrefix s))"
  by (simp add: createParticipantOrders_def split_beta extendsWith_refl forLoop_extends
        createSalesOrderViaAPI_extends participant_totals)

lemma createDemoOrders_extends:
  "extendsWith wellFormedCall s (snd (createDemoOrders env tourData orderPrefix count s))"
  by (simp add: createDemoOrders_def split_beta Let_def extendsWith_refl forLoop_extends
        submitSingleLine_extends demo_totals)

lemma createSimpleDemoOrders_extends:
  "extendsWith wellFormedCall s (snd (createSimpleDemoOrders env tourData orderPrefix count s))"
  by (simp add: createSimpleDemoOrders_def split_beta Let_def extendsWith_refl forLoop_extends
        submitSingleLine_extends demo_totals)

lemma createHostDemoOrders_extends:
  "extendsWith wellFormedCall s (snd (createHostDemoOrders env tourData orderPrefix count s))"
  by (simp add: createHostDemoOrders_def split_beta Let_def extendsWith_refl forLoop_extends
        submitSingleLine_extends demo_totals)

lemma createMultiItemDemoOrders_extends:
  "extendsWith wellFormedCall s (snd (createMultiItemDemoOrders env tourData orderPrefix count s))"
  by (simp add: createMultiItemDemoOrders_def split_beta Let_def extendsWith_refl forLoop_extends
        submitMultiItem_extends)

lemma drawQuantities_events [simp]: "events (snd (drawQuantities env skus s)) = events s"
  by (induction skus arbitrary: s) (simp_all add: split_beta)

lemma drawQuantities_shipHero [simp]: "shipHero (snd (drawQuantities env skus s)) = shipHero s"
  by (induction skus arbitrary: s) (simp_all add: split_beta)

lemma poData_fixed: "fixedPurchaseFields (poData now tourData workflowName poLineItems)"
  by (simp add: fixedPurchaseFields_def poData_def list_all_iff)

lemma createPurchaseOrderViaAPI_extends:
  "purchaseTotalsAgree po \<Longrightarrow> fixedPurchaseFields po \<Longrightarrow>
   extendsWith wellFormedCall s (snd (createPurchaseOrderViaAPI env po s))"
  by (auto simp: createPurchaseOrderViaAPI_def Let_def wellFormedCall_def wellFormedRequest_def
        intro!: extendsWith_record extendsWith_refl split: option.splits HttpResponse.splits)

lemma createStandardReceivingPO_extends:
  "extendsWith wellFormedCall s (snd (createStandardReceivingPO env tourData workflowName s))"
proof (cases "length (selected_skus tourData) = 0")
  case True
  then show ?thesis by (simp add: createStandardReceivingPO_def extendsWith_refl)
next
  case False
  let ?d = "drawQuantities env (take 6 (selected_skus tourData)) s"
  let ?c = "createPurchaseOrderViaAPI env (poData (clock env) tourData workflowName (fst ?d)) (snd ?d)"
  have "extendsWith wellFormedCall s (snd ?d)" by (rule extendsWith_same) simp
  moreover have "extendsWith wellFormedCall (snd ?d) (snd ?c)"
    by (rule createPurchaseOrderViaAPI_extends) (rule po_totals, rule poData_fixed)
  ultimately have "extendsWith wellFormedCall s (snd ?c)" by (rule extendsWith_trans)
  with False show ?thesis
    by (simp add: createStandardReceivingPO_def Let_def split_beta split: sum.splits)
qed

subsection \<open>What the handlers append\<close>

lemma wellFormedCall_quiet: "wellFormedCall e \<Longrightarrow> quietEvent e"
  by (cases e) (simp_all add: wellFormedCall_def quietEvent_def)

lemma quiet_block: "quietEvent e \<Longrightarrow> blockEvent e"
  by (cases e) (simp_all add: blockEvent_def quietEvent_def)

lemma quiet_no_handlerCalls: "list_all quietEvent es \<Longrightarrow> handlerCalls es = []"
  by (induction es) (auto simp: quietEvent_def split: event.splits)

lemma quiet_no_statusUpdates: "list_all quietEvent es \<Longrightarrow> statusUpdates es = []"
  by (induction es) (auto simp: quietEvent_def split: event.splits)

lemma block_no_statusUpdates: "list_all blockEvent es \<Longrightarrow> statusUpdates es = []"
  by (induction es) (auto simp: blockEvent_def quietEvent_def split: event.splits)

lemma quiet_orderCalls: "list_all quietEvent es \<Longrightarrow> list_all wellFormedRequest (map fst (orderCalls es))"
  by (induction es) (auto simp: quietEvent_def split: event.splits)

lemma block_orderCalls: "list_all blockEvent es \<Longrightarrow> list_all wellFormedRequest (map fst (orderCalls es))"
  by (induction es) (auto simp: blockEvent_def quietEvent_def split: event.splits)

lemma then_extends:
  assumes "extendsWith P s (snd (f s))" "\<And>x. extendsWith P (snd (f s)) (snd (g x (snd (f s))))"
  shows "extendsWith P s (snd (case f s of (Inl e, s1) \<Rightarrow> (Inl e, s1) | (Inr x, s1) \<Rightarrow> g x s1))"
proof (cases "f s")
  case (Pair r s1)
  show ?thesis
  proof (cases r)
    case (Inl e)
    with Pair assms(1) show ?thesis by simp
  next
    case (Inr x)
    from assms(1) Pair have "extendsWith P s s1" by simp
    moreover from assms(2) [of x] Pair have "extendsWith P s1 (snd (g x s1))" by simp
    ultimately have "extendsWith P s (snd (g x s1))" by (rule extendsWith_trans)
    with Pair Inr show ?thesis by simp
  qed
qed

lemma createReceiveToLightWorkflowOrders_extends:
  "extendsWith wellFormedCall s (snd (createReceiveToLightWorkflowOrders env tourData s))"
  by (simp add: createReceiveToLightWorkflowOrders_def createStandardReceivingPO_extends)

lemma createPackToLightWorkflowOrders_extends:
  "extendsWith wellFormedCall s (snd (createPackToLightWorkflowOrders env tourData s))"
  unfolding createPackToLightWorkflowOrders_def
  apply (rule then_extends)
   apply (rule createParticipantOrders_extends)
  apply (simp only: if_distrib [of snd] if_distrib [of "extendsWith _ _"] split: if_split)
  apply (intro conjI impI)
   apply (rule then_extends)
    apply (rule createHostDemoOrders_extends)
   apply (rule createStandardReceivingPO_extends)
  apply (rule createStandardReceivingPO_extends)
  done

lemma createBulkShippingSOs_extends:
  "extendsWith wellFormedCall s (snd (createBulkShippingSOs env tourData s))"
  unfolding createBulkShippingSOs_def
  apply (rule then_extends)
   apply (rule createParticipantOrders_extends)
  apply (rule then_extends)
   apply (rule createDemoOrders_extends)
  apply (simp add: extendsWith_refl)
  done

lemma createSingleItemBatchSOs_extends:
  "extendsWith wellFormedCall s (snd (createSingleItemBatchSOs env tourData s))"
  unfolding createSingleItemBatchSOs_def
  apply (rule then_extends)
   apply (rule createParticipantOrders_extends)
  apply (rule then_extends)
   apply (rule createDemoOrders_extends)
  apply (simp add: extendsWith_refl)
  done

lemma createMultiItemBatchSOs_extends:
  "extendsWith wellFormedCall s (snd (createMultiItemBatchSOs env tourData s))"
  unfolding createMultiItemBatchSOs_def
  apply (rule then_extends)
   apply (rule createParticipantOrders_extends)
  apply (rule then_extends)
   apply (rule createMultiItemDemoOrders_extends)
  apply (simp add: extendsWith_refl)
  done

subsection \<open>The logic blocks\<close>

lemma blocksFrame_refl: "blocksFrame s s []"
  by (simp add: blocksFrame_def extendsWith_refl newEvents_def)

lemma blocksFrame_trans:
  assumes "blocksFrame s s1 c1" "blocksFrame s1 s2 c2"
  shows "blocksFrame s s2 (c1 @ c2)"
  using assms newEvents_trans [of blockEvent s s1 blockEvent s2]
  by (auto simp: blocksFrame_def intro: extendsWith_trans)

lemma logicBlock_frame:
  assumes h: "\<And>s. extendsWith wellFormedCall s (snd (handler s))"
  shows "blocksFrame (snd st) (snd (logicBlock selectedOptions opt label handler st))
           (if opt \<in> set selectedOptions then [opt] else [])"
proof (cases st)
  case (Pair errs s)
  show ?thesis
  proof (cases "opt \<in> set selectedOptions")
    case False
    with Pair show ?thesis by (simp add: logicBlock_def blocksFrame_refl)
  next
    case True
    let ?s0 = "record_event (HandlerCall opt) s"
    let ?s1 = "snd (handler ?s0)"
    have a: "extendsWith blockEvent s ?s0"
      by (rule extendsWith_record) (simp add: blockEvent_def)
    have b: "extendsWith wellFormedCall ?s0 ?s1" by (rule h)
    then have b': "extendsWith blockEvent ?s0 ?s1"
      by (rule extendsWith_mono) (simp add: wellFormedCall_quiet quiet_block)
    from b have "handlerCalls (newEvents ?s0 ?s1) = []"
      by (auto dest!: extendsWithD intro: wellFormed_no_handlerCalls)
    then have "handlerCalls (newEvents s ?s1) = [opt]"
      by (simp add: newEvents_trans [OF a b'])
    moreover have "extendsWith blockEvent s ?s1" using a b' by (rule extendsWith_trans)
    moreover have "snd (logicBlock selectedOptions opt label handler st) = ?s1"
      using Pair True by (simp add: logicBlock_def split: prod.splits sum.splits)
    ultimately show ?thesis using Pair True by (simp add: blocksFrame_def)
  qed
qed

lemma logicBlocks_frame:
  "blocksFrame s (snd (logicBlocks env tourData selectedOptions s))
     (filter (\<lambda>w. w \<in> set selectedOptions) executionOrder)"
proof -
  let ?b1 = "logicBlock selectedOptions receive_to_light ''Receive-to-Light Workflow''
               (createReceiveToLightWorkflowOrders env tourData) ([], s)"
  let ?b2 = "logicBlock selectedOptions pack_to_light ''Pack-to-Light Workflow''
               (createPackToLightWorkflowOrders env tourData) ?b1"
  let ?b3 = "logicBlock selectedOptions standard_receiving ''Standard Receiving PO''
               (createStandardReceivingPO env tourData ''STANDARD-RECEIVING'') ?b2"
  let ?b4 = "logicBlock selectedOptions bulk_shipping ''Bulk Shipping SOs''
               (createBulkShippingSOs env tourData) ?b3"
  let ?b5 = "logicBlock selectedOptions single_item_batch ''Single-Item Batch SOs''
               (createSingleItemBatchSOs env tourData) ?b4"
  let ?b6 = "logicBlock selectedOptions multi_item_batch ''Multi-Item Batch SOs''
               (createMultiItemBatchSOs env tourData) ?b5"
  let ?c = "\<lambda>w. if w \<in> set selectedOptions then [w] else []"
  have f1: "blocksFrame s (snd ?b1) (?c receive_to_light)"
    using logicBlock_frame [of "createReceiveToLightWorkflowOrders env tourData" "([], s)"]
    by (simp add: createReceiveToLightWorkflowOrders_extends)
  have f2: "blocksFrame (snd ?b1) (snd ?b2) (?c pack_to_light)"
    by (rule logicBlock_frame) (rule createPackToLightWorkflowOrders_extends)
  have f3: "blocksFrame (snd ?b2) (snd ?b3) (?c standard_receiving)"
    by (rule logicBlock_frame) (rule createStandardReceivingPO_extends)
  have f4: "blocksFrame (snd ?b3) (snd ?b4) (?c bulk_shipping)"
    by (rule logicBlock_frame) (rule createBulkShippingSOs_extends)
  have f5: "blocksFrame (snd ?b4) (snd ?b5) (?c single_item_batch)"
    by (rule logicBlock_frame) (rule createSingleItemBatchSOs_extends)
  have f6: "blocksFrame (snd ?b5) (snd ?b6) (?c multi_item_batch)"
    by (rule logicBlock_frame) (rule createMultiItemBatchSOs_extends)
  have "blocksFrame s (snd ?b6)
          (?c receive_to_light @ ?c pack_to_light @ ?c standard_receiving @ ?c bulk_shipping
             @ ?c single_item_batch @ ?c multi_item_batch)"
    by (rule blocksFrame_trans [OF f1 blocksFrame_trans [OF f2 blocksFrame_trans [OF f3
          blocksFrame_trans [OF f4 blocksFrame_trans [OF f5 f6]]]]])
  moreover have "?c receive_to_light @ ?c pack_to_light @ ?c standard_receiving @ ?c bulk_shipping
             @ ?c single_item_batch @ ?c multi_item_batch
           = filter (\<lambda>w. w \<in> set selectedOptions) executionOrder"
    by (simp add: executionOrder_def)
  ultimately show ?thesis by (simp add: logicBlocks_def)
qed

subsection \<open>Session, data loading and status update\<close>

lemma initializeShipHero_extends: "extendsWith quietEvent s (snd (initializeShipHero env s))"
proof -
  have q: "\<And>t. extendsWith quietEvent s (record_event (TokenCall t) s)"
    by (rule extendsWith_record) (simp add: quietEvent_def)
  have q': "\<And>t a. extendsWith quietEvent s (record_event (TokenCall t) s\<lparr>shipHero := Some a\<rparr>)"
    by (rule extendsWithI [where new = "[TokenCall t]" for t]) (simp_all add: quietEvent_def)
  show ?thesis
    by (simp add: initializeShipHero_def Let_def extendsWith_refl q q'
          split: option.splits TokenResponse.splits)
qed

lemma getTourDetails_extends: "extendsWith quietEvent s (snd (getTourDetails env tourId s))"
proof -
  have "\<exists>new. events (snd (getTourDetails env tourId s)) = events s @ new \<and> list_all quietEvent new"
    by (simp add: getTourDetails_def Let_def quietEvent_def split: sum.splits)
  then show ?thesis by (auto intro: extendsWithI)
qed

lemma generateInstructionGuide_extends:
  "extendsWith quietEvent s (snd (generateInstructionGuide env tourId s))"
  using getTourDetails_extends [of s env tourId]
  by (auto simp: generateInstructionGuide_def split: prod.splits sum.splits)

lemma updateTourStatus_events:
  "events (snd (updateTourStatus env tourId status s)) = events s @ [DbUpdate tourId status]"
  by (simp add: updateTourStatus_def Let_def split: option.splits)

section \<open>The paths of \<open>finalizeTour\<close>\<close>

lemma quiet_segment:
  assumes "extendsWith quietEvent s s'"
  shows "handlerCalls (newEvents s s') = []" "statusUpdates (newEvents s s') = []"
        "list_all wellFormedRequest (map fst (orderCalls (newEvents s s')))"
  using assms
  by (auto dest!: extendsWithD intro: quiet_no_handlerCalls quiet_no_statusUpdates quiet_orderCalls)

lemma any_event: "extendsWith P s s' \<Longrightarrow> extendsWith (\<lambda>e. True) s s'"
  by (rule extendsWith_mono) simp_all

lemma before_status_update:
  assumes init: "initializeShipHero env s = (Inr u, s1)"
      and load: "getTourDetails env tourId s1 = (Inr tourData, s2)"
      and blocks: "logicBlocks env tourData selectedOptions s2 = (errs, s3)"
      and guide: "generateInstructionGuide env tourId s3 = (g, s4)"
  shows "extendsWith (\<lambda>e. True) s s4"
    and "handlerCalls (newEvents s s4) = filter (\<lambda>w. w \<in> set selectedOptions) executionOrder"
    and "statusUpdates (newEvents s s4) = []"
    and "list_all wellFormedRequest (map fst (orderCalls (newEvents s s4)))"
proof -
  have e1: "extendsWith quietEvent s s1"
    using initializeShipHero_extends [of s env] init by simp
  have e2: "extendsWith quietEvent s1 s2"
    using getTourDetails_extends [of s1 env tourId] load by simp
  have b: "blocksFrame s2 s3 (filter (\<lambda>w. w \<in> set selectedOptions) executionOrder)"
    using logicBlocks_frame [of s2 env tourData selectedOptions] blocks by simp
  then have e3: "extendsWith blockEvent s2 s3" by (simp add: blocksFrame_def)
  have e4: "extendsWith quietEvent s3 s4"
    using generateInstructionGuide_extends [of s3 env tourId] guide by simp
  note t1 = any_event [OF e1] and t2 = any_event [OF e2] and t3 = any_event [OF e3]
    and t4 = any_event [OF e4]
  have t12: "extendsWith (\<lambda>e. True) s s2" using t1 t2 by (rule extendsWith_trans)
  have t13: "extendsWith (\<lambda>e. True) s s3" using t12 t3 by (rule extendsWith_trans)
  show t14: "extendsWith (\<lambda>e. True) s s4" using t13 t4 by (rule extendsWith_trans)
  have split: "newEvents s s4 = newEvents s s1 @ newEvents s1 s2 @ newEvents s2 s3 @ newEvents s3 s4"
    using newEvents_trans [OF t13 t4] newEvents_trans [OF t12 t3] newEvents_trans [OF t1 t2]
    by simp
  from e3 have l3: "list_all blockEvent (newEvents s2 s3)" by (auto dest: extendsWithD)
  show "handlerCalls (newEvents s s4) = filter (\<lambda>w. w \<in> set selectedOptions) executionOrder"
    using b by (simp add: split quiet_segment [OF e1] quiet_segment [OF e2] quiet_segment [OF e4]
        blocksFrame_def)
  show "statusUpdates (newEvents s s4) = []"
    by (simp add: split quiet_segment [OF e1] quiet_segment [OF e2] quiet_segment [OF e4]
        block_no_statusUpdates [OF l3])
  show "list_all wellFormedRequest (map fst (orderCalls (newEvents s s4)))"
    by (simp add: split quiet_segment [OF e1] quiet_segment [OF e2] quiet_segment [OF e4]
        block_orderCalls [OF l3])
qed

lemma with_status_update:
  assumes "extendsWith (\<lambda>e. True) s s4"
      and "updateTourStatus env tourId status s4 = (r, s5)"
  shows "newEvents s s5 = newEvents s s4 @ [DbUpdate tourId status]"
proof -
  from assms(1) have a: "events s4 = events s @ newEvents s s4" by (auto dest: extendsWithD)
  from assms(2) have "events s5 = events s4 @ [DbUpdate tourId status]"
    using updateTourStatus_events [of env tourId status s4] by simp
  with a have "events s5 = events s @ (newEvents s s4 @ [DbUpdate tourId status])" by simp
  then show ?thesis by (simp add: newEvents_def [of s s5])
qed

lemma finalizeTour_cases [case_names session loading guide status returned]:
  obtains
    (session) e s1 where
      "initializeShipHero env s = (Inl e, s1)"
      "finalizeTour env tourId selectedOptions s = (finalizationFailed e [], s1)"
      "extendsWith quietEvent s s1"
  | (loading) u s1 e s2 where
      "initializeShipHero env s = (Inr u, s1)"
      "getTourDetails env tourId s1 = (Inl e, s2)"
      "finalizeTour env tourId selectedOptions s = (finalizationFailed e [], s2)"
      "extendsWith quietEvent s s2"
  | (guide) u s1 tourData s2 errs s3 e s4 where
      "initializeShipHero env s = (Inr u, s1)"
      "getTourDetails env tourId s1 = (Inr tourData, s2)"
      "logicBlocks env tourData selectedOptions s2 = (errs, s3)"
      "generateInstructionGuide env tourId s3 = (Inl e, s4)"
      "finalizeTour env tourId selectedOptions s = (finalizationFailed e errs, s4)"
  | (status) u s1 tourData s2 errs s3 guide s4 e s5 where
      "initializeShipHero env s = (Inr u, s1)"
      "getTourDetails env tourId s1 = (Inr tourData, s2)"
      "logicBlocks env tourData selectedOptions s2 = (errs, s3)"
      "generateInstructionGuide env tourId s3 = (Inr guide, s4)"
      "updateTourStatus env tourId ''finalized'' s4 = (Inl e, s5)"
      "finalizeTour env tourId selectedOptions s = (finalizationFailed e errs, s5)"
  | (returned) u s1 tourData s2 errs s3 guide s4 u' s5 where
      "initializeShipHero env s = (Inr u, s1)"
      "getTourDetails env tourId s1 = (Inr tourData, s2)"
      "logicBlocks env tourData selectedOptions s2 = (errs, s3)"
      "generateInstructionGuide env tourId s3 = (Inr guide, s4)"
      "updateTourStatus env tourId ''finalized'' s4 = (Inr u', s5)"
      "finalizeTour env tourId selectedOptions s
         = (finalized (clock env) tourData selectedOptions errs guide, s5)"
proof -
  obtain r1 s1 where i: "initializeShipHero env s = (r1, s1)" by fastforce
  show thesis
  proof (cases r1)
    case (Inl e)
    with i show thesis
      using initializeShipHero_extends [of s env]
      by (intro session [of e s1]) (simp_all add: finalizeTour_def)
  next
    case (Inr u)
    note r1 = this
    obtain r2 s2 where l: "getTourDetails env tourId s1 = (r2, s2)" by fastforce
    have q1: "extendsWith quietEvent s s1" using initializeShipHero_extends [of s env] i by simp
    have q2: "extendsWith quietEvent s1 s2" using getTourDetails_extends [of s1 env tourId] l by simp
    show thesis
    proof (cases r2)
      case (Inl e)
      with i r1 l show thesis
        using extendsWith_trans [OF q1 q2]
        by (intro loading [of u s1 e s2]) (simp_all add: finalizeTour_def)
    next
      case (Inr tourData)
      note r2 = this
      obtain errs s3 where b: "logicBlocks env tourData selectedOptions s2 = (errs, s3)"
        by fastforce
      obtain r4 s4 where g: "generateInstructionGuide env tourId s3 = (r4, s4)" by fastforce
      show thesis
      proof (cases r4)
        case (Inl e)
        with i r1 l r2 b g show thesis
          by (intro guide [of u s1 tourData s2 errs s3 e s4]) (simp_all add: finalizeTour_def)
      next
        case (Inr guideText)
        note r4 = this
        obtain r5 s5 where up: "updateTourStatus env tourId ''finalized'' s4 = (r5, s5)"
          by fastforce
        show thesis
        proof (cases r5)
          case (Inl e)
          with i r1 l r2 b g r4 up show thesis
            by (intro status [of u s1 tourData s2 errs s3 guideText s4 e s5])
               (simp_all add: finalizeTour_def)
        next
          case (Inr u')
          with i r1 l r2 b g r4 up show thesis
            by (intro returned [of u s1 tourData s2 errs s3 guideText s4 u' s5])
               (simp_all add: finalizeTour_def)
        qed
      qed
    qed
  qed
qed

section \<open>Properties of a finalize call\<close>

lemma salesRequests_wellFormed:
  "list_all wellFormedRequest (map fst (orderCalls es)) \<Longrightarrow> list_all salesTotalsAgree (salesRequests es)"
  by (induction es) (auto simp: wellFormedRequest_def split: event.splits ApiRequest.splits)

lemma purchaseRequests_wellFormed:
  "list_all wellFormedRequest (map fst (orderCalls es)) \<Longrightarrow>
   list_all purchaseTotalsAgree (purchaseRequests es) \<and> list_all fixedPurchaseFields (purchaseRequests es)"
  by (induction es) (auto simp: wellFormedRequest_def split: event.splits ApiRequest.splits)

lemma orderCalls_snoc_update [simp]: "orderCalls (es @ [DbUpdate a b]) = orderCalls es"
  by simp

lemma finalizeTour_requests:
  "list_all wellFormedRequest
     (map fst (orderCalls (newEvents s (snd (finalizeTour env tourId selectedOptions s)))))"
proof (cases rule: finalizeTour_cases [of env s tourId selectedOptions])
  case (session e s1)
  then show ?thesis by (simp add: quiet_segment)
next
  case (loading u s1 e s2)
  then show ?thesis by (simp add: quiet_segment)
next
  case (guide u s1 tourData s2 errs s3 e s4)
  then show ?thesis using before_status_update(4) [OF guide(1-4)] by simp
next
  case (status u s1 tourData s2 errs s3 guide s4 e s5)
  from before_status_update(1) [OF status(1-4)] status(5)
  have "newEvents s s5 = newEvents s s4 @ [DbUpdate tourId ''finalized'']"
    by (rule with_status_update)
  then show ?thesis using before_status_update(4) [OF status(1-4)] status(6) by simp
next
  case (returned u s1 tourData s2 errs s3 guide s4 u' s5)
  from before_status_update(1) [OF returned(1-4)] returned(5)
  have "newEvents s s5 = newEvents s s4 @ [DbUpdate tourId ''finalized'']"
    by (rule with_status_update)
  then show ?thesis using before_status_update(4) [OF returned(1-4)] returned(6) by simp
qed

text \<open>
  Claim C3. In every finalize call the handlers that run are the selected ones, each once,
  in the order receive-to-light, pack-to-light, standard-receiving, bulk-shipping,
  single-item-batch, multi-item-batch, whatever the order (or repetition) of the argument
  \<open>selectedOptions\<close>; when session setup or the first data loading fails, none runs.
\<close>

theorem finalize_execution_order:
  "handlerCalls (newEvents s (snd (finalizeTour env tourId selectedOptions s)))
     = (if handlersAllowed env tourId s
        then filter (\<lambda>w. w \<in> set selectedOptions) executionOrder else [])"
proof (cases rule: finalizeTour_cases [of env s tourId selectedOptions])
  case (session e s1)
  then show ?thesis by (simp add: quiet_segment handlersAllowed_def)
next
  case (loading u s1 e s2)
  then show ?thesis by (simp add: quiet_segment handlersAllowed_def)
next
  case (guide u s1 tourData s2 errs s3 e s4)
  then show ?thesis
    using before_status_update(2) [OF guide(1-4)] by (simp add: handlersAllowed_def)
next
  case (status u s1 tourData s2 errs s3 guide s4 e s5)
  from before_status_update(1) [OF status(1-4)] status(5)
  have "newEvents s s5 = newEvents s s4 @ [DbUpdate tourId ''finalized'']"
    by (rule with_status_update)
  then show ?thesis
    using before_status_update(2) [OF status(1-4)] status by (simp add: handlersAllowed_def)
next
  case (returned u s1 tourData s2 errs s3 guide s4 u' s5)
  from before_status_update(1) [OF returned(1-4)] returned(5)
  have "newEvents s s5 = newEvents s s4 @ [DbUpdate tourId ''finalized'']"
    by (rule with_status_update)
  then show ?thesis
    using before_status_update(2) [OF returned(1-4)] returned by (simp add: handlersAllowed_def)
qed

text \<open>
  Claim C4. When session initialization fails, \<open>finalizeTour\<close> returns \<open>success = false\<close>,
  exactly one error (the top-level one), no guide and no structured result; no handler was
  invoked and no status update was issued.
\<close>

theorem session_failure_fails_fast:
  assumes "fst (initializeShipHero env s) = Inl e"
  shows "fst (finalizeTour env tourId selectedOptions s)
           = \<lparr> success = False,
               message = ''Tour finalization failed: '' @ e,
               errors = [''Tour finalization failed: '' @ e],
               instructionGuide = None,
               finalizationResult = None \<rparr>
         \<and> statusUpdates (newEvents s (snd (finalizeTour env tourId selectedOptions s))) = []
         \<and> handlerCalls (newEvents s (snd (finalizeTour env tourId selectedOptions s))) = []"
proof -
  obtain s1 where i: "initializeShipHero env s = (Inl e, s1)"
    using assms by (cases "initializeShipHero env s") simp
  then have f: "finalizeTour env tourId selectedOptions s = (finalizationFailed e [], s1)"
    by (simp add: finalizeTour_def)
  have "extendsWith quietEvent s s1" using initializeShipHero_extends [of s env] i by simp
  then show ?thesis by (simp add: f finalizationFailed_def Let_def quiet_segment)
qed

text \<open>
  Claim C5, as the code has it. When session setup and data loading succeed, the handlers
  run and the guide generator loads the tour a second time. If that succeeds, the call
  issues exactly one status update, of the tour to \<open>finalized\<close>; it is the last event of
  the call, after every selected handler has run, whatever errors \<open>errs\<close> the handlers
  produced. If it fails, the call ends in its outer catch: the selected handlers have run
  and no status update is issued.
\<close>

theorem status_written_once_after_handlers:
  assumes init: "initializeShipHero env s = (Inr u, s1)"
      and load: "getTourDetails env tourId s1 = (Inr tourData, s2)"
      and blocks: "logicBlocks env tourData selectedOptions s2 = (errs, s3)"
  shows "(case fst (getTourDetails env tourId s3) of
            Inr tourData' \<Rightarrow>
              statusUpdates (newEvents s (snd (finalizeTour env tourId selectedOptions s)))
                = [(tourId, ''finalized'')]
              \<and> last (newEvents s (snd (finalizeTour env tourId selectedOptions s)))
                = DbUpdate tourId ''finalized''
              \<and> handlerCalls (butlast (newEvents s (snd (finalizeTour env tourId selectedOptions s))))
                = filter (\<lambda>w. w \<in> set selectedOptions) executionOrder
          | Inl e \<Rightarrow>
              statusUpdates (newEvents s (snd (finalizeTour env tourId selectedOptions s))) = []
              \<and> handlerCalls (newEvents s (snd (finalizeTour env tourId selectedOptions s)))
                = filter (\<lambda>w. w \<in> set selectedOptions) executionOrder
              \<and> fst (finalizeTour env tourId selectedOptions s) = finalizationFailed e errs)"
proof (cases "getTourDetails env tourId s3")
  case (Pair r s4)
  show ?thesis
  proof (cases r)
    case (Inl e)
    with Pair have g: "generateInstructionGuide env tourId s3 = (Inl e, s4)"
      by (simp add: generateInstructionGuide_def)
    have f: "finalizeTour env tourId selectedOptions s = (finalizationFailed e errs, s4)"
      using init load blocks g by (simp add: finalizeTour_def)
    show ?thesis
      using before_status_update(2,3) [OF init load blocks g] Pair Inl by (simp add: f)
  next
    case (Inr tourData')
    let ?guide = "concat (guidePieces (clock env) tourData')"
    from Pair Inr have g: "generateInstructionGuide env tourId s3 = (Inr ?guide, s4)"
      by (simp add: generateInstructionGuide_def)
    obtain r5 s5 where up: "updateTourStatus env tourId ''finalized'' s4 = (r5, s5)" by fastforce
    have "snd (finalizeTour env tourId selectedOptions s) = s5"
      using init load blocks g up by (cases r5) (simp_all add: finalizeTour_def)
    moreover from before_status_update(1) [OF init load blocks g] up
    have "newEvents s s5 = newEvents s s4 @ [DbUpdate tourId ''finalized'']"
      by (rule with_status_update)
    ultimately show ?thesis
      using before_status_update(2,3) [OF init load blocks g] Pair Inr by simp
  qed
qed

text \<open>
  Claim C6, as the code has it. In every finalize call \<open>success\<close> holds exactly when the
  returned error list is empty. When the call returns from its try block (it returns a
  guide) with a nonempty list, the message reports the number of errors. When it returns
  from the outer catch (no guide), also after the handlers completed, the message is the
  top-level failure, the first element of the list.
\<close>

theorem success_iff_no_errors:
  "(success (fst (finalizeTour env tourId selectedOptions s))
      \<longleftrightarrow> errors (fst (finalizeTour env tourId selectedOptions s)) = [])
   \<and> (instructionGuide (fst (finalizeTour env tourId selectedOptions s)) \<noteq> None
        \<and> errors (fst (finalizeTour env tourId selectedOptions s)) \<noteq> []
      \<longrightarrow> message (fst (finalizeTour env tourId selectedOptions s))
            = errorCountMessage (length (errors (fst (finalizeTour env tourId selectedOptions s)))))
   \<and> (instructionGuide (fst (finalizeTour env tourId selectedOptions s)) = None
      \<longrightarrow> errors (fst (finalizeTour env tourId selectedOptions s)) \<noteq> []
          \<and> message (fst (finalizeTour env tourId selectedOptions s))
            = hd (errors (fst (finalizeTour env tourId selectedOptions s))))"
  by (cases rule: finalizeTour_cases [of env s tourId selectedOptions])
     (simp_all add: finalizationFailed_def finalized_def Let_def errorCountMessage_def)

text \<open>
  Claim C8. In every order request that a finalize call submits (participant, demo,
  multi-item demo and host-demo sales orders, purchase orders) \<open>subtotal\<close> and
  \<open>total_price\<close> are the same string, and its value is the sum over the line items of
  quantity times unit price.
\<close>

theorem submitted_totals_agree:
  "list_all salesTotalsAgree
     (salesRequests (newEvents s (snd (finalizeTour env tourId selectedOptions s))))
   \<and> list_all purchaseTotalsAgree
     (purchaseRequests (newEvents s (snd (finalizeTour env tourId selectedOptions s))))"
  using finalizeTour_requests [of s env tourId selectedOptions]
  by (simp add: salesRequests_wellFormed purchaseRequests_wellFormed)

text \<open>
  Claim C9. Every purchase-order request that a finalize call submits has subtotal, tax,
  shipping price, total price and discount \<open>"0.00"\<close>, vendor \<open>"1076735"\<close>, and line items
  priced \<open>"0.00"\<close>, named by their SKU, with nothing received and nothing rejected,
  whatever the tour data.
\<close>

theorem purchase_orders_fixed_fields:
  "list_all fixedPurchaseFields
     (purchaseRequests (newEvents s (snd (finalizeTour env tourId selectedOptions s))))"
  using finalizeTour_requests [of s env tourId selectedOptions]
  by (simp add: purchaseRequests_wellFormed)

section \<open>Batches of submissions in the trace\<close>

lemma rejections_salesOutcome:
  "rejections (map salesOutcome rs)
     = map (\<lambda>r. (fst r, salesRejection r)) (filter (\<lambda>r. \<not> httpOk r) rs)"
  by (induction rs)
     (auto simp: salesOutcome_def httpOk_def salesRejection_def split: HttpResponse.splits)

lemma fulfilments_salesOutcome:
  "list_all httpOk rs \<Longrightarrow> successful (fulfilments (map salesOutcome rs)) = createdOrders rs"
  by (induction rs rule: createdOrders.induct)
     (auto simp: successful_def salesOutcome_def httpOk_def split: option.splits)

lemma arg_min_list_map_fst:
  assumes "\<And>x. fst (g x) = fst x" and "xs \<noteq> []"
  shows "arg_min_list fst (map g xs) = g (arg_min_list fst xs)"
  using assms(2)
proof (induction xs rule: list_nonempty_induct)
  case (single x)
  show ?case by simp
next
  case (cons x xs)
  from cons(1) obtain y ys where "xs = y # ys" by (cases xs) auto
  with cons(2) show ?case by (simp add: Let_def assms(1))
qed

lemma all_ok_none_rejected: "list_all httpOk rs \<Longrightarrow> filter (\<lambda>r. \<not> httpOk r) rs = []"
  by (simp add: filter_empty_conv list_all_iff)

lemma awaitOrders_settled: "awaitOrders (map salesOutcome rs) = settledSalesBatch rs"
proof (cases "list_all httpOk rs")
  case True
  then show ?thesis
    by (simp add: awaitOrders_def promiseAll_def rejections_salesOutcome all_ok_none_rejected
          fulfilments_salesOutcome settledSalesBatch_def)
next
  case False
  then obtain r rs' where f: "filter (\<lambda>r. \<not> httpOk r) rs = r # rs'"
    by (cases "filter (\<lambda>r. \<not> httpOk r) rs") (auto simp: filter_empty_conv list_all_iff)
  have "arg_min_list fst (map (\<lambda>r. (fst r, salesRejection r)) (r # rs'))
          = (\<lambda>r. (fst r, salesRejection r)) (arg_min_list fst (r # rs'))"
    by (rule arg_min_list_map_fst) simp_all
  then have "snd (arg_min_list fst (map (\<lambda>r. (fst r, salesRejection r)) (r # rs')))
          = salesRejection (arg_min_list fst (r # rs'))"
    by simp
  with False f show ?thesis
    by (simp add: awaitOrders_def promiseAll_def rejections_salesOutcome settledSalesBatch_def
          firstRejected_def del: arg_min_list.simps)
qed

lemma createSalesOrderViaAPI_call:
  assumes "shipHero s = Some token"
  shows "createSalesOrderViaAPI env orderData s
           = (salesOutcome (orders_api env (moment s) token (SalesOrderRequest orderData)),
              record_event (salesCall token
                (orderData, orders_api env (moment s) token (SalesOrderRequest orderData))) s)"
  using assms
  by (simp add: createSalesOrderViaAPI_def Let_def salesOutcome_def salesCall_def
        split: HttpResponse.splits)

lemma forLoop_submissions:
  assumes tok: "shipHero s = Some token"
      and step: "\<And>i s. shipHero s = Some token \<Longrightarrow>
                 \<exists>orderData s0. events s0 = events s \<and> shipHero s0 = Some token
                   \<and> body i s = createSalesOrderViaAPI env orderData s0 \<and> P orderData"
  shows "\<exists>calls. length calls = n
           \<and> events (snd (forLoop i n body s)) = events s @ map (salesCall token) calls
           \<and> fst (forLoop i n body s) = map (salesOutcome \<circ> snd) calls
           \<and> shipHero (snd (forLoop i n body s)) = Some token
           \<and> list_all P (map fst calls)"
  using tok
proof (induction n arbitrary: i s)
  case 0
  then show ?case by simp
next
  case (Suc n)
  from step [OF Suc.prems, of i] obtain orderData s0 where
    s0: "events s0 = events s" "shipHero s0 = Some token"
    and b: "body i s = createSalesOrderViaAPI env orderData s0" and p: "P orderData"
    by blast
  define response where "response = orders_api env (moment s0) token (SalesOrderRequest orderData)"
  have c: "createSalesOrderViaAPI env orderData s0
          = (salesOutcome response, record_event (salesCall token (orderData, response)) s0)"
    unfolding response_def by (rule createSalesOrderViaAPI_call [OF s0(2)])
  let ?s1 = "record_event (salesCall token (orderData, response)) s0"
  have t1: "shipHero ?s1 = Some token" using s0 by simp
  from Suc.IH [OF t1, of "Suc i"] obtain calls where
    r: "length calls = n"
       "events (snd (forLoop (Suc i) n body ?s1)) = events ?s1 @ map (salesCall token) calls"
       "fst (forLoop (Suc i) n body ?s1) = map (salesOutcome \<circ> snd) calls"
       "shipHero (snd (forLoop (Suc i) n body ?s1)) = Some token"
       "list_all P (map fst calls)"
    by blast
  show ?case
    by (rule exI [where x = "(orderData, response) # calls"])
       (use b c r p s0 in \<open>simp add: split_beta\<close>)
qed

lemma orderCalls_salesCalls [simp]:
  "orderCalls (map (salesCall token) calls) = map (\<lambda>c. (SalesOrderRequest (fst c), snd c)) calls"
  by (induction calls) (simp_all add: salesCall_def)

lemma salesRequests_salesCalls [simp]: "salesRequests (map (salesCall token) calls) = map fst calls"
  by (induction calls) (simp_all add: salesCall_def)

lemma purchaseRequests_salesCalls [simp]: "purchaseRequests (map (salesCall token) calls) = []"
  by (induction calls) (simp_all add: salesCall_def)

lemma responses_salesCalls [simp]: "responses (map (salesCall token) calls) = map snd calls"
  by (simp add: responses_def comp_def)

lemma batch_of_loop:
  assumes tok: "shipHero s = Some token"
      and step: "\<And>i s. shipHero s = Some token \<Longrightarrow>
                 \<exists>orderData s0. events s0 = events s \<and> shipHero s0 = Some token
                   \<and> body i s = createSalesOrderViaAPI env orderData s0 \<and> P orderData"
  shows "batchShape token P n s
           (case forLoop 0 n body s of (orderPromises, s') \<Rightarrow> (awaitOrders orderPromises, s'))"
proof -
  from forLoop_submissions [of s token body env P n 0, OF tok step] obtain calls where
    "length calls = n"
    "events (snd (forLoop 0 n body s)) = events s @ map (salesCall token) calls"
    "fst (forLoop 0 n body s) = map (salesOutcome \<circ> snd) calls"
    "shipHero (snd (forLoop 0 n body s)) = Some token"
    "list_all P (map fst calls)"
    by blast
  then show ?thesis
    unfolding batchShape_def
    by (intro exI [where x = calls])
       (simp add: split_beta awaitOrders_settled [symmetric] comp_def)
qed

lemma submitSingleLine_step:
  assumes "shipHero s = Some token" "\<And>i q p. P (orderData i q p)"
  shows "\<exists>od s0. events s0 = events s \<and> shipHero s0 = Some token
           \<and> submitSingleLine env orderData i s = createSalesOrderViaAPI env od s0 \<and> P od"
  by (intro exI [where x = "orderData i (fst (randomInt env 3 1 s))
                              (fst (randomInt env 3 1 (snd (randomInt env 3 1 s))))"]
            exI [where x = "snd (randomInt env 3 1 (snd (randomInt env 3 1 s)))"])
     (simp add: submitSingleLine_def split_beta assms)

lemma submitMultiItem_step:
  assumes "shipHero s = Some token"
  shows "\<exists>od s0. events s0 = events s \<and> shipHero s0 = Some token
           \<and> submitMultiItem env tourData orderPrefix celebrities i s
               = createSalesOrderViaAPI env od s0 \<and> True"
proof -
  let ?s1 = "snd (randomInt env 3 2 s)"
  let ?n = "min (fst (randomInt env 3 2 s)) (length (selected_skus tourData))"
  let ?loop = "forLoop 0 ?n (drawMultiLineItem env tourData i) ?s1"
  show ?thesis
    by (intro exI [where x = "multiItemOrderData env tourData orderPrefix celebrities i
                                (fst ?loop)"]
              exI [where x = "snd ?loop"])
       (simp add: submitMultiItem_def split_beta Let_def forLoop_events_same
          forLoop_shipHero_same assms)
qed

lemma participant_step:
  assumes "shipHero s = Some token"
  shows "\<exists>od s0. events s0 = events s \<and> shipHero s0 = Some token
           \<and> createSalesOrderViaAPI env (participantOrderData now tourData orderPrefix i) s
               = createSalesOrderViaAPI env od s0
           \<and> length (so_line_items od) = min 3 (length (selected_skus tourData))"
  by (intro exI [where x = "participantOrderData now tourData orderPrefix i"] exI [where x = s])
     (simp add: assms participantOrderData_def participantLineItems_def Let_def min.commute)

lemma createParticipantOrders_batch:
  assumes "shipHero s = Some token" "selected_skus tourData \<noteq> []"
  shows "batchShape token (\<lambda>od. length (so_line_items od) = min 3 (length (selected_skus tourData)))
           (length (participants tourData)) s
           (createParticipantOrders env tourData orderPrefix s)"
proof (cases "participants tourData = []")
  case True
  with assms show ?thesis
    by (simp add: createParticipantOrders_def batchShape_def settledSalesBatch_def)
next
  case False
  have "batchShape token (\<lambda>od. length (so_line_items od) = min 3 (length (selected_skus tourData)))
          (length (participants tourData)) s
          (case forLoop 0 (length (participants tourData))
                  (\<lambda>i. createSalesOrderViaAPI env
                          (participantOrderData (clock env) tourData orderPrefix i)) s of
             (orderPromises, s') \<Rightarrow> (awaitOrders orderPromises, s'))"
    by (rule batch_of_loop [OF assms(1)]) (rule participant_step)
  with False assms(2) show ?thesis by (simp add: createParticipantOrders_def)
qed

lemma demo_single_line:
  "length (so_line_items (demoOrderData env tourData orderPrefix celebrities i q p)) = 1"
  "length (so_line_items (simpleDemoOrderData now tourData orderPrefix i q p)) = 1"
  "length (so_line_items (hostDemoOrderData now tourData orderPrefix i q p)) = 1"
  by (simp_all add: demoOrderData_def simpleDemoOrderData_def hostDemoOrderData_def
        singleLineOrderData_def)

lemma createDemoOrders_batch:
  assumes "shipHero s = Some token" "selected_skus tourData \<noteq> []"
  shows "batchShape token (\<lambda>od. length (so_line_items od) = 1) count s
           (createDemoOrders env tourData orderPrefix count s)"
proof -
  have "batchShape token (\<lambda>od. length (so_line_items od) = 1) count s
          (case forLoop 0 count
                  (submitSingleLine env (demoOrderData env tourData orderPrefix (getCelebrityNames env (moment s) count))) s of
             (orderPromises, s') \<Rightarrow> (awaitOrders orderPromises, s'))"
    by (rule batch_of_loop [OF assms(1)]) (rule submitSingleLine_step, assumption, rule demo_single_line)
  with assms(2) show ?thesis by (simp add: createDemoOrders_def Let_def)
qed

lemma createSimpleDemoOrders_batch:
  assumes "shipHero s = Some token" "selected_skus tourData \<noteq> []"
  shows "batchShape token (\<lambda>od. length (so_line_items od) = 1) count s
           (createSimpleDemoOrders env tourData orderPrefix count s)"
proof -
  have "batchShape token (\<lambda>od. length (so_line_items od) = 1) count s
          (case forLoop 0 count
                  (submitSingleLine env (simpleDemoOrderData (clock env) tourData orderPrefix)) s of
             (orderPromises, s') \<Rightarrow> (awaitOrders orderPromises, s'))"
    by (rule batch_of_loop [OF assms(1)]) (rule submitSingleLine_step, assumption, rule demo_single_line)
  with assms(2) show ?thesis by (simp add: createSimpleDemoOrders_def Let_def)
qed

lemma createHostDemoOrders_batch:
  assumes "shipHero s = Some token" "selected_skus tourData \<noteq> []"
  shows "batchShape token (\<lambda>od. length (so_line_items od) = 1) count s
           (createHostDemoOrders env tourData orderPrefix count s)"
proof -
  have "batchShape token (\<lambda>od. length (so_line_items od) = 1) count s
          (case forLoop 0 count
                  (submitSingleLine env (hostDemoOrderData (clock env) tourData orderPrefix)) s of
             (orderPromises, s') \<Rightarrow> (awaitOrders orderPromises, s'))"
    by (rule batch_of_loop [OF assms(1)]) (rule submitSingleLine_step, assumption, rule demo_single_line)
  with assms(2) show ?thesis by (simp add: createHostDemoOrders_def Let_def)
qed

lemma createMultiItemDemoOrders_batch:
  assumes "shipHero s = Some token" "selected_skus tourData \<noteq> []"
  shows "batchShape token (\<lambda>od. True) count s
           (createMultiItemDemoOrders env tourData orderPrefix count s)"
proof -
  have "batchShape token (\<lambda>od. True) count s
          (case forLoop 0 count
                  (submitMultiItem env tourData orderPrefix (getCelebrityNames env (moment s) count)) s of
             (orderPromises, s') \<Rightarrow> (awaitOrders orderPromises, s'))"
    by (rule batch_of_loop [OF assms(1)]) (rule submitMultiItem_step)
  with assms(2) show ?thesis by (simp add: createMultiItemDemoOrders_def Let_def)
qed

lemma settled_all_ok: "list_all httpOk rs \<Longrightarrow> settledSalesBatch rs = Inr (createdOrders rs)"
  by (simp add: settledSalesBatch_def)

lemma settled_rejected:
  "\<not> list_all httpOk rs \<Longrightarrow> settledSalesBatch rs = Inl (salesRejection (firstRejected rs))"
  by (simp add: settledSalesBatch_def)

lemma created_count:
  "list_all httpOk rs \<Longrightarrow>
   length (createdOrders rs) + length (filter (\<lambda>r. \<not> carriesOrder r) rs) = length rs"
  by (induction rs rule: createdOrders.induct)
     (auto simp: httpOk_def carriesOrder_def split: option.splits)

lemma created_all: "list_all carriesOrder rs \<Longrightarrow> length (createdOrders rs) = length rs"
  by (induction rs rule: createdOrders.induct) (auto simp: carriesOrder_def split: option.splits)

lemma carries_ok: "list_all carriesOrder rs \<Longrightarrow> list_all httpOk rs"
  by (auto simp: list_all_iff carriesOrder_def httpOk_def split: HttpResponse.splits)

lemma responses_append [simp]: "responses (xs @ ys) = responses xs @ responses ys"
  by (simp add: responses_def)

lemma salesRequests_append [simp]: "salesRequests (xs @ ys) = salesRequests xs @ salesRequests ys"
  by (induction xs) (simp_all split: event.splits ApiRequest.splits)

lemma purchaseRequests_append [simp]:
  "purchaseRequests (xs @ ys) = purchaseRequests xs @ purchaseRequests ys"
  by (induction xs) (simp_all split: event.splits ApiRequest.splits)

lemma newEvents_of_events: "events s' = events s @ new \<Longrightarrow> newEvents s s' = new"
  by (simp add: newEvents_def)

lemma batchShape_rule:
  assumes "batchShape token P n s outcome"
  shows "salesBatchRule n s outcome"
proof -
  from assms obtain calls where c: "length calls = n"
    "events (snd outcome) = events s @ map (salesCall token) calls"
    "fst outcome = settledSalesBatch (map snd calls)"
    unfolding batchShape_def by blast
  have r: "responses (newEvents s (snd outcome)) = map snd calls"
    by (simp add: newEvents_of_events [OF c(2)])
  show ?thesis
    unfolding salesBatchRule_def Let_def r
    using c(1,3) created_count [of "map snd calls"]
    by (simp add: settled_all_ok settled_rejected)
qed

text \<open>The handlers that submit the participant batch and then one more batch.\<close>

lemma participants_then_batch:
  assumes tok: "shipHero s = Some token" and skus: "selected_skus tourData \<noteq> []"
      and second: "\<And>s1. shipHero s1 = Some token \<Longrightarrow> batchShape token Q n s1 (g s1)"
      and h: "outcome = (case createParticipantOrders env tourData orderPrefix s of
                 (Inl e, s1) \<Rightarrow> (Inl e, s1)
               | (Inr participantOrders, s1) \<Rightarrow>
                   (case g s1 of (Inl e, s2) \<Rightarrow> (Inl e, s2) | (Inr demoOrders, s2) \<Rightarrow> (Inr (), s2)))"
  shows "\<exists>calls1 calls2.
           length calls1 = length (participants tourData)
         \<and> list_all (\<lambda>od. length (so_line_items od) = min 3 (length (selected_skus tourData)))
             (map fst calls1)
         \<and> length calls2 = n \<and> list_all Q (map fst calls2)
         \<and> (if list_all httpOk (map snd calls1)
            then events (snd outcome) = events s @ map (salesCall token) (calls1 @ calls2)
                 \<and> fst outcome = (case settledSalesBatch (map snd calls2) of
                                     Inl e \<Rightarrow> Inl e | Inr demoOrders \<Rightarrow> Inr ())
            else events (snd outcome) = events s @ map (salesCall token) calls1
                 \<and> fst outcome = Inl (salesRejection (firstRejected (map snd calls1))))"
proof -
  obtain r1 s1 where p: "createParticipantOrders env tourData orderPrefix s = (r1, s1)"
    by fastforce
  from createParticipantOrders_batch [OF tok skus, of env orderPrefix] p
  obtain calls1 where c1: "length calls1 = length (participants tourData)"
    "events s1 = events s @ map (salesCall token) calls1"
    "r1 = settledSalesBatch (map snd calls1)"
    "shipHero s1 = Some token"
    "list_all (\<lambda>od. length (so_line_items od) = min 3 (length (selected_skus tourData)))
       (map fst calls1)"
    unfolding batchShape_def by auto
  obtain r2 s2 where g: "g s1 = (r2, s2)" by fastforce
  from second [OF c1(4)] g
  obtain calls2 where c2: "length calls2 = n"
    "events s2 = events s1 @ map (salesCall token) calls2"
    "r2 = settledSalesBatch (map snd calls2)"
    "list_all Q (map fst calls2)"
    unfolding batchShape_def by auto
  show ?thesis
  proof (cases "list_all httpOk (map snd calls1)")
    case True
    then have "r1 = Inr (createdOrders (map snd calls1))" using c1(3) by (simp add: settled_all_ok)
    with h p g have "outcome = (case r2 of Inl e \<Rightarrow> (Inl e, s2) | Inr d \<Rightarrow> (Inr (), s2))"
      by simp
    then have "snd outcome = s2" "fst outcome = (case r2 of Inl e \<Rightarrow> Inl e | Inr d \<Rightarrow> Inr ())"
      by (simp_all split: sum.splits)
    with True c1 c2 show ?thesis
      by (intro exI [where x = calls1] exI [where x = calls2]) simp
  next
    case False
    then have "r1 = Inl (salesRejection (firstRejected (map snd calls1)))"
      using c1(3) by (simp add: settled_rejected)
    with h p have "outcome = (Inl (salesRejection (firstRejected (map snd calls1))), s1)"
      by simp
    with False c1 c2 show ?thesis
      by (intro exI [where x = calls1] exI [where x = calls2]) simp
  qed
qed

lemma createStandardReceivingPO_rule:
  assumes "shipHero s = Some token" "selected_skus tourData \<noteq> []"
  shows "purchaseOrderRule workflowName s (createStandardReceivingPO env tourData workflowName s)"
proof -
  let ?d = "drawQuantities env (take 6 (selected_skus tourData)) s"
  let ?po = "poData (clock env) tourData workflowName (fst ?d)"
  let ?r = "orders_api env (moment (snd ?d)) token (PurchaseOrderRequest ?po)"
  have t: "shipHero (snd ?d) = Some token" using assms(1) by simp
  have c: "createPurchaseOrderViaAPI env ?po (snd ?d)
           = (case snd ?r of NotOk status errorText \<Rightarrow>
                  Inl (''Failed to create purchase order: '' @ toString status @ '' '' @ errorText)
              | Ok body \<Rightarrow> Inr body,
              record_event (OrderCall token (PurchaseOrderRequest ?po) ?r) (snd ?d))"
    using t by (simp add: createPurchaseOrderViaAPI_def Let_def split: HttpResponse.splits)
  have e: "events (snd (createStandardReceivingPO env tourData workflowName s))
           = events s @ [OrderCall token (PurchaseOrderRequest ?po) ?r]"
    using assms(2) c
    by (simp add: createStandardReceivingPO_def Let_def split_beta split: HttpResponse.splits)
  have f: "fst (createStandardReceivingPO env tourData workflowName s) = purchaseOutcome workflowName ?r"
    using assms(2) c
    by (simp add: createStandardReceivingPO_def Let_def split_beta purchaseOutcome_def
          split: HttpResponse.splits)
  show ?thesis
    by (simp add: purchaseOrderRule_def newEvents_of_events [OF e] responses_def f)
qed

lemma excessBits_small: "p < 2 ^ 53 \<Longrightarrow> excessBits p = 0"
  by (subst excessBits.simps) simp

lemma excessBits_big: "\<not> p < 2 ^ 53 \<Longrightarrow> excessBits p = Suc (excessBits (p div 2))"
  by (subst excessBits.simps) simp

lemma excessBits_le:
  assumes "p < 2 ^ 55"
  shows "excessBits p \<le> 2"
proof (cases "p < 2 ^ 53")
  case True
  then show ?thesis by (simp add: excessBits_small)
next
  case False
  note a = excessBits_big [OF False]
  show ?thesis
  proof (cases "p div 2 < 2 ^ 53")
    case True
    then show ?thesis by (simp add: a excessBits_small)
  next
    case False
    have "p div 2 div 2 < 2 ^ 53" using assms by simp
    then have "excessBits (p div 2 div 2) = 0" by (rule excessBits_small)
    with a excessBits_big [OF False] show ?thesis by simp
  qed
qed

lemma roundToDouble_le:
  assumes "p < 2 ^ 55"
  shows "roundToDouble p \<le> p + 2"
proof -
  have "excessBits p = 0 \<or> excessBits p = 1 \<or> excessBits p = 2"
    using excessBits_le [OF assms] by arith
  then show ?thesis
  proof (elim disjE)
    assume "excessBits p = 0"
    then show ?thesis by (simp add: roundToDouble_def)
  next
    assume k: "excessBits p = 1"
    show ?thesis by (simp add: roundToDouble_def k Let_def, presburger)
  next
    assume k: "excessBits p = 2"
    show ?thesis by (simp add: roundToDouble_def k Let_def, presburger)
  qed
qed

lemma floorTimes_less:
  assumes "isDraw u"
  shows "floorTimes u 3 < 3"
proof -
  obtain m e where u: "u = (m, e)" by (cases u)
  from assms u have m: "m < 2 ^ 53" "m < 2 ^ e" by (simp_all add: isDraw_def)
  have "m * 3 < 2 ^ 55" using m(1) by simp
  then have "roundToDouble (m * 3) \<le> m * 3 + 2" by (rule roundToDouble_le)
  also have "\<dots> < 3 * 2 ^ e" using m(2) by simp
  finally have "roundToDouble (m * 3) div 2 ^ e < 3"
    by (simp add: less_mult_imp_div_less)
  then show ?thesis by (simp add: floorTimes_def u)
qed

lemma drawnQuantity_range:
  assumes "isDraw (Math_random env k)"
  shows "drawnQuantity env k \<in> {1, 2, 3}"
proof -
  have "floorTimes (Math_random env k) 3 < 3" using assms by (rule floorTimes_less)
  then have "floorTimes (Math_random env k) 3 = 0 \<or> floorTimes (Math_random env k) 3 = 1
             \<or> floorTimes (Math_random env k) 3 = 2"
    by arith
  then show ?thesis by (auto simp: drawnQuantity_def)
qed

text \<open>
  The rounding matters: three times the double below 2/3 lies halfway between 2 and the
  double below 2 and is rounded to 2, so that the quantity is 3.
\<close>

lemma floorTimes_below_two_thirds: "floorTimes (6004799503160661, 53) 3 = 2"
proof -
  have "excessBits 18014398509481983 = Suc (excessBits (18014398509481983 div 2))"
    by (rule excessBits_big) simp
  also have "excessBits (18014398509481983 div 2) = 0"
    by (rule excessBits_small) simp
  finally have k: "excessBits 18014398509481983 = 1" by simp
  show ?thesis
    by (simp add: floorTimes_def roundToDouble_def k Let_def)
qed

lemma floorTimes_examples: "floorTimes (0, 0) 3 = 0" "floorTimes (3, 2) 3 = 2"
  by (simp_all add: floorTimes_def roundToDouble_def excessBits_small)

lemma isDraw_examples: "isDraw (0, 0)" "isDraw (3, 2)"
  by (simp_all add: isDraw_def)

lemma submitSingleLine_call:
  assumes "shipHero s = Some token"
  shows "\<exists>answer.
           events (snd (submitSingleLine env orderData i s))
             = events s @ [salesCall token
                 (orderData i (drawnQuantity env (draws s)) (drawnQuantity env (Suc (draws s))),
                  answer)]
         \<and> draws (snd (submitSingleLine env orderData i s)) = draws s + 2
         \<and> shipHero (snd (submitSingleLine env orderData i s)) = Some token"
  using assms
  by (simp add: submitSingleLine_def split_beta randomInt_def createSalesOrderViaAPI_call
        drawnQuantity_def, metis prod.collapse)

lemma map_upt_Suc: "map f [0..<Suc n] = f 0 # map (\<lambda>j. f (Suc j)) [0..<n]"
  by (induction n) simp_all

lemma forLoop_two_draws:
  assumes "shipHero s = Some token"
  shows "\<exists>new. events (snd (forLoop i n (submitSingleLine env orderData) s)) = events s @ new
           \<and> salesRequests new
               = map (\<lambda>j. orderData (i + j) (drawnQuantity env (draws s + 2 * j))
                                      (drawnQuantity env (draws s + 2 * j + 1))) [0..<n]"
  using assms
proof (induction n arbitrary: i s)
  case 0
  show ?case by simp
next
  case (Suc n)
  let ?s1 = "snd (submitSingleLine env orderData i s)"
  from submitSingleLine_call [OF Suc.prems, of env orderData i] obtain answer where
    c: "events ?s1 = events s @ [salesCall token
          (orderData i (drawnQuantity env (draws s)) (drawnQuantity env (Suc (draws s))), answer)]"
       "draws ?s1 = draws s + 2" "shipHero ?s1 = Some token"
    by blast
  from Suc.IH [OF c(3), of "Suc i"] obtain new where
    n: "events (snd (forLoop (Suc i) n (submitSingleLine env orderData) ?s1)) = events ?s1 @ new"
       "salesRequests new
          = map (\<lambda>j. orderData (Suc i + j) (drawnQuantity env (draws ?s1 + 2 * j))
                                   (drawnQuantity env (draws ?s1 + 2 * j + 1))) [0..<n]"
    by blast
  show ?case
    by (rule exI [where x = "salesCall token
          (orderData i (drawnQuantity env (draws s)) (drawnQuantity env (Suc (draws s))), answer)
          # new"])
       (simp add: split_beta n c map_upt_Suc salesCall_def del: upt_Suc)
qed

lemma quantitiesOf_single_line:
  "quantitiesOf (demoOrderData env tourData orderPrefix celebrities i quantity pending)
     = ([quantity], [pending], toString (quantity * 15), toString (quantity * 15))"
  "quantitiesOf (simpleDemoOrderData now tourData orderPrefix i quantity pending)
     = ([quantity], [pending], toString (quantity * 15), toString (quantity * 15))"
  "quantitiesOf (hostDemoOrderData now tourData orderPrefix i quantity pending)
     = ([quantity], [pending], toString (quantity * 15), toString (quantity * 15))"
  by (simp_all add: quantitiesOf_def demoOrderData_def simpleDemoOrderData_def
        hostDemoOrderData_def singleLineOrderData_def demoLineItem_def Let_def)

lemma loop_two_draws:
  assumes tok: "shipHero s = Some token"
      and q: "\<And>i quantity pending. quantitiesOf (orderData i quantity pending)
                = ([quantity], [pending], toString (quantity * 15), toString (quantity * 15))"
  shows "map quantitiesOf (salesRequests (newEvents s
           (snd (case forLoop 0 count (submitSingleLine env orderData) s of
                   (orderPromises, s') \<Rightarrow> (awaitOrders orderPromises, s')))))
         = twoDraws env (draws s) count"
proof -
  from forLoop_two_draws [OF tok, of 0 count env orderData] obtain new where
    n: "events (snd (forLoop 0 count (submitSingleLine env orderData) s)) = events s @ new"
       "salesRequests new
          = map (\<lambda>j. orderData (0 + j) (drawnQuantity env (draws s + 2 * j))
                                   (drawnQuantity env (draws s + 2 * j + 1))) [0..<count]"
    by blast
  show ?thesis
    by (simp add: split_beta newEvents_of_events [OF n(1)] n(2) q twoDraws_def comp_def)
qed

lemma replicate_of_all: "list_all (\<lambda>x. f x = a) xs \<Longrightarrow> map f xs = replicate (length xs) a"
  by (induction xs) simp_all

subsection \<open>The handlers\<close>

lemma stepRuleI:
  assumes "shipHero s' = Some token" "events s' = events s @ new"
      and "returnsNormally r = list_all acceptedCall (orderCalls new)"
  shows "stepRule token s (r, s')"
  using assms by (simp add: stepRule_def newEvents_def)

lemma stepRuleD:
  assumes "stepRule token s (r, s')"
  shows "shipHero s' = Some token" "events s' = events s @ newEvents s s'"
    "returnsNormally r = list_all acceptedCall (orderCalls (newEvents s s'))"
proof -
  from assms show "shipHero s' = Some token" by (simp add: stepRule_def)
  from assms have "take (length (events s)) (events s') = events s" by (simp add: stepRule_def)
  then show "events s' = events s @ newEvents s s'"
    unfolding newEvents_def by (metis append_take_drop_id)
  from assms show "returnsNormally r = list_all acceptedCall (orderCalls (newEvents s s'))"
    by (simp add: stepRule_def)
qed

lemma step_then:
  assumes f: "stepRule token s (f s)"
      and g: "\<And>x s1. shipHero s1 = Some token \<Longrightarrow> stepRule token s1 (g x s1)"
  shows "stepRule token s (case f s of (Inl e, s1) \<Rightarrow> (Inl e, s1) | (Inr x, s1) \<Rightarrow> g x s1)"
proof (cases "f s")
  case (Pair r s1)
  note d = stepRuleD [OF f [unfolded Pair]]
  show ?thesis
  proof (cases r)
    case (Inl e)
    with Pair f show ?thesis by (simp add: stepRule_def returnsNormally_def)
  next
    case (Inr x)
    obtain r2 s2 where p2: "g x s1 = (r2, s2)" by fastforce
    note d2 = stepRuleD [OF g [OF d(1), of x, unfolded p2]]
    have e: "events s2 = events s @ (newEvents s s1 @ newEvents s1 s2)"
      using d(2) d2(2) by simp
    have "returnsNormally r2 = list_all acceptedCall (orderCalls (newEvents s s1 @ newEvents s1 s2))"
      using d(3) d2(3) Inr by (simp add: returnsNormally_def)
    with d2(1) e have "stepRule token s (r2, s2)" by (rule stepRuleI)
    with Pair Inr p2 show ?thesis by simp
  qed
qed

lemma acceptedCall_sales: "acceptedCall (SalesOrderRequest orderData, response) = httpOk response"
  by (simp add: acceptedCall_def httpOk_def split: HttpResponse.splits)

lemma accepted_salesCalls:
  "list_all acceptedCall (map (\<lambda>c. (SalesOrderRequest (fst c), snd c)) calls)
     = list_all httpOk (map snd calls)"
  by (induction calls) (simp_all add: acceptedCall_sales)

lemma returned_settled: "returnsNormally (settledSalesBatch rs) = list_all httpOk rs"
  by (cases "list_all httpOk rs") (simp_all add: settled_all_ok settled_rejected returnsNormally_def)

lemma batchShape_step:
  assumes "batchShape token P n s outcome"
  shows "stepRule token s outcome"
proof -
  from assms obtain calls where c:
    "events (snd outcome) = events s @ map (salesCall token) calls"
    "fst outcome = settledSalesBatch (map snd calls)"
    "shipHero (snd outcome) = Some token"
    unfolding batchShape_def by blast
  have "stepRule token s (fst outcome, snd outcome)"
    using c(3,1) by (rule stepRuleI) (simp add: c(2) returned_settled accepted_salesCalls)
  then show ?thesis by simp
qed

lemma createStandardReceivingPO_step:
  assumes "shipHero s = Some token" "selected_skus tourData \<noteq> []"
  shows "stepRule token s (createStandardReceivingPO env tourData workflowName s)"
proof -
  let ?d = "drawQuantities env (take 6 (selected_skus tourData)) s"
  let ?po = "poData (clock env) tourData workflowName (fst ?d)"
  let ?r = "orders_api env (moment (snd ?d)) token (PurchaseOrderRequest ?po)"
  let ?out = "createStandardReceivingPO env tourData workflowName s"
  have t: "shipHero (snd ?d) = Some token" using assms(1) by simp
  have c: "createPurchaseOrderViaAPI env ?po (snd ?d)
           = (case snd ?r of NotOk status errorText \<Rightarrow>
                  Inl (''Failed to create purchase order: '' @ toString status @ '' '' @ errorText)
              | Ok body \<Rightarrow> Inr body,
              record_event (OrderCall token (PurchaseOrderRequest ?po) ?r) (snd ?d))"
    using t by (simp add: createPurchaseOrderViaAPI_def Let_def split: HttpResponse.splits)
  have e: "events (snd ?out) = events s @ [OrderCall token (PurchaseOrderRequest ?po) ?r]"
    using assms(2) c
    by (simp add: createStandardReceivingPO_def Let_def split_beta split: HttpResponse.splits)
  have h: "shipHero (snd ?out) = Some token"
    using assms c
    by (simp add: createStandardReceivingPO_def Let_def split_beta split: HttpResponse.splits)
  have f: "fst ?out = purchaseOutcome workflowName ?r"
    using assms(2) c
    by (simp add: createStandardReceivingPO_def Let_def split_beta purchaseOutcome_def
          split: HttpResponse.splits)
  have "stepRule token s (fst ?out, snd ?out)"
    using h e
    by (rule stepRuleI)
       (simp add: f purchaseOutcome_def returnsNormally_def acceptedCall_def split: HttpResponse.splits)
  then show ?thesis by simp
qed

lemma step_return:
  "shipHero s = Some token \<Longrightarrow> stepRule token s (Inr x, s)"
  by (rule stepRuleI [where new = "[]"]) (simp_all add: returnsNormally_def)

lemma step_discard:
  assumes "stepRule token s (g s)"
  shows "stepRule token s (case g s of (Inl e, s2) \<Rightarrow> (Inl e, s2) | (Inr x, s2) \<Rightarrow> (Inr (), s2))"
  using assms
  by (cases "g s")
     (auto simp: stepRule_def returnsNormally_def split: sum.splits)

lemma handler_rules:
  assumes tok: "shipHero s = Some token" and skus: "selected_skus tourData \<noteq> []"
  shows "stepRule token s (createReceiveToLightWorkflowOrders env tourData s)"
    and "stepRule token s (createPackToLightWorkflowOrders env tourData s)"
    and "stepRule token s (createBulkShippingSOs env tourData s)"
    and "stepRule token s (createSingleItemBatchSOs env tourData s)"
    and "stepRule token s (createMultiItemBatchSOs env tourData s)"
proof -
  have p: "stepRule token s (createParticipantOrders env tourData orderPrefix s)" for orderPrefix
    by (rule batchShape_step [OF createParticipantOrders_batch [OF tok skus]])
  note po = createStandardReceivingPO_step [OF _ skus]
  show "stepRule token s (createReceiveToLightWorkflowOrders env tourData s)"
    unfolding createReceiveToLightWorkflowOrders_def by (rule po [OF tok])
  show "stepRule token s (createPackToLightWorkflowOrders env tourData s)"
    unfolding createPackToLightWorkflowOrders_def
  proof (rule step_then [where f = "createParticipantOrders env tourData ''P2L''", OF p])
    fix x :: "string list" and s1 :: world
    assume t1: "shipHero s1 = Some token"
    show "stepRule token s1
            (if length x = 0
             then case createHostDemoOrders env tourData ''P2L-HOST'' 3 s1 of
                    (Inl e, s2) \<Rightarrow> (Inl e, s2)
                  | (Inr hostOrders, s2) \<Rightarrow> createStandardReceivingPO env tourData ''P2L'' s2
             else createStandardReceivingPO env tourData ''P2L'' s1)"
    proof (cases "length x = 0")
      case True
      have "stepRule token s1
              (case createHostDemoOrders env tourData ''P2L-HOST'' 3 s1 of
                 (Inl e, s2) \<Rightarrow> (Inl e, s2)
               | (Inr hostOrders, s2) \<Rightarrow> createStandardReceivingPO env tourData ''P2L'' s2)"
        by (rule step_then [where f = "createHostDemoOrders env tourData ''P2L-HOST'' 3",
              OF batchShape_step [OF createHostDemoOrders_batch [OF t1 skus]]])
           (rule po)
      with True show ?thesis by simp
    next
      case False
      with po [OF t1] show ?thesis by simp
    qed
  qed
  show "stepRule token s (createBulkShippingSOs env tourData s)"
    unfolding createBulkShippingSOs_def
    by (rule step_then [where f = "createParticipantOrders env tourData ''BULK''", OF p],
        rule step_discard)
       (rule batchShape_step [OF createDemoOrders_batch [OF _ skus]])
  show "stepRule token s (createSingleItemBatchSOs env tourData s)"
    unfolding createSingleItemBatchSOs_def
    by (rule step_then [where f = "createParticipantOrders env tourData ''SINGLE''", OF p],
        rule step_discard)
       (rule batchShape_step [OF createDemoOrders_batch [OF _ skus]])
  show "stepRule token s (createMultiItemBatchSOs env tourData s)"
    unfolding createMultiItemBatchSOs_def
    by (rule step_then [where f = "createParticipantOrders env tourData ''MULTI''", OF p],
        rule step_discard)
       (rule batchShape_step [OF createMultiItemDemoOrders_batch [OF _ skus]])
qed

subsection \<open>Without a session or without SKUs\<close>

lemma raisesUnsubmittedI:
  "events s' = events s \<Longrightarrow> shipHero s' = shipHero s \<Longrightarrow> raisesUnsubmitted s (Inl e, s')"
  by (simp add: raisesUnsubmitted_def returnsNormally_def)

lemma raises_first:
  assumes "raisesUnsubmitted s (f s)"
  shows "raisesUnsubmitted s (case f s of (Inl e, s1) \<Rightarrow> (Inl e, s1) | (Inr x, s1) \<Rightarrow> g x s1)"
  using assms
  by (cases "f s") (auto simp: raisesUnsubmitted_def returnsNormally_def split: sum.splits)

lemma createSalesOrderViaAPI_no_session:
  "shipHero s = None \<Longrightarrow>
   createSalesOrderViaAPI env orderData s = ((0, Inl accessTokenOfUndefined), s)"
  by (simp add: createSalesOrderViaAPI_def)

lemma forLoop_no_session:
  assumes none: "shipHero s = None"
      and step: "\<And>i s. shipHero s = None \<Longrightarrow>
                 \<exists>orderData s0. events s0 = events s \<and> shipHero s0 = None
                   \<and> body i s = createSalesOrderViaAPI env orderData s0"
  shows "events (snd (forLoop i n body s)) = events s
       \<and> shipHero (snd (forLoop i n body s)) = None
       \<and> (0 < n \<longrightarrow> rejections (fst (forLoop i n body s)) \<noteq> [])"
  using none
proof (induction n arbitrary: i s)
  case 0
  then show ?case by simp
next
  case (Suc n)
  from step [OF Suc.prems, of i] obtain orderData s0 where
    s0: "events s0 = events s" "shipHero s0 = None"
    and b: "body i s = createSalesOrderViaAPI env orderData s0"
    by blast
  have c: "body i s = ((0, Inl accessTokenOfUndefined), s0)"
    using b createSalesOrderViaAPI_no_session [OF s0(2)] by simp
  from Suc.IH [OF s0(2), of "Suc i"] s0(1) show ?case
    by (simp add: c split_beta)
qed

lemma rejected_raises: "rejections promises \<noteq> [] \<Longrightarrow> \<not> returnsNormally (awaitOrders promises)"
  by (cases "rejections promises") (simp_all add: awaitOrders_def promiseAll_def returnsNormally_def)

lemma batch_no_session:
  assumes none: "shipHero s = None"
      and step: "\<And>i s. shipHero s = None \<Longrightarrow>
                 \<exists>orderData s0. events s0 = events s \<and> shipHero s0 = None
                   \<and> body i s = createSalesOrderViaAPI env orderData s0"
  shows "events (snd (case forLoop 0 n body s of
                        (orderPromises, s') \<Rightarrow> (awaitOrders orderPromises, s'))) = events s"
    and "0 < n \<Longrightarrow>
         raisesUnsubmitted s (case forLoop 0 n body s of
                                (orderPromises, s') \<Rightarrow> (awaitOrders orderPromises, s'))"
  using forLoop_no_session [OF none step, of 0 n] none
  by (simp_all add: split_beta raisesUnsubmitted_def rejected_raises)

lemma submitSingleLine_no_session:
  assumes "shipHero s = None"
  shows "\<exists>od s0. events s0 = events s \<and> shipHero s0 = None
           \<and> submitSingleLine env orderData i s = createSalesOrderViaAPI env od s0"
  by (intro exI [where x = "orderData i (fst (randomInt env 3 1 s))
                              (fst (randomInt env 3 1 (snd (randomInt env 3 1 s))))"]
            exI [where x = "snd (randomInt env 3 1 (snd (randomInt env 3 1 s)))"])
     (simp add: submitSingleLine_def split_beta assms)

lemma submitMultiItem_no_session:
  assumes "shipHero s = None"
  shows "\<exists>od s0. events s0 = events s \<and> shipHero s0 = None
           \<and> submitMultiItem env tourData orderPrefix celebrities i s
               = createSalesOrderViaAPI env od s0"
proof -
  let ?s1 = "snd (randomInt env 3 2 s)"
  let ?n = "min (fst (randomInt env 3 2 s)) (length (selected_skus tourData))"
  let ?loop = "forLoop 0 ?n (drawMultiLineItem env tourData i) ?s1"
  show ?thesis
    by (intro exI [where x = "multiItemOrderData env tourData orderPrefix celebrities i
                                (fst ?loop)"]
              exI [where x = "snd ?loop"])
       (simp add: submitMultiItem_def split_beta Let_def forLoop_events_same
          forLoop_shipHero_same assms)
qed

lemma participant_no_session:
  assumes "shipHero s = None"
  shows "\<exists>od s0. events s0 = events s \<and> shipHero s0 = None
           \<and> createSalesOrderViaAPI env (participantOrderData now tourData orderPrefix i) s
               = createSalesOrderViaAPI env od s0"
  by (intro exI [where x = "participantOrderData now tourData orderPrefix i"] exI [where x = s])
     (simp add: assms)

text \<open>
  Without a session or without SKUs a batch submits nothing, and it raises when it has an
  order to submit.
\<close>

lemma createDemoOrders_unsubmitted:
  assumes "\<not> submits s tourData"
  shows "events (snd (createDemoOrders env tourData orderPrefix count s)) = events s"
    and "0 < count \<Longrightarrow> raisesUnsubmitted s (createDemoOrders env tourData orderPrefix count s)"
proof -
  let ?loop = "case forLoop 0 count
                 (submitSingleLine env
                    (demoOrderData env tourData orderPrefix (getCelebrityNames env (moment s) count))) s of
               (orderPromises, s') \<Rightarrow> (awaitOrders orderPromises, s')"
  show "events (snd (createDemoOrders env tourData orderPrefix count s)) = events s"
  proof (cases "selected_skus tourData = []")
    case True
    then show ?thesis by (simp add: createDemoOrders_def)
  next
    case False
    with assms have none: "shipHero s = None" by (simp add: submits_def)
    have "events (snd ?loop) = events s"
      by (rule batch_no_session(1) [OF none]) (rule submitSingleLine_no_session)
    with False show ?thesis by (simp add: createDemoOrders_def Let_def)
  qed
  show "raisesUnsubmitted s (createDemoOrders env tourData orderPrefix count s)" if "0 < count"
  proof (cases "selected_skus tourData = []")
    case True
    then show ?thesis by (simp add: createDemoOrders_def raisesUnsubmittedI)
  next
    case False
    with assms have none: "shipHero s = None" by (simp add: submits_def)
    have "raisesUnsubmitted s ?loop"
      by (rule batch_no_session(2) [OF none _ that]) (rule submitSingleLine_no_session)
    with False show ?thesis by (simp add: createDemoOrders_def Let_def)
  qed
qed

lemma createSimpleDemoOrders_unsubmitted:
  assumes "\<not> submits s tourData"
  shows "events (snd (createSimpleDemoOrders env tourData orderPrefix count s)) = events s"
proof (cases "selected_skus tourData = []")
  case True
  then show ?thesis by (simp add: createSimpleDemoOrders_def)
next
  case False
  with assms have none: "shipHero s = None" by (simp add: submits_def)
  have "events (snd (case forLoop 0 count
                       (submitSingleLine env (simpleDemoOrderData (clock env) tourData orderPrefix)) s of
                     (orderPromises, s') \<Rightarrow> (awaitOrders orderPromises, s'))) = events s"
    by (rule batch_no_session(1) [OF none]) (rule submitSingleLine_no_session)
  with False show ?thesis by (simp add: createSimpleDemoOrders_def)
qed

lemma createHostDemoOrders_unsubmitted:
  assumes "\<not> submits s tourData"
  shows "events (snd (createHostDemoOrders env tourData orderPrefix count s)) = events s"
    and "0 < count \<Longrightarrow> raisesUnsubmitted s (createHostDemoOrders env tourData orderPrefix count s)"
proof -
  let ?loop = "case forLoop 0 count
                 (submitSingleLine env (hostDemoOrderData (clock env) tourData orderPrefix)) s of
               (orderPromises, s') \<Rightarrow> (awaitOrders orderPromises, s')"
  show "events (snd (createHostDemoOrders env tourData orderPrefix count s)) = events s"
  proof (cases "selected_skus tourData = []")
    case True
    then show ?thesis by (simp add: createHostDemoOrders_def)
  next
    case False
    with assms have none: "shipHero s = None" by (simp add: submits_def)
    have "events (snd ?loop) = events s"
      by (rule batch_no_session(1) [OF none]) (rule submitSingleLine_no_session)
    with False show ?thesis by (simp add: createHostDemoOrders_def)
  qed
  show "raisesUnsubmitted s (createHostDemoOrders env tourData orderPrefix count s)" if "0 < count"
  proof (cases "selected_skus tourData = []")
    case True
    then show ?thesis by (simp add: createHostDemoOrders_def raisesUnsubmittedI)
  next
    case False
    with assms have none: "shipHero s = None" by (simp add: submits_def)
    have "raisesUnsubmitted s ?loop"
      by (rule batch_no_session(2) [OF none _ that]) (rule submitSingleLine_no_session)
    with False show ?thesis by (simp add: createHostDemoOrders_def)
  qed
qed

lemma createMultiItemDemoOrders_unsubmitted:
  assumes "\<not> submits s tourData" and "0 < count"
  shows "raisesUnsubmitted s (createMultiItemDemoOrders env tourData orderPrefix count s)"
proof (cases "selected_skus tourData = []")
  case True
  then show ?thesis by (simp add: createMultiItemDemoOrders_def raisesUnsubmittedI)
next
  case False
  with assms have none: "shipHero s = None" by (simp add: submits_def)
  have "raisesUnsubmitted s
          (case forLoop 0 count
                  (submitMultiItem env tourData orderPrefix (getCelebrityNames env (moment s) count)) s of
             (orderPromises, s') \<Rightarrow> (awaitOrders orderPromises, s'))"
    by (rule batch_no_session(2) [OF none _ assms(2)]) (rule submitMultiItem_no_session)
  with False show ?thesis by (simp add: createMultiItemDemoOrders_def Let_def)
qed

lemma createParticipantOrders_unsubmitted:
  assumes "\<not> submits s tourData"
  shows "createParticipantOrders env tourData orderPrefix s = (Inr [], s)
       \<or> raisesUnsubmitted s (createParticipantOrders env tourData orderPrefix s)"
proof (cases "participants tourData = []")
  case True
  then show ?thesis by (simp add: createParticipantOrders_def)
next
  case False
  note people = this
  show ?thesis
  proof (cases "selected_skus tourData = []")
    case True
    with people show ?thesis by (simp add: createParticipantOrders_def raisesUnsubmittedI)
  next
    case False
    with assms have none: "shipHero s = None" by (simp add: submits_def)
    have "raisesUnsubmitted s
            (case forLoop 0 (length (participants tourData))
                    (\<lambda>i. createSalesOrderViaAPI env
                            (participantOrderData (clock env) tourData orderPrefix i)) s of
               (orderPromises, s') \<Rightarrow> (awaitOrders orderPromises, s'))"
    proof (rule batch_no_session(2) [where env = env, OF none])
      show "0 < length (participants tourData)" using people by simp
    next
      fix i and s' :: world
      assume "shipHero s' = None"
      then show "\<exists>orderData s0. events s0 = events s' \<and> shipHero s0 = None
                   \<and> createSalesOrderViaAPI env
                        (participantOrderData (clock env) tourData orderPrefix i) s'
                       = createSalesOrderViaAPI env orderData s0"
        by (rule participant_no_session)
    qed
    with False people show ?thesis by (simp add: createParticipantOrders_def)
  qed
qed

lemma createStandardReceivingPO_unsubmitted:
  assumes "\<not> submits s tourData"
  shows "raisesUnsubmitted s (createStandardReceivingPO env tourData workflowName s)"
proof (cases "selected_skus tourData = []")
  case True
  then show ?thesis by (simp add: createStandardReceivingPO_def raisesUnsubmittedI)
next
  case False
  with assms have none: "shipHero s = None" by (simp add: submits_def)
  with False show ?thesis
    by (simp add: createStandardReceivingPO_def createPurchaseOrderViaAPI_def Let_def split_beta
          raisesUnsubmitted_def returnsNormally_def)
qed

lemma participants_then_raises:
  assumes p: "createParticipantOrders env tourData orderPrefix s = (Inr [], s)
              \<or> raisesUnsubmitted s (createParticipantOrders env tourData orderPrefix s)"
      and g: "raisesUnsubmitted s (g [] s)"
  shows "raisesUnsubmitted s
           (case createParticipantOrders env tourData orderPrefix s of
              (Inl e, s1) \<Rightarrow> (Inl e, s1) | (Inr x, s1) \<Rightarrow> g x s1)"
  using p
proof
  assume "createParticipantOrders env tourData orderPrefix s = (Inr [], s)"
  with g show ?thesis by simp
next
  assume "raisesUnsubmitted s (createParticipantOrders env tourData orderPrefix s)"
  then show ?thesis by (rule raises_first)
qed

lemma handlers_unsubmitted:
  assumes n: "\<not> submits s tourData"
  shows "raisesUnsubmitted s (createReceiveToLightWorkflowOrders env tourData s)"
    and "raisesUnsubmitted s (createPackToLightWorkflowOrders env tourData s)"
    and "raisesUnsubmitted s (createBulkShippingSOs env tourData s)"
    and "raisesUnsubmitted s (createSingleItemBatchSOs env tourData s)"
    and "raisesUnsubmitted s (createMultiItemBatchSOs env tourData s)"
proof -
  note p = createParticipantOrders_unsubmitted [OF n]
  show "raisesUnsubmitted s (createReceiveToLightWorkflowOrders env tourData s)"
    unfolding createReceiveToLightWorkflowOrders_def
    by (rule createStandardReceivingPO_unsubmitted [OF n])
  show "raisesUnsubmitted s (createPackToLightWorkflowOrders env tourData s)"
    unfolding createPackToLightWorkflowOrders_def
    by (rule participants_then_raises [OF p])
       (simp, rule raises_first [where f = "createHostDemoOrders env tourData ''P2L-HOST'' 3"],
        simp add: createHostDemoOrders_unsubmitted(2) [OF n])
  show "raisesUnsubmitted s (createBulkShippingSOs env tourData s)"
    unfolding createBulkShippingSOs_def
    by (rule participants_then_raises [OF p], rule raises_first)
       (simp add: createDemoOrders_unsubmitted(2) [OF n])
  show "raisesUnsubmitted s (createSingleItemBatchSOs env tourData s)"
    unfolding createSingleItemBatchSOs_def
    by (rule participants_then_raises [OF p], rule raises_first)
       (simp add: createDemoOrders_unsubmitted(2) [OF n])
  show "raisesUnsubmitted s (createMultiItemBatchSOs env tourData s)"
    unfolding createMultiItemBatchSOs_def
    by (rule participants_then_raises [OF p], rule raises_first)
       (simp add: createMultiItemDemoOrders_unsubmitted [OF n])
qed

lemma handlerRule_of_step:
  assumes "stepRule token s outcome" "shipHero s = Some token" "selected_skus tourData \<noteq> []"
  shows "handlerRule tourData s outcome"
  using assms by (simp add: handlerRule_def stepRule_def submits_def Let_def)

lemma handlerRule_unsubmitted:
  assumes "raisesUnsubmitted s outcome" "\<not> submits s tourData"
  shows "handlerRule tourData s outcome"
  using assms by (simp add: handlerRule_def raisesUnsubmitted_def newEvents_def Let_def)

lemma handler_cases:
  assumes "\<And>token. shipHero s = Some token \<Longrightarrow> selected_skus tourData \<noteq> [] \<Longrightarrow>
             stepRule token s outcome"
      and "\<not> submits s tourData \<Longrightarrow> raisesUnsubmitted s outcome"
  shows "handlerRule tourData s outcome"
proof (cases "submits s tourData")
  case True
  then obtain token where t: "shipHero s = Some token" "selected_skus tourData \<noteq> []"
    by (auto simp: submits_def)
  from assms(1) [OF t] t show ?thesis by (rule handlerRule_of_step)
next
  case False
  from assms(2) [OF False] False show ?thesis by (rule handlerRule_unsubmitted)
qed

section \<open>Properties of the batches\<close>

text \<open>
  Claim C1, as the code has it. When the session is initialised and the tour has selected
  SKUs, every batch of sales-order submissions (participant, demo, host-demo and multi-item
  demo orders) submits all its orders, and an answer without an order is scoped to that
  order: the batch returns the orders that were created, one less for each such answer, and
  does not raise. A submission that is rejected (the response is not ok) makes the batch
  raise, with the error of the rejected submission that settles first, and the handler
  raises as well. The purchase-order handler raises when its submission is rejected or
  answered without a purchase order. Each of the six handlers returns normally exactly when the
  session is initialised, the tour has selected SKUs, none of its submissions was rejected
  and its purchase order, if it submitted one, was answered with a purchase order; without
  a session or without SKUs it submits nothing.
\<close>

theorem sales_batch_failures:
  "(submits s tourData \<longrightarrow>
      salesBatchRule (length (participants tourData)) s
        (createParticipantOrders env tourData orderPrefix s)
      \<and> salesBatchRule count s (createDemoOrders env tourData orderPrefix count s)
      \<and> salesBatchRule count s (createHostDemoOrders env tourData orderPrefix count s)
      \<and> salesBatchRule count s (createMultiItemDemoOrders env tourData orderPrefix count s)
      \<and> purchaseOrderRule workflowName s
          (createStandardReceivingPO env tourData workflowName s))
   \<and> handlerRule tourData s (createReceiveToLightWorkflowOrders env tourData s)
   \<and> handlerRule tourData s (createPackToLightWorkflowOrders env tourData s)
   \<and> handlerRule tourData s (createStandardReceivingPO env tourData ''STANDARD-RECEIVING'' s)
   \<and> handlerRule tourData s (createBulkShippingSOs env tourData s)
   \<and> handlerRule tourData s (createSingleItemBatchSOs env tourData s)
   \<and> handlerRule tourData s (createMultiItemBatchSOs env tourData s)"
proof (intro conjI impI)
  assume "submits s tourData"
  then obtain token where t: "shipHero s = Some token" "selected_skus tourData \<noteq> []"
    by (auto simp: submits_def)
  show "salesBatchRule (length (participants tourData)) s
          (createParticipantOrders env tourData orderPrefix s)"
    by (rule batchShape_rule) (rule createParticipantOrders_batch [OF t])
  show "salesBatchRule count s (createDemoOrders env tourData orderPrefix count s)"
    by (rule batchShape_rule) (rule createDemoOrders_batch [OF t])
  show "salesBatchRule count s (createHostDemoOrders env tourData orderPrefix count s)"
    by (rule batchShape_rule) (rule createHostDemoOrders_batch [OF t])
  show "salesBatchRule count s (createMultiItemDemoOrders env tourData orderPrefix count s)"
    by (rule batchShape_rule) (rule createMultiItemDemoOrders_batch [OF t])
  show "purchaseOrderRule workflowName s (createStandardReceivingPO env tourData workflowName s)"
    by (rule createStandardReceivingPO_rule [OF t])
next
  show "handlerRule tourData s (createReceiveToLightWorkflowOrders env tourData s)"
    by (rule handler_cases) (rule handler_rules, assumption+, rule handlers_unsubmitted)
  show "handlerRule tourData s (createPackToLightWorkflowOrders env tourData s)"
    by (rule handler_cases) (rule handler_rules, assumption+, rule handlers_unsubmitted)
  show "handlerRule tourData s (createStandardReceivingPO env tourData ''STANDARD-RECEIVING'' s)"
    by (rule handler_cases)
       (rule createStandardReceivingPO_step, assumption+, rule createStandardReceivingPO_unsubmitted)
  show "handlerRule tourData s (createBulkShippingSOs env tourData s)"
    by (rule handler_cases) (rule handler_rules, assumption+, rule handlers_unsubmitted)
  show "handlerRule tourData s (createSingleItemBatchSOs env tourData s)"
    by (rule handler_cases) (rule handler_rules, assumption+, rule handlers_unsubmitted)
  show "handlerRule tourData s (createMultiItemBatchSOs env tourData s)"
    by (rule handler_cases) (rule handler_rules, assumption+, rule handlers_unsubmitted)
qed

text \<open>
  Claim C7, as the code has it. With two participants, a non-empty SKU selection and every
  submission answered with an order, the bulk-shipping handler submits exactly 12 sales
  orders and no purchase order, and 12 orders are created: first the 2 participant orders,
  each with one line item for each of the first three selected SKUs, then the 10 demo
  orders, each with a single line item.
\<close>

theorem bulk_shipping_two_participants:
  assumes "shipHero s = Some token" and "selected_skus tourData \<noteq> []"
      and "length (participants tourData) = 2"
      and "list_all carriesOrder (responses (newEvents s (snd (createBulkShippingSOs env tourData s))))"
  shows "fst (createBulkShippingSOs env tourData s) = Inr ()
       \<and> length (salesRequests (newEvents s (snd (createBulkShippingSOs env tourData s)))) = 12
       \<and> length (createdOrders
             (responses (newEvents s (snd (createBulkShippingSOs env tourData s))))) = 12
       \<and> purchaseRequests (newEvents s (snd (createBulkShippingSOs env tourData s))) = []
       \<and> map (\<lambda>od. length (so_line_items od))
             (salesRequests (newEvents s (snd (createBulkShippingSOs env tourData s))))
           = replicate 2 (min 3 (length (selected_skus tourData))) @ replicate 10 1"
proof -
  let ?out = "createBulkShippingSOs env tourData s"
  from participants_then_batch [OF assms(1,2), where g = "createDemoOrders env tourData ''BULK-DEMO'' 10"
      and outcome = ?out and Q = "\<lambda>od. length (so_line_items od) = 1" and n = 10
      and env = env and orderPrefix = "''BULK''"]
  obtain calls1 calls2 where c: "length calls1 = length (participants tourData)"
    "list_all (\<lambda>od. length (so_line_items od) = min 3 (length (selected_skus tourData)))
       (map fst calls1)"
    "length calls2 = 10" "list_all (\<lambda>od. length (so_line_items od) = 1) (map fst calls2)"
    "if list_all httpOk (map snd calls1)
     then events (snd ?out) = events s @ map (salesCall token) (calls1 @ calls2)
          \<and> fst ?out = (case settledSalesBatch (map snd calls2) of
                           Inl e \<Rightarrow> Inl e | Inr demoOrders \<Rightarrow> Inr ())
     else events (snd ?out) = events s @ map (salesCall token) calls1
          \<and> fst ?out = Inl (salesRejection (firstRejected (map snd calls1)))"
    using createDemoOrders_batch [OF _ assms(2), where token = token and env = env
        and orderPrefix = "''BULK-DEMO''" and count = 10]
    by (auto simp: createBulkShippingSOs_def)
  have ok1: "list_all httpOk (map snd calls1)"
  proof (rule ccontr)
    assume n: "\<not> list_all httpOk (map snd calls1)"
    with c(5) have "events (snd ?out) = events s @ map (salesCall token) calls1" by simp
    then have "responses (newEvents s (snd ?out)) = map snd calls1"
      by (simp add: newEvents_of_events)
    with assms(4) have "list_all carriesOrder (map snd calls1)" by simp
    with n show False by (simp add: carries_ok)
  qed
  with c(5) have e: "events (snd ?out) = events s @ map (salesCall token) (calls1 @ calls2)"
    and f: "fst ?out = (case settledSalesBatch (map snd calls2) of
                          Inl e \<Rightarrow> Inl e | Inr demoOrders \<Rightarrow> Inr ())"
    by simp_all
  have n: "newEvents s (snd ?out) = map (salesCall token) (calls1 @ calls2)"
    by (rule newEvents_of_events [OF e])
  from assms(4) have carr: "list_all carriesOrder (map snd calls1 @ map snd calls2)"
    by (simp add: n)
  then have ok2: "list_all httpOk (map snd calls2)" by (simp add: carries_ok)
  have lines: "map (\<lambda>od. length (so_line_items od)) (map fst calls1)
               = replicate 2 (min 3 (length (selected_skus tourData)))"
    "map (\<lambda>od. length (so_line_items od)) (map fst calls2) = replicate 10 1"
    using replicate_of_all [OF c(2)] replicate_of_all [OF c(4)] c(1,3) assms(3) by simp_all
  have "length (createdOrders (map snd calls1 @ map snd calls2)) = 12"
    using created_all [OF carr] c(1,3) assms(3) by simp
  then show ?thesis
    using f ok2 c(1,3) assms(3) lines by (simp add: n settled_all_ok)
qed

text \<open>
  Claim C10. The orders that \<open>createDemoOrders\<close>, \<open>createSimpleDemoOrders\<close> and
  \<open>createHostDemoOrders\<close> submit (none without a session or without SKUs) are, in order,
  those of the two draws: order \<open>i\<close> has a single line item, whose \<open>quantity\<close> comes from
  one draw of \<open>Math.random()\<close> and whose \<open>quantity_pending_fulfillment\<close> comes from the
  next draw, and its subtotal and total price are 15 times the quantity, whatever the
  second draw. A draw gives a value in 1..3, and two draws can give different values.
\<close>

theorem demo_quantity_two_draws:
  "map quantitiesOf
     (salesRequests (newEvents s (snd (createDemoOrders env tourData orderPrefix count s))))
     = (if submits s tourData then twoDraws env (draws s) count else [])
   \<and> map quantitiesOf
     (salesRequests (newEvents s (snd (createSimpleDemoOrders env tourData orderPrefix count s))))
     = (if submits s tourData then twoDraws env (draws s) count else [])
   \<and> map quantitiesOf
     (salesRequests (newEvents s (snd (createHostDemoOrders env tourData orderPrefix count s))))
     = (if submits s tourData then twoDraws env (draws s) count else [])
   \<and> (isDraw (Math_random env k) \<longrightarrow> drawnQuantity env k \<in> {1, 2, 3})
   \<and> (\<exists>u v. isDraw u \<and> isDraw v \<and> floorTimes u 3 + 1 \<noteq> floorTimes v 3 + 1)"
proof (intro conjI impI)
  show "map quantitiesOf
          (salesRequests (newEvents s (snd (createDemoOrders env tourData orderPrefix count s))))
        = (if submits s tourData then twoDraws env (draws s) count else [])"
  proof (cases "submits s tourData")
    case True
    then obtain token where t: "shipHero s = Some token" "selected_skus tourData \<noteq> []"
      by (auto simp: submits_def)
    from loop_two_draws [OF t(1), of "demoOrderData env tourData orderPrefix
        (getCelebrityNames env (moment s) count)" count env] True t(2)
    show ?thesis by (simp add: createDemoOrders_def Let_def quantitiesOf_single_line)
  next
    case False
    then show ?thesis by (simp add: newEvents_def createDemoOrders_unsubmitted(1))
  qed
  show "map quantitiesOf
          (salesRequests (newEvents s (snd (createSimpleDemoOrders env tourData orderPrefix count s))))
        = (if submits s tourData then twoDraws env (draws s) count else [])"
  proof (cases "submits s tourData")
    case True
    then obtain token where t: "shipHero s = Some token" "selected_skus tourData \<noteq> []"
      by (auto simp: submits_def)
    from loop_two_draws [OF t(1), of "simpleDemoOrderData (clock env) tourData orderPrefix"
        count env] True t(2)
    show ?thesis by (simp add: createSimpleDemoOrders_def quantitiesOf_single_line)
  next
    case False
    then show ?thesis by (simp add: newEvents_def createSimpleDemoOrders_unsubmitted)
  qed
  show "map quantitiesOf
          (salesRequests (newEvents s (snd (createHostDemoOrders env tourData orderPrefix count s))))
        = (if submits s tourData then twoDraws env (draws s) count else [])"
  proof (cases "submits s tourData")
    case True
    then obtain token where t: "shipHero s = Some token" "selected_skus tourData \<noteq> []"
      by (auto simp: submits_def)
    from loop_two_draws [OF t(1), of "hostDemoOrderData (clock env) tourData orderPrefix"
        count env] True t(2)
    show ?thesis by (simp add: createHostDemoOrders_def quantitiesOf_single_line)
  next
    case False
    then show ?thesis by (simp add: newEvents_def createHostDemoOrders_unsubmitted(1))
  qed
  show "drawnQuantity env k \<in> {1, 2, 3}" if "isDraw (Math_random env k)"
    using that by (rule drawnQuantity_range)
  show "\<exists>u v. isDraw u \<and> isDraw v \<and> floorTimes u 3 + 1 \<noteq> floorTimes v 3 + 1"
    by (intro exI [where x = "(0, 0)"] exI [where x = "(3, 2)"])
       (simp add: isDraw_examples floorTimes_examples)
qed

section \<open>The demonstration sections of the guide\<close>

lemma demonstrations_append [simp]:
  "demonstrations (xs @ ys) = demonstrations xs @ demonstrations ys"
  by (induction xs) (simp_all split: option.splits)

lemma digitChar_not_colon: "d < 10 \<Longrightarrow> digitChar d \<noteq> CHR '':''"
  using digit_cases [of d] by (auto simp: digitChar_def)

lemma toString_no_colon: "c \<in> set (toString n) \<Longrightarrow> c \<noteq> CHR '':''"
  using toString_digits [of c n] digitChar_not_colon by auto

lemma heading_number:
  "takeWhile (\<lambda>c. c \<noteq> CHR '':'') (toString n @ CHR '':'' # rest) = toString n"
  "dropWhile (\<lambda>c. c \<noteq> CHR '':'') (toString n @ CHR '':'' # rest) = CHR '':'' # rest"
  using toString_no_colon [of _ n]
  by (simp_all add: takeWhile_append2 dropWhile_append2)

lemma not_heading: "take 3 piece \<noteq> ''## '' \<Longrightarrow> demonstrationOf piece = None"
  by (simp add: demonstrationOf_def)

lemma not_demonstration:
  "take 15 (drop 7 piece) \<noteq> '' DEMONSTRATION '' \<Longrightarrow> demonstrationOf piece = None"
  by (simp add: demonstrationOf_def)

lemma receiveToLightSection_demonstrations:
  "demonstrations (receiveToLightSection n) = [(n, ''receive_to_light'')]"
  by (simp add: receiveToLightSection_def not_heading)
     (simp add: demonstrationOf_def heading_number digitsValue_toString demonstrationTitles_def)

lemma packToLightSection_demonstrations:
  "demonstrations (packToLightSection n) = [(n, ''pack_to_light'')]"
  by (simp add: packToLightSection_def not_heading)
     (simp add: demonstrationOf_def heading_number digitsValue_toString demonstrationTitles_def)

lemma multiItemBatchSection_demonstrations:
  "demonstrations (multiItemBatchSection n) = [(n, ''multi_item_batch'')]"
  by (simp add: multiItemBatchSection_def not_heading)
     (simp add: demonstrationOf_def heading_number digitsValue_toString demonstrationTitles_def)

lemma singleItemBatchSection_demonstrations:
  "demonstrations (singleItemBatchSection n) = [(n, ''single_item_batch'')]"
  by (simp add: singleItemBatchSection_def not_heading)
     (simp add: demonstrationOf_def heading_number digitsValue_toString demonstrationTitles_def)

lemma bulkShippingSection_demonstrations:
  "demonstrations (bulkShippingSection n) = [(n, ''bulk_shipping'')]"
  by (simp add: bulkShippingSection_def not_heading)
     (simp add: demonstrationOf_def heading_number digitsValue_toString demonstrationTitles_def)

lemma guideOpening_demonstrations: "demonstrations (guideOpening now tourData) = []"
  by (simp add: guideOpening_def not_heading not_demonstration)

lemma guideClosing_demonstrations: "demonstrations (guideClosing now tourData) = []"
  by (simp add: guideClosing_def not_heading not_demonstration)

lemma addSection_demonstrations:
  assumes "\<And>n. demonstrations (section n) = [(n, key)]"
  shows "demonstrations (fst (addSection selectedWorkflows key section st))
           = demonstrations (fst st) @ (if key \<in> set selectedWorkflows then [(snd st, key)] else [])"
    and "snd (addSection selectedWorkflows key section st)
           = (if key \<in> set selectedWorkflows then snd st + 1 else snd st)"
  by (simp_all add: addSection_def split_beta assms)

lemmas section_demonstrations =
  addSection_demonstrations [of receiveToLightSection, OF receiveToLightSection_demonstrations]
  addSection_demonstrations [of packToLightSection, OF packToLightSection_demonstrations]
  addSection_demonstrations [of multiItemBatchSection, OF multiItemBatchSection_demonstrations]
  addSection_demonstrations [of singleItemBatchSection, OF singleItemBatchSection_demonstrations]
  addSection_demonstrations [of bulkShippingSection, OF bulkShippingSection_demonstrations]

text \<open>
  Claim C2, as the code has it. The guide contains one demonstration section for each
  selected workflow among receive-to-light, pack-to-light, multi-item-batch,
  single-item-batch and bulk-shipping, numbered from 1, in this order, which is fixed by the
  generator and does not depend on the order of the selected-workflow list.
\<close>

theorem guide_sections_in_guide_order:
  "demonstrations (guidePieces now tourData)
     = enumerate 1 (filter (\<lambda>w. w \<in> set (selected_workflows tourData)) guideOrder)"
  by (simp add: guidePieces_def Let_def section_demonstrations guideOpening_demonstrations
        guideClosing_demonstrations guideOrder_def)

section \<open>The example tour\<close>

lemma example_init:
  "initializeShipHero (exampleEnv (Some ''refresh-1'') workflows people skus api updateError) s
     = (Inr (), record_event (TokenCall ''refresh-1'') s\<lparr>shipHero := Some ''access-1''\<rparr>)"
  by (simp add: initializeShipHero_def exampleEnv_def Let_def)

lemma example_load:
  "getTourDetails (exampleEnv refreshToken workflows people skus api updateError) tourId s
     = (Inr (exampleTour workflows people skus), loaded tourId s)"
  by (simp add: getTourDetails_def exampleEnv_def Let_def exampleTour_def loaded_def)

lemma example_allowed:
  "handlersAllowed (exampleEnv (Some ''refresh-1'') workflows people skus api updateError) tourId s"
  by (simp add: handlersAllowed_def example_init example_load)

lemma example_fields [simp]:
  "clock (exampleEnv refreshToken workflows people skus api updateError) = exampleClock"
  "tours_update (exampleEnv refreshToken workflows people skus api updateError) t key status
     = updateError"
  "orders_api (exampleEnv refreshToken workflows people skus api updateError) t token request
     = (t, api t)"
  "Math_random (exampleEnv refreshToken workflows people skus api updateError) k
     = (if even k then (0, 0) else (3, 2))"
  "getCelebrityNames (exampleEnv refreshToken workflows people skus api updateError) t n = []"
  by (simp_all add: exampleEnv_def)

lemma example_tour_fields [simp]:
  "selected_skus (exampleTour workflows people skus) = skus"
  "participants (exampleTour workflows people skus) = people"
  "selected_workflows (exampleTour workflows people skus) = workflows"
  by (simp_all add: exampleTour_def)

lemma initialised_fields [simp]:
  "shipHero initialised = Some ''access-1''" "events initialised = []" "draws initialised = 0"
  by (simp_all add: initialised_def)

lemma forLoop_numeral:
  "forLoop i (numeral k) body s =
     (case body i s of (x, s1) \<Rightarrow>
        (case forLoop (Suc i) (pred_numeral k) body s1 of (xs, s2) \<Rightarrow> (x # xs, s2)))"
  by (simp add: numeral_eq_Suc)

lemma forLoop_one:
  "forLoop i 1 body s = (case body i s of (x, s1) \<Rightarrow> ([x], s1))"
  by (simp add: split_beta)

lemma toString_500: "toString 500 = ''500''"
  by (simp add: toString.simps digitChar_def)

lemma toString_15: "toString 15 = ''15''"
  by (simp add: toString.simps digitChar_def)

lemma toString_503: "toString 503 = ''503''"
  by (simp add: toString.simps digitChar_def)

lemma upt_two: "[0..<2] = [0, 1]"
  by (simp add: numeral_2_eq_2)

lemmas batch_eval =
  createBulkShippingSOs_def createParticipantOrders_def createDemoOrders_def
  submitSingleLine_def randomInt_def createSalesOrderViaAPI_call awaitOrders_def promiseAll_def
  successful_def salesOutcome_def salesCall_def record_event_def moment_def Let_def
  forLoop_numeral forLoop_one

lemmas finalize_eval =
  finalizeTour_def example_init example_load logicBlocks_def logicBlock_def
  generateInstructionGuide_def updateTourStatus_def
  createReceiveToLightWorkflowOrders_def createPackToLightWorkflowOrders_def
  createStandardReceivingPO_def createPurchaseOrderViaAPI_def createHostDemoOrders_def
  loaded_def newService_def

lemma example_blocks_without_skus:
  "logicBlocks env (exampleTour workflows people []) [standard_receiving] s
     = ([noSkusForStandardReceiving], record_event (HandlerCall standard_receiving) s)"
  by (simp add: logicBlocks_def logicBlock_def createStandardReceivingPO_def
        noSkusForStandardReceiving_def)

lemma example_finalize_without_skus:
  "fst (finalizeTour (exampleEnv (Some ''refresh-1'') workflows people [] api updateError)
          ''tour-1'' [standard_receiving] s)
     = (case updateError of
          Some e \<Rightarrow> finalizationFailed (''Failed to update tour status: '' @ e)
                      [noSkusForStandardReceiving]
        | None \<Rightarrow> finalized exampleClock (exampleTour workflows people []) [standard_receiving]
                     [noSkusForStandardReceiving]
                     (concat (guidePieces exampleClock (exampleTour workflows people []))))"
  by (simp add: finalizeTour_def example_init example_load example_blocks_without_skus
        generateInstructionGuide_def updateTourStatus_def Let_def split: option.splits)

subsection \<open>The orchestrator\<close>

text \<open>A selection in another order, with a repetition.\<close>

theorem finalize_execution_order_witness:
  "handlerCalls (newEvents newService (snd (finalizeTour
       (exampleEnv (Some ''refresh-1'') [] [] [''A''] (\<lambda>t. answerCreated) None) ''tour-1''
       [multi_item_batch, receive_to_light, multi_item_batch] newService)))
     = [receive_to_light, multi_item_batch]"
  using finalize_execution_order [of newService
      "exampleEnv (Some ''refresh-1'') [] [] [''A''] (\<lambda>t. answerCreated) None" "''tour-1''"
      "[multi_item_batch, receive_to_light, multi_item_batch]"]
  by (simp add: example_allowed executionOrder_def)

text \<open>No refresh token in local storage.\<close>

theorem session_failure_fails_fast_witness:
  "fst (initializeShipHero (exampleEnv None [] [] [''A''] (\<lambda>t. answerCreated) None) newService)
     = Inl refreshTokenRequired
   \<and> fst (finalizeTour (exampleEnv None [] [] [''A''] (\<lambda>t. answerCreated) None) ''tour-1''
            [bulk_shipping] newService)
     = \<lparr> success = False,
         message = ''Tour finalization failed: '' @ refreshTokenRequired,
         errors = [''Tour finalization failed: '' @ refreshTokenRequired],
         instructionGuide = None,
         finalizationResult = None \<rparr>
   \<and> statusUpdates (newEvents newService (snd (finalizeTour
        (exampleEnv None [] [] [''A''] (\<lambda>t. answerCreated) None) ''tour-1'' [bulk_shipping] newService)))
     = []
   \<and> handlerCalls (newEvents newService (snd (finalizeTour
        (exampleEnv None [] [] [''A''] (\<lambda>t. answerCreated) None) ''tour-1'' [bulk_shipping] newService)))
     = []"
proof -
  have h: "fst (initializeShipHero (exampleEnv None [] [] [''A''] (\<lambda>t. answerCreated) None) newService)
             = Inl refreshTokenRequired"
    by (simp add: initializeShipHero_def exampleEnv_def)
  show ?thesis
    using h session_failure_fails_fast [OF h, of "''tour-1''" "[bulk_shipping]"] by simp
qed

text \<open>
  Standard receiving is selected and fails (no SKU is selected): the status is still
  updated, once, at the end. When the datastore no longer returns the tour to the guide
  generator, the handler has run and the status is not updated.
\<close>

theorem status_written_once_after_handlers_witness:
  "statusUpdates (newEvents newService (snd (finalizeTour
       (exampleEnv (Some ''refresh-1'') [] [] [] (\<lambda>t. answerCreated) None) ''tour-1''
       [standard_receiving] newService)))
     = [(''tour-1'', ''finalized'')]
   \<and> last (newEvents newService (snd (finalizeTour
       (exampleEnv (Some ''refresh-1'') [] [] [] (\<lambda>t. answerCreated) None) ''tour-1''
       [standard_receiving] newService)))
     = DbUpdate ''tour-1'' ''finalized''
   \<and> handlerCalls (butlast (newEvents newService (snd (finalizeTour
       (exampleEnv (Some ''refresh-1'') [] [] [] (\<lambda>t. answerCreated) None) ''tour-1''
       [standard_receiving] newService))))
     = [standard_receiving]
   \<and> errors (fst (finalizeTour
       (exampleEnv (Some ''refresh-1'') [] [] [] (\<lambda>t. answerCreated) None) ''tour-1''
       [standard_receiving] newService))
     = [noSkusForStandardReceiving]
   \<and> statusUpdates (newEvents newService (snd (finalizeTour
       (tourLostAfter 2 (exampleEnv (Some ''refresh-1'') [] [] [] (\<lambda>t. answerCreated) None))
       ''tour-1'' [standard_receiving] newService)))
     = []
   \<and> handlerCalls (newEvents newService (snd (finalizeTour
       (tourLostAfter 2 (exampleEnv (Some ''refresh-1'') [] [] [] (\<lambda>t. answerCreated) None))
       ''tour-1'' [standard_receiving] newService)))
     = [standard_receiving]"
proof -
  let ?E = "exampleEnv (Some ''refresh-1'') [] [] [] (\<lambda>t. answerCreated) None"
  let ?L = "tourLostAfter 2 ?E"
  let ?s1 = "record_event (TokenCall ''refresh-1'') newService\<lparr>shipHero := Some ''access-1''\<rparr>"
  let ?s2 = "loaded ''tour-1'' ?s1"
  let ?s3 = "record_event (HandlerCall standard_receiving) ?s2"
  have i: "initializeShipHero ?E newService = (Inr (), ?s1)"
    by (rule example_init)
  have l: "getTourDetails ?E ''tour-1'' ?s1 = (Inr (exampleTour [] [] []), ?s2)"
    by (rule example_load)
  have b: "logicBlocks ?E (exampleTour [] [] []) [standard_receiving] ?s2
             = ([noSkusForStandardReceiving], ?s3)"
    by (rule example_blocks_without_skus)
  have r: "getTourDetails ?E ''tour-1'' ?s3 = (Inr (exampleTour [] [] []), loaded ''tour-1'' ?s3)"
    by (rule example_load)
  have i': "initializeShipHero ?L newService = (Inr (), ?s1)"
    by (simp add: initializeShipHero_def tourLostAfter_def exampleEnv_def Let_def)
  have l': "getTourDetails ?L ''tour-1'' ?s1 = (Inr (exampleTour [] [] []), ?s2)"
    by (simp add: getTourDetails_def tourLostAfter_def exampleEnv_def Let_def exampleTour_def
          loaded_def newService_def moment_def)
  have b': "logicBlocks ?L (exampleTour [] [] []) [standard_receiving] ?s2
              = ([noSkusForStandardReceiving], ?s3)"
    by (rule example_blocks_without_skus)
  have r': "fst (getTourDetails ?L ''tour-1'' ?s3) = Inl ''Failed to fetch tour: connection lost''"
    by (simp add: getTourDetails_def tourLostAfter_def exampleEnv_def Let_def loaded_def
          newService_def moment_def)
  show ?thesis
    using status_written_once_after_handlers [OF i l b]
      status_written_once_after_handlers [OF i' l' b']
    by (simp add: r r' executionOrder_def example_finalize_without_skus finalized_def Let_def)
qed

text \<open>
  Claim C5 as stated fails: session setup and data loading succeed and the selected handler
  runs, the guide generator cannot load the tour again, and the call ends in its outer
  catch without a status update.
\<close>

theorem status_not_written_without_guide:
  "handlersAllowed
     (tourLostAfter 2 (exampleEnv (Some ''refresh-1'') [] [] [] (\<lambda>t. answerCreated) None))
     ''tour-1'' newService
   \<and> handlerCalls (newEvents newService (snd (finalizeTour
       (tourLostAfter 2 (exampleEnv (Some ''refresh-1'') [] [] [] (\<lambda>t. answerCreated) None))
       ''tour-1'' [standard_receiving] newService)))
     = [standard_receiving]
   \<and> statusUpdates (newEvents newService (snd (finalizeTour
       (tourLostAfter 2 (exampleEnv (Some ''refresh-1'') [] [] [] (\<lambda>t. answerCreated) None))
       ''tour-1'' [standard_receiving] newService)))
     = []
   \<and> errors (fst (finalizeTour
       (tourLostAfter 2 (exampleEnv (Some ''refresh-1'') [] [] [] (\<lambda>t. answerCreated) None))
       ''tour-1'' [standard_receiving] newService))
     = [''Tour finalization failed: Failed to fetch tour: connection lost'',
        noSkusForStandardReceiving]"
  by (simp add: handlersAllowed_def finalizeTour_def initializeShipHero_def getTourDetails_def
        tourLostAfter_def exampleEnv_def logicBlocks_def logicBlock_def
        createStandardReceivingPO_def generateInstructionGuide_def
        noSkusForStandardReceiving_def newService_def newEvents_def record_event_def
        moment_def Let_def finalizationFailed_def)

text \<open>The same call returns a guide, one error and the message for one error.\<close>

theorem success_iff_no_errors_witness:
  "instructionGuide (fst (finalizeTour
       (exampleEnv (Some ''refresh-1'') [] [] [] (\<lambda>t. answerCreated) None) ''tour-1''
       [standard_receiving] newService)) \<noteq> None
   \<and> errors (fst (finalizeTour
       (exampleEnv (Some ''refresh-1'') [] [] [] (\<lambda>t. answerCreated) None) ''tour-1''
       [standard_receiving] newService)) = [noSkusForStandardReceiving]
   \<and> \<not> success (fst (finalizeTour
       (exampleEnv (Some ''refresh-1'') [] [] [] (\<lambda>t. answerCreated) None) ''tour-1''
       [standard_receiving] newService))
   \<and> message (fst (finalizeTour
       (exampleEnv (Some ''refresh-1'') [] [] [] (\<lambda>t. answerCreated) None) ''tour-1''
       [standard_receiving] newService)) = errorCountMessage 1"
  using success_iff_no_errors [of "exampleEnv (Some ''refresh-1'') [] [] [] (\<lambda>t. answerCreated) None"
      "''tour-1''" "[standard_receiving]" newService]
  by (simp add: example_finalize_without_skus finalized_def Let_def)

text \<open>
  Claim C6 as stated fails: the handler sequence completes with one workflow error, the
  status update fails, and the message is the top-level failure, not the error count.
\<close>

theorem message_after_failed_status_update:
  "handlerCalls (newEvents newService (snd (finalizeTour
       (exampleEnv (Some ''refresh-1'') [] [] [] (\<lambda>t. answerCreated) (Some ''timeout'')) ''tour-1''
       [standard_receiving] newService)))
     = [standard_receiving]
   \<and> errors (fst (finalizeTour
       (exampleEnv (Some ''refresh-1'') [] [] [] (\<lambda>t. answerCreated) (Some ''timeout'')) ''tour-1''
       [standard_receiving] newService))
     = [''Tour finalization failed: Failed to update tour status: timeout'',
        noSkusForStandardReceiving]
   \<and> message (fst (finalizeTour
       (exampleEnv (Some ''refresh-1'') [] [] [] (\<lambda>t. answerCreated) (Some ''timeout'')) ''tour-1''
       [standard_receiving] newService))
     = ''Tour finalization failed: Failed to update tour status: timeout''
   \<and> message (fst (finalizeTour
       (exampleEnv (Some ''refresh-1'') [] [] [] (\<lambda>t. answerCreated) (Some ''timeout'')) ''tour-1''
       [standard_receiving] newService))
     \<noteq> errorCountMessage 1
   \<and> message (fst (finalizeTour
       (exampleEnv (Some ''refresh-1'') [] [] [] (\<lambda>t. answerCreated) (Some ''timeout'')) ''tour-1''
       [standard_receiving] newService))
     \<noteq> errorCountMessage 2"
  by (simp add: finalize_eval noSkusForStandardReceiving_def newEvents_def record_event_def
        moment_def Let_def finalizationFailed_def errorCountMessage_def)

text \<open>Pack-to-light for the example tour without participants: three host orders and one purchase order.\<close>

theorem submitted_totals_agree_witness:
  "length (salesRequests (newEvents newService (snd (finalizeTour
       (exampleEnv (Some ''refresh-1'') [] [] [''A''] (\<lambda>t. answerCreated) None)
       ''tour-1'' [pack_to_light] newService)))) = 3
   \<and> length (purchaseRequests (newEvents newService (snd (finalizeTour
       (exampleEnv (Some ''refresh-1'') [] [] [''A''] (\<lambda>t. answerCreated) None)
       ''tour-1'' [pack_to_light] newService)))) = 1
   \<and> list_all salesTotalsAgree (salesRequests (newEvents newService (snd (finalizeTour
       (exampleEnv (Some ''refresh-1'') [] [] [''A''] (\<lambda>t. answerCreated) None)
       ''tour-1'' [pack_to_light] newService))))
   \<and> list_all purchaseTotalsAgree (purchaseRequests (newEvents newService (snd (finalizeTour
       (exampleEnv (Some ''refresh-1'') [] [] [''A''] (\<lambda>t. answerCreated) None)
       ''tour-1'' [pack_to_light] newService))))"
proof -
  have "length (salesRequests (newEvents newService (snd (finalizeTour
       (exampleEnv (Some ''refresh-1'') [] [] [''A''] (\<lambda>t. answerCreated) None)
       ''tour-1'' [pack_to_light] newService)))) = 3"
    "length (purchaseRequests (newEvents newService (snd (finalizeTour
       (exampleEnv (Some ''refresh-1'') [] [] [''A''] (\<lambda>t. answerCreated) None)
       ''tour-1'' [pack_to_light] newService)))) = 1"
    by (simp_all add: finalize_eval batch_eval answerCreated_def newEvents_def)
  then show ?thesis
    using submitted_totals_agree [of newService
        "exampleEnv (Some ''refresh-1'') [] [] [''A''] (\<lambda>t. answerCreated) None" "''tour-1''"
        "[pack_to_light]"]
    by simp
qed

text \<open>Receive-to-light for the example tour: one purchase order.\<close>

theorem purchase_orders_fixed_fields_witness:
  "length (purchaseRequests (newEvents newService (snd (finalizeTour
       (exampleEnv (Some ''refresh-1'') [] [] [''A''] (\<lambda>t. answerCreated) None)
       ''tour-1'' [receive_to_light] newService)))) = 1
   \<and> list_all fixedPurchaseFields (purchaseRequests (newEvents newService (snd (finalizeTour
       (exampleEnv (Some ''refresh-1'') [] [] [''A''] (\<lambda>t. answerCreated) None)
       ''tour-1'' [receive_to_light] newService))))"
proof -
  have "length (purchaseRequests (newEvents newService (snd (finalizeTour
       (exampleEnv (Some ''refresh-1'') [] [] [''A''] (\<lambda>t. answerCreated) None)
       ''tour-1'' [receive_to_light] newService)))) = 1"
    by (simp add: finalize_eval batch_eval answerCreated_def newEvents_def)
  then show ?thesis
    using purchase_orders_fixed_fields [of newService
        "exampleEnv (Some ''refresh-1'') [] [] [''A''] (\<lambda>t. answerCreated) None" "''tour-1''"
        "[receive_to_light]"]
    by simp
qed

subsection \<open>The batches\<close>

text \<open>
  Claim C1 as stated fails: bulk shipping submits ten demo sales orders, the fourth is
  rejected with status 500, the other nine are answered with an order; the handler raises
  and the workflow is reported as failed.
\<close>

theorem one_rejected_order_fails_workflow:
  "map httpOk (responses (newEvents newService (snd (finalizeTour
       (exampleEnv (Some ''refresh-1'') [] [] [''A''] (\<lambda>t. if t = 9 then answerRejected else answerCreated) None)
       ''tour-1'' [bulk_shipping] newService))))
     = [True, True, True, False, True, True, True, True, True, True]
   \<and> purchaseRequests (newEvents newService (snd (finalizeTour
       (exampleEnv (Some ''refresh-1'') [] [] [''A''] (\<lambda>t. if t = 9 then answerRejected else answerCreated) None)
       ''tour-1'' [bulk_shipping] newService)))
     = []
   \<and> errors (fst (finalizeTour
       (exampleEnv (Some ''refresh-1'') [] [] [''A''] (\<lambda>t. if t = 9 then answerRejected else answerCreated) None)
       ''tour-1'' [bulk_shipping] newService))
     = [''Bulk Shipping SOs failed: Failed to create sales order: 500 Internal Server Error'']
   \<and> \<not> success (fst (finalizeTour
       (exampleEnv (Some ''refresh-1'') [] [] [''A''] (\<lambda>t. if t = 9 then answerRejected else answerCreated) None)
       ''tour-1'' [bulk_shipping] newService))"
  by (simp add: finalize_eval batch_eval answerCreated_def answerRejected_def toString_500 newEvents_def
        responses_def httpOk_def finalized_def)

text \<open>
  The rules at the example tour, where the fourth demo order is answered without an order:
  the handler does not raise and nine orders are created. For the tour without SKUs the
  handler raises and submits nothing.
\<close>

theorem sales_batch_failures_witness:
  "submits initialised (exampleTour [] [] [''A''])
   \<and> salesBatchRule 10 initialised
     (createDemoOrders
        (exampleEnv (Some ''refresh-1'') [] [] [''A''] (\<lambda>t. if t = 3 then answerWithoutOrder else answerCreated) None)
        (exampleTour [] [] [''A'']) ''BULK-DEMO'' 10 initialised)
   \<and> handlerRule (exampleTour [] [] [''A'']) initialised
     (createBulkShippingSOs
        (exampleEnv (Some ''refresh-1'') [] [] [''A''] (\<lambda>t. if t = 3 then answerWithoutOrder else answerCreated) None)
        (exampleTour [] [] [''A'']) initialised)
   \<and> handlerRule (exampleTour [] [] [''A'']) initialised
     (createPackToLightWorkflowOrders
        (exampleEnv (Some ''refresh-1'') [] [] [''A''] (\<lambda>t. if t = 3 then answerWithoutOrder else answerCreated) None)
        (exampleTour [] [] [''A'']) initialised)
   \<and> fst (createBulkShippingSOs
        (exampleEnv (Some ''refresh-1'') [] [] [''A''] (\<lambda>t. if t = 3 then answerWithoutOrder else answerCreated) None)
        (exampleTour [] [] [''A'']) initialised)
     = Inr ()
   \<and> map carriesOrder (responses (newEvents initialised (snd (createBulkShippingSOs
        (exampleEnv (Some ''refresh-1'') [] [] [''A''] (\<lambda>t. if t = 3 then answerWithoutOrder else answerCreated) None)
        (exampleTour [] [] [''A'']) initialised))))
     = [True, True, True, False, True, True, True, True, True, True]
   \<and> length (createdOrders (responses (newEvents initialised (snd (createBulkShippingSOs
        (exampleEnv (Some ''refresh-1'') [] [] [''A''] (\<lambda>t. if t = 3 then answerWithoutOrder else answerCreated) None)
        (exampleTour [] [] [''A'']) initialised)))))
     = 9
   \<and> \<not> submits initialised (exampleTour [] [] [])
   \<and> handlerRule (exampleTour [] [] []) initialised
     (createBulkShippingSOs
        (exampleEnv (Some ''refresh-1'') [] [] [] (\<lambda>t. answerCreated) None)
        (exampleTour [] [] []) initialised)
   \<and> createBulkShippingSOs
        (exampleEnv (Some ''refresh-1'') [] [] [] (\<lambda>t. answerCreated) None)
        (exampleTour [] [] []) initialised
     = (Inl noSkusForOrders, initialised)"
proof -
  have "submits initialised (exampleTour [] [] [''A''])"
    by (simp add: submits_def)
  moreover have "\<not> submits initialised (exampleTour [] [] [])"
    by (simp add: submits_def)
  moreover have "createBulkShippingSOs
        (exampleEnv (Some ''refresh-1'') [] [] [] (\<lambda>t. answerCreated) None)
        (exampleTour [] [] []) initialised
     = (Inl noSkusForOrders, initialised)"
    by (simp add: createBulkShippingSOs_def createParticipantOrders_def createDemoOrders_def)
  moreover have "fst (createBulkShippingSOs
        (exampleEnv (Some ''refresh-1'') [] [] [''A''] (\<lambda>t. if t = 3 then answerWithoutOrder else answerCreated) None)
        (exampleTour [] [] [''A'']) initialised)
     = Inr ()"
    by (simp add: batch_eval answerCreated_def answerWithoutOrder_def)
  moreover have "map carriesOrder (responses (newEvents initialised (snd (createBulkShippingSOs
        (exampleEnv (Some ''refresh-1'') [] [] [''A''] (\<lambda>t. if t = 3 then answerWithoutOrder else answerCreated) None)
        (exampleTour [] [] [''A'']) initialised))))
     = [True, True, True, False, True, True, True, True, True, True]"
    by (simp add: batch_eval answerCreated_def answerWithoutOrder_def newEvents_def responses_def
          carriesOrder_def)
  moreover have "length (createdOrders (responses (newEvents initialised (snd (createBulkShippingSOs
        (exampleEnv (Some ''refresh-1'') [] [] [''A''] (\<lambda>t. if t = 3 then answerWithoutOrder else answerCreated) None)
        (exampleTour [] [] [''A'']) initialised)))))
     = 9"
    by (simp add: batch_eval answerCreated_def answerWithoutOrder_def newEvents_def responses_def)
  ultimately show ?thesis
    using sales_batch_failures [where s = initialised
        and tourData = "exampleTour [] [] [''A'']"
        and env = "exampleEnv (Some ''refresh-1'') [] [] [''A'']
                     (\<lambda>t. if t = 3 then answerWithoutOrder else answerCreated) None"
        and orderPrefix = "''BULK-DEMO''" and count = 10 and workflowName = "''R2L''"]
      sales_batch_failures [where s = initialised
        and tourData = "exampleTour [] [] []"
        and env = "exampleEnv (Some ''refresh-1'') [] [] [] (\<lambda>t. answerCreated) None"
        and orderPrefix = "''BULK-DEMO''" and count = 10 and workflowName = "''R2L''"]
    by simp
qed

text \<open>
  Two of three demo orders are rejected. When the promises settle in the order of the
  submissions the batch raises with the error of the first order; when they settle in the
  reverse order it raises with the error of the third.
\<close>

lemma first_settled_rejection_is_raised:
  "fst (createDemoOrders
          (exampleEnv (Some ''refresh-1'') [] [] [''A'']
             (\<lambda>t. if t = 0 then NotOk 500 ''first'' else if t = 2 then NotOk 503 ''third''
                   else answerCreated) None)
          (exampleTour [] [] [''A'']) ''BULK-DEMO'' 3 initialised)
     = Inl ''Failed to create sales order: 500 first''"
  "fst (createDemoOrders
          (settlingBackwards (exampleEnv (Some ''refresh-1'') [] [] [''A'']
             (\<lambda>t. if t = 0 then NotOk 500 ''first'' else if t = 2 then NotOk 503 ''third''
                   else answerCreated) None))
          (exampleTour [] [] [''A'']) ''BULK-DEMO'' 3 initialised)
     = Inl ''Failed to create sales order: 503 third''"
  by (simp_all add: batch_eval settlingBackwards_def answerCreated_def toString_500 toString_503)

text \<open>The twelve orders of the example tour with two participants and one SKU.\<close>

theorem bulk_shipping_two_participants_witness:
  "fst (createBulkShippingSOs
          (exampleEnv (Some ''refresh-1'') [] [] [''A''] (\<lambda>t. answerCreated) None)
          (exampleTour [] [exampleParticipant ''Bo'', exampleParticipant ''Cy''] [''A''])
          initialised) = Inr ()
   \<and> length (salesRequests (newEvents initialised (snd (createBulkShippingSOs
          (exampleEnv (Some ''refresh-1'') [] [] [''A''] (\<lambda>t. answerCreated) None)
          (exampleTour [] [exampleParticipant ''Bo'', exampleParticipant ''Cy''] [''A''])
          initialised)))) = 12
   \<and> map (\<lambda>od. length (so_line_items od)) (salesRequests (newEvents initialised (snd
        (createBulkShippingSOs
          (exampleEnv (Some ''refresh-1'') [] [] [''A''] (\<lambda>t. answerCreated) None)
          (exampleTour [] [exampleParticipant ''Bo'', exampleParticipant ''Cy''] [''A''])
          initialised))))
     = [1, 1, 1, 1, 1, 1, 1, 1, 1, 1, 1, 1]"
proof -
  let ?E = "exampleEnv (Some ''refresh-1'') [] [] [''A''] (\<lambda>t. answerCreated) None"
  let ?T = "exampleTour [] [exampleParticipant ''Bo'', exampleParticipant ''Cy''] [''A'']"
  have h: "list_all carriesOrder
             (responses (newEvents initialised (snd (createBulkShippingSOs ?E ?T initialised))))"
    by (simp add: batch_eval answerCreated_def newEvents_def responses_def carriesOrder_def)
  show ?thesis
    using bulk_shipping_two_participants [where s = initialised and token = "''access-1''"
        and tourData = ?T and env = ?E, OF _ _ _ h]
    by (simp add: eval_nat_numeral)
qed

text \<open>
  Claim C7 as stated fails: with two selected SKUs the two participant orders have two line
  items each.
\<close>

theorem participant_orders_have_several_lines:
  "list_all carriesOrder (responses (newEvents initialised (snd (createBulkShippingSOs
        (exampleEnv (Some ''refresh-1'') [] [] [''A'', ''B''] (\<lambda>t. answerCreated) None)
        (exampleTour [] [exampleParticipant ''Bo'', exampleParticipant ''Cy''] [''A'', ''B''])
        initialised))))
   \<and> map (\<lambda>od. length (so_line_items od)) (salesRequests (newEvents initialised (snd
        (createBulkShippingSOs
          (exampleEnv (Some ''refresh-1'') [] [] [''A'', ''B''] (\<lambda>t. answerCreated) None)
          (exampleTour [] [exampleParticipant ''Bo'', exampleParticipant ''Cy''] [''A'', ''B''])
          initialised))))
     = [2, 2, 1, 1, 1, 1, 1, 1, 1, 1, 1, 1]"
  by (simp add: batch_eval answerCreated_def newEvents_def responses_def carriesOrder_def
        demo_single_line participantOrderData_def participantLineItems_def)

text \<open>
  Two demo orders of the example tour: the draws are 0 and 3/4 in turn, so each order has
  quantity 1, pending quantity 3, and subtotal and total price 15.
\<close>

theorem demo_quantity_two_draws_witness:
  "submits initialised (exampleTour [] [] [''A''])
   \<and> map quantitiesOf (salesRequests (newEvents initialised (snd (createDemoOrders
        (exampleEnv (Some ''refresh-1'') [] [] [''A''] (\<lambda>t. answerCreated) None)
        (exampleTour [] [] [''A'']) ''BULK-DEMO'' 2 initialised))))
     = [([1], [3], ''15'', ''15''), ([1], [3], ''15'', ''15'')]
   \<and> isDraw (Math_random (exampleEnv (Some ''refresh-1'') [] [] [''A''] (\<lambda>t. answerCreated) None) 1)
   \<and> drawnQuantity (exampleEnv (Some ''refresh-1'') [] [] [''A''] (\<lambda>t. answerCreated) None) 1 = 3"
  using demo_quantity_two_draws [where s = initialised
      and env = "exampleEnv (Some ''refresh-1'') [] [] [''A''] (\<lambda>t. answerCreated) None"
      and tourData = "exampleTour [] [] [''A'']"
      and orderPrefix = "''BULK-DEMO''" and count = 2 and k = 1]
  by (simp add: submits_def twoDraws_def upt_two drawnQuantity_def floorTimes_examples
        isDraw_examples toString_15)

subsection \<open>The guide\<close>

text \<open>The guide of a tour that selects bulk shipping before receive-to-light.\<close>

theorem guide_sections_in_guide_order_witness:
  "demonstrations (guidePieces exampleClock
       (exampleTour [''bulk_shipping'', ''receive_to_light''] [] [''A'']))
     = [(1, ''receive_to_light''), (2, ''bulk_shipping'')]"
  using guide_sections_in_guide_order [of exampleClock
      "exampleTour [''bulk_shipping'', ''receive_to_light''] [] [''A'']"]
  by (simp add: guideOrder_def)

text \<open>
  Claim C2 as stated fails: with bulk-shipping and multi-item-batch selected, the
  multi-item section comes first; with standard-receiving selected, the guide has no
  demonstration section.
\<close>

theorem guide_sections_counterexample:
  "map snd (demonstrations (guidePieces exampleClock
       (exampleTour [''bulk_shipping'', ''multi_item_batch''] [] [''A''])))
     = [''multi_item_batch'', ''bulk_shipping'']
   \<and> filter (\<lambda>w. w \<in> set [''bulk_shipping'', ''multi_item_batch'']) canonicalOrder
     = [''bulk_shipping'', ''multi_item_batch'']
   \<and> demonstrations (guidePieces exampleClock (exampleTour [''standard_receiving''] [] [''A'']))
     = []
   \<and> filter (\<lambda>w. w \<in> set [''standard_receiving'']) canonicalOrder = [''standard_receiving'']"
  by (simp add: guidePieces_def Let_def section_demonstrations guideOpening_demonstrations
        guideClosing_demonstrations canonicalOrder_def)

end
